theory Spec2Isabelle
  imports Main "HOL-Library.Word" "HOL-Library.Sublist"
begin

unbundle bit_operations_syntax

section \<open>Strings, chunks and the destination\<close>

text \<open>
  A JavaScript string is a sequence of UTF-16 code units. Literals of the source are
  written \<open>js ''...''\<close>. A chunk is what \<open>stringToChunk\<close> and
  \<open>stringToPrecomputedChunk\<close> make of a string; the destination is the sequence of
  chunks written so far (\<open>writeChunk\<close> appends one).
\<close>

type_synonym code_unit = "16 word"
type_synonym jsstring = "code_unit list"

definition unit_of_char :: "char \<Rightarrow> code_unit" where
  "unit_of_char c = of_nat (of_char c)"

definition js :: "string \<Rightarrow> jsstring" where
  "js s = map unit_of_char s"

text \<open>
  The five helper bodies imported from
  \<open>fizz-instruction-set/ReactDOMFizzInstructionSetInlineCodeStrings\<close> are not part of
  the sources; they stay symbolic. \<open>CodeChunk f s\<close> is the chunk of the string \<open>f + s\<close>.
\<close>

datatype inline_code =
    clientRenderFunctionString
  | completeBoundaryFunctionString
  | completeContainerFunctionString
  | styleInsertionFunctionString
  | completeSegmentFunctionString

datatype chunk = Chunk jsstring | CodeChunk inline_code jsstring

definition stringToChunk :: "jsstring \<Rightarrow> chunk" where
  "stringToChunk content = Chunk content"

definition stringToPrecomputedChunk :: "jsstring \<Rightarrow> chunk" where
  "stringToPrecomputedChunk content = Chunk content"

definition clonePrecomputedChunk :: "chunk \<Rightarrow> chunk" where
  "clonePrecomputedChunk c = c"

type_synonym destination = "chunk list"

definition writeChunk :: "destination \<Rightarrow> chunk \<Rightarrow> destination" where
  "writeChunk destination c = destination @ [c]"

definition writeChunkAndReturn :: "destination \<Rightarrow> chunk \<Rightarrow> destination \<times> bool" where
  "writeChunkAndReturn destination c = (destination @ [c], True)"

fun writeChunks :: "destination \<Rightarrow> chunk list \<Rightarrow> destination" where
  "writeChunks destination [] = destination"
| "writeChunks destination (c # cs) = writeChunks (writeChunk destination c) cs"

text \<open>The text of a chunk, given the imported helper bodies.\<close>

fun chunk_text :: "(inline_code \<Rightarrow> jsstring) \<Rightarrow> chunk \<Rightarrow> jsstring" where
  "chunk_text code (Chunk s) = s"
| "chunk_text code (CodeChunk f s) = code f @ s"

definition written_text :: "(inline_code \<Rightarrow> jsstring) \<Rightarrow> destination \<Rightarrow> jsstring" where
  "written_text code destination = concat (map (chunk_text code) destination)"

text \<open>\<open>Number.prototype.toString(16)\<close> on a non-negative integer.\<close>

fun toString16 :: "nat \<Rightarrow> jsstring" where
  "toString16 n =
     (if n < 16 then [js ''0123456789abcdef'' ! n]
      else toString16 (n div 16) @ [js ''0123456789abcdef'' ! (n mod 16)])"

declare toString16.simps [simp del]

datatype error = Error string

section \<open>Feature flags, values and props\<close>

text \<open>
  \<open>shared/ReactFeatureFlags\<close> and the build constant \<open>__DEV__\<close> are not part of the
  sources: every function that reads one takes the flags as an argument.
\<close>

record flags =
  enableFloat :: bool
  enableFizzExternalRuntime :: bool
  DEV :: bool

text \<open>
  JavaScript values as they occur as prop values. Numbers are the integer-valued ones.
\<close>

datatype jsval =
    JUndefined | JNull | JBool bool | JNumber int | JString jsstring
  | JFunction | JSymbol | JArray "jsval list" | JObject "(jsstring \<times> jsval) list"

fun truthy :: "jsval \<Rightarrow> bool" where
  "truthy JUndefined = False"
| "truthy JNull = False"
| "truthy (JBool b) = b"
| "truthy (JNumber n) = (n \<noteq> 0)"
| "truthy (JString s) = (s \<noteq> [])"
| "truthy v = True"

fun nullish :: "jsval \<Rightarrow> bool" where
  "nullish JUndefined = True"
| "nullish JNull = True"
| "nullish v = False"

fun is_string :: "jsval \<Rightarrow> bool" where
  "is_string (JString s) = True"
| "is_string v = False"

text \<open>
  What the modelled code calls and the sources do not contain: \<open>escapeTextForBrowser\<close>,
  \<open>isAttributeNameSafe\<close> and \<open>sanitizeURL\<close> of other modules, \<open>pushAttribute\<close> as far as
  it depends on the property tables of \<open>DOMProperty\<close> (the strings of the chunks it pushes,
  or the exception it throws), and the builtins \<open>JSON.stringify\<close>,
  \<open>String.prototype.toLowerCase\<close> and the string coercion \<open>'' + v\<close> (which throws for
  a symbol).
\<close>

record externals =
  escapeTextForBrowser :: "jsstring \<Rightarrow> jsstring"
  JSON_stringify :: "jsstring \<Rightarrow> jsstring"
  pushAttribute :: "jsstring \<Rightarrow> jsval \<Rightarrow> error + jsstring list"
  string_of :: "jsval \<Rightarrow> error + jsstring"
  isAttributeNameSafe :: "jsstring \<Rightarrow> bool"
  sanitizeURL :: "jsstring \<Rightarrow> error option"
  toLowerCase :: "jsstring \<Rightarrow> jsstring"

text \<open>An object with string keys, in insertion order (the order of \<open>for ... in\<close>).\<close>

type_synonym props = "(jsstring \<times> jsval) list"

fun get_prop :: "props \<Rightarrow> jsstring \<Rightarrow> jsval" where
  "get_prop [] k = JUndefined"
| "get_prop ((k', v) # ps) k = (if k' = k then v else get_prop ps k)"

fun set_prop :: "props \<Rightarrow> jsstring \<Rightarrow> jsval \<Rightarrow> props" where
  "set_prop [] k v = [(k, v)]"
| "set_prop ((k', v') # ps) k v = (if k' = k then (k, v) # ps else (k', v') # set_prop ps k v)"

definition delete_prop :: "props \<Rightarrow> jsstring \<Rightarrow> props" where
  "delete_prop ps k = filter (\<lambda>(k', v). k' \<noteq> k) ps"

section \<open>Response state and format context\<close>

datatype streaming_format = ScriptStreamingFormat | DataStreamingFormat

type_synonym document_structure_tag = "32 word"

definition NONE :: document_structure_tag where "NONE = 0"
definition HTML :: document_structure_tag where "HTML = 1"
definition HEAD :: document_structure_tag where "HEAD = 2"
definition BODY :: document_structure_tag where "BODY = 4"
definition HTML_HEAD_OR_BODY :: document_structure_tag where "HTML_HEAD_OR_BODY = 7"
definition FLOW :: document_structure_tag where "FLOW = 8"

record bootstrap_script_descriptor =
  src :: jsstring
  integrity :: "jsstring option"

text \<open>
  A boundary ID is \<open>null\<close> or a precomputed chunk. Such a chunk is an object (a
  \<open>Uint8Array\<close>, new at every call of \<open>stringToPrecomputedChunk\<close>) and \<open>===\<close> compares
  two of them as objects, not by their bytes. The chunks that become boundary IDs are the
  one \<open>createResponseState\<close> makes from \<open>containerID\<close> and the one each call of
  \<open>assignSuspenseBoundaryID\<close> makes; \<open>chunk_object\<close> names these objects, the calls of
  \<open>assignSuspenseBoundaryID\<close> by the value of \<open>nextSuspenseID\<close>. An ID is the object with its
  bytes, so that equality of IDs is the \<open>===\<close> of the source: two IDs with the same bytes that
  were made by different calls are different.
\<close>

datatype chunk_object = ContainerChunk | BoundaryChunk nat

type_synonym suspense_boundary_id = "(chunk_object \<times> chunk) option"

record response_state =
  bootstrapChunks :: "chunk list"
  fallbackBootstrapChunks :: "chunk list option"
  htmlChunks :: "chunk list"
  headChunks :: "chunk list"
  requiresEmbedding :: bool
  rendered :: document_structure_tag
  flushed :: document_structure_tag
  charsetChunks :: "chunk list"
  hoistableChunks :: "chunk list"
  placeholderPrefix :: chunk
  segmentPrefix :: chunk
  boundaryPrefix :: jsstring
  containerBoundaryID :: suspense_boundary_id
  idPrefix :: jsstring
  nextSuspenseID :: nat
  streamingFormat :: streaming_format
  startInlineScript :: chunk
  sentCompleteSegmentFunction :: bool
  sentCompleteBoundaryFunction :: bool
  sentCompleteContainerFunction :: bool
  sentClientRenderFunction :: bool
  sentStyleInsertionFunction :: bool
  externalRuntimeConfig :: "bootstrap_script_descriptor option"

definition SVG_MODE :: nat where "SVG_MODE = 3"
definition MATHML_MODE :: nat where "MATHML_MODE = 4"
definition HTML_TABLE_MODE :: nat where "HTML_TABLE_MODE = 5"
definition HTML_TABLE_BODY_MODE :: nat where "HTML_TABLE_BODY_MODE = 6"
definition HTML_TABLE_ROW_MODE :: nat where "HTML_TABLE_ROW_MODE = 7"
definition HTML_COLGROUP_MODE :: nat where "HTML_COLGROUP_MODE = 8"

datatype selected_value = SelectedNull | SelectedString jsstring | SelectedArray "jsstring list"


section \<open>Creating the response state\<close>

text \<open>
  The regular expression \<open>/(<\/|<)(s)(cript)/gi\<close>. Under the \<open>i\<close> flag (without
  \<open>u\<close>) a code unit is compared after upper-casing, and a code unit outside ASCII never
  equals an ASCII one; \<open>canonicalize\<close> is that comparison key for the ASCII patterns used
  here.
\<close>

definition canonicalize :: "code_unit \<Rightarrow> code_unit" where
  "canonicalize c = (if 0x61 \<le> c \<and> c \<le> 0x7A then c - 0x20 else c)"

fun match_i :: "jsstring \<Rightarrow> jsstring \<Rightarrow> bool" where
  "match_i [] s = True"
| "match_i (p # ps) [] = False"
| "match_i (p # ps) (c # cs) = (canonicalize c = canonicalize p \<and> match_i ps cs)"

text \<open>
  A match of \<open>scriptRegex\<close> at the start of \<open>s\<close>: the three groups and the rest of the
  string. The alternative \<open><\/\<close> is tried before \<open><\<close>.
\<close>

definition scriptRegex_match ::
  "jsstring \<Rightarrow> (jsstring \<times> code_unit \<times> jsstring \<times> jsstring) option" where
  "scriptRegex_match s =
     (if match_i (js ''</script'') s then Some (take 2 s, s ! 2, take 5 (drop 3 s), drop 8 s)
      else if match_i (js ''<script'') s then Some (take 1 s, s ! 1, take 5 (drop 2 s), drop 7 s)
      else None)"

definition scriptReplacer :: "jsstring \<Rightarrow> code_unit \<Rightarrow> jsstring \<Rightarrow> jsstring" where
  "scriptReplacer pfx s sfx =
     pfx @ (if s = 0x73 then js (CHR 0x5C # ''u0073'') else js (CHR 0x5C # ''u0053'')) @ sfx"

function escapeBootstrapScriptContent :: "jsstring \<Rightarrow> jsstring" where
  "escapeBootstrapScriptContent scriptText =
     (if scriptText = [] then []
      else case scriptRegex_match scriptText of
             Some (pfx, s, sfx, rest) \<Rightarrow>
               scriptReplacer pfx s sfx @ escapeBootstrapScriptContent rest
           | None \<Rightarrow> hd scriptText # escapeBootstrapScriptContent (tl scriptText))"
  by pat_completeness auto
termination
  by (relation "measure length") (auto simp: scriptRegex_match_def split: if_splits)

text \<open>A case-insensitive occurrence of a pattern somewhere in a string.\<close>

fun occurs_i :: "jsstring \<Rightarrow> jsstring \<Rightarrow> bool" where
  "occurs_i p [] = match_i p []"
| "occurs_i p (c # cs) = (match_i p (c # cs) \<or> occurs_i p cs)"

text \<open>
  The claim in its own words. The unit at position \<open>i\<close> is the \<open>s\<close> of an occurrence when
  \<open>script\<close> starts at \<open>i\<close>, in any letter case, and the units before it end with \<open><\<close> or
  \<open></\<close>. \<open>replace_script_s\<close> is the string with each such unit replaced by the escape of
  its letter case, and every other unit kept.
\<close>

definition s_escape :: "code_unit \<Rightarrow> jsstring" where
  "s_escape s = (if s = 0x73 then js (CHR 0x5C # ''u0073'') else js (CHR 0x5C # ''u0053''))"

definition script_s_at :: "jsstring \<Rightarrow> nat \<Rightarrow> bool" where
  "script_s_at str i =
     (match_i (js ''script'') (drop i str)
      \<and> (suffix (js ''<'') (take i str) \<or> suffix (js ''</'') (take i str)))"

definition replace_script_s :: "jsstring \<Rightarrow> jsstring" where
  "replace_script_s str =
     concat (map (\<lambda>i. if script_s_at str i then s_escape (str ! i) else [str ! i])
               [0..<length str])"

text \<open>
  The same from left to right, with the units before the current one as an argument, and
  what must hold of the units before when the scan of the code is at the current one.
\<close>

fun scan_script_s :: "jsstring \<Rightarrow> jsstring \<Rightarrow> jsstring" where
  "scan_script_s before [] = []"
| "scan_script_s before (c # cs) =
     (if match_i (js ''script'') (c # cs)
         \<and> (suffix (js ''<'') before \<or> suffix (js ''</'') before)
      then s_escape c else [c])
     @ scan_script_s (before @ [c]) cs"

definition scan_ready :: "jsstring \<Rightarrow> jsstring \<Rightarrow> bool" where
  "scan_ready p s =
     (\<not> (suffix (js ''<'') p \<and> (match_i (js ''script'') s \<or> match_i (js ''/script'') s))
      \<and> \<not> (suffix (js ''</'') p \<and> match_i (js ''script'') s))"

section \<open>Escaping strings for instruction scripts\<close>

text \<open>
  \<open>String.prototype.replace\<close> with a global regular expression that is one character
  class, and a replacer function: every code unit of the class is replaced by what the
  replacer returns for it, and an exception of the replacer ends the call.
\<close>

fun replace_class ::
  "(code_unit \<Rightarrow> bool) \<Rightarrow> (code_unit \<Rightarrow> error + jsstring) \<Rightarrow> jsstring \<Rightarrow> error + jsstring" where
  "replace_class cls f [] = Inr []"
| "replace_class cls f (c # cs) =
     (if cls c then
        (case f c of
           Inl e \<Rightarrow> Inl e
         | Inr r \<Rightarrow> (case replace_class cls f cs of Inl e \<Rightarrow> Inl e | Inr rest \<Rightarrow> Inr (r @ rest)))
      else (case replace_class cls f cs of Inl e \<Rightarrow> Inl e | Inr rest \<Rightarrow> Inr (c # rest)))"

definition regexForJSStringsInInstructionScripts :: "code_unit \<Rightarrow> bool" where
  "regexForJSStringsInInstructionScripts c = (c = 0x3C \<or> c = 0x2028 \<or> c = 0x2029)"

definition instruction_script_replacer :: "code_unit \<Rightarrow> error + jsstring" where
  "instruction_script_replacer m =
     (if m = 0x3C then Inr (js (CHR 0x5C # ''u003c''))
      else if m = 0x2028 then Inr (js (CHR 0x5C # ''u2028''))
      else if m = 0x2029 then Inr (js (CHR 0x5C # ''u2029''))
      else Inl (Error ''escapeJSStringsForInstructionScripts encountered a match it does not know how to replace''))"

definition escapeJSStringsForInstructionScripts ::
  "externals \<Rightarrow> jsstring \<Rightarrow> error + jsstring" where
  "escapeJSStringsForInstructionScripts ex input =
     replace_class regexForJSStringsInInstructionScripts instruction_script_replacer
       (JSON_stringify ex input)"

definition regexForJSStringsInScripts :: "code_unit \<Rightarrow> bool" where
  "regexForJSStringsInScripts c =
     (c = 0x26 \<or> c = 0x3E \<or> c = 0x3C \<or> c = 0x2028 \<or> c = 0x2029)"

definition object_script_replacer :: "code_unit \<Rightarrow> error + jsstring" where
  "object_script_replacer m =
     (if m = 0x26 then Inr (js (CHR 0x5C # ''u0026''))
      else if m = 0x3E then Inr (js (CHR 0x5C # ''u003e''))
      else if m = 0x3C then Inr (js (CHR 0x5C # ''u003c''))
      else if m = 0x2028 then Inr (js (CHR 0x5C # ''u2028''))
      else if m = 0x2029 then Inr (js (CHR 0x5C # ''u2029''))
      else Inl (Error ''escapeJSObjectForInstructionScripts encountered a match it does not know how to replace''))"

text \<open>The callers pass strings; \<open>JSON.stringify\<close> of a string is a string.\<close>

definition escapeJSObjectForInstructionScripts ::
  "externals \<Rightarrow> jsstring \<Rightarrow> error + jsstring" where
  "escapeJSObjectForInstructionScripts ex input =
     replace_class regexForJSStringsInScripts object_script_replacer (JSON_stringify ex input)"

text \<open>What the two escapers put in the place of one code unit.\<close>

definition string_escape_unit :: "code_unit \<Rightarrow> jsstring" where
  "string_escape_unit c =
     (if c = 0x3C then js (CHR 0x5C # ''u003c'')
      else if c = 0x2028 then js (CHR 0x5C # ''u2028'')
      else if c = 0x2029 then js (CHR 0x5C # ''u2029'')
      else [c])"

definition object_escape_unit :: "code_unit \<Rightarrow> jsstring" where
  "object_escape_unit c =
     (if c = 0x26 then js (CHR 0x5C # ''u0026'')
      else if c = 0x3E then js (CHR 0x5C # ''u003e'')
      else string_escape_unit c)"

definition startInlineScriptChunk :: chunk where
  "startInlineScriptChunk = stringToPrecomputedChunk (js ''<script>'')"
definition endInlineScript :: chunk where
  "endInlineScript = stringToPrecomputedChunk (js ''</script>'')"
definition startScriptSrc :: chunk where
  "startScriptSrc = stringToPrecomputedChunk (js ''<script src=\"'')"
definition startModuleSrc :: chunk where
  "startModuleSrc = stringToPrecomputedChunk (js ''<script type=\"module\" src=\"'')"
definition scriptIntegirty :: chunk where
  "scriptIntegirty = stringToPrecomputedChunk (js ''\" integrity=\"'')"
definition endAsyncScript :: chunk where
  "endAsyncScript = stringToPrecomputedChunk (js ''\" async=\"\"></script>'')"

datatype script_config = ScriptString jsstring | ScriptDescriptor bootstrap_script_descriptor

fun script_config_src :: "script_config \<Rightarrow> jsstring" where
  "script_config_src (ScriptString s) = s"
| "script_config_src (ScriptDescriptor d) = src d"

fun script_config_integrity :: "script_config \<Rightarrow> jsstring option" where
  "script_config_integrity (ScriptString s) = None"
| "script_config_integrity (ScriptDescriptor d) = integrity d"

text \<open>One iteration over \<open>bootstrapScripts\<close> and \<open>bootstrapModules\<close>.\<close>

definition bootstrap_script_chunks ::
  "externals \<Rightarrow> chunk \<Rightarrow> script_config \<Rightarrow> chunk list" where
  "bootstrap_script_chunks ex start scriptConfig =
     [start, stringToChunk (escapeTextForBrowser ex (script_config_src scriptConfig))]
     @ (case script_config_integrity scriptConfig of
          Some i \<Rightarrow> if i \<noteq> [] then [scriptIntegirty, stringToChunk (escapeTextForBrowser ex i)]
                    else []
        | None \<Rightarrow> [])
     @ [endAsyncScript]"

definition bootstrap_chunks ::
  "externals \<Rightarrow> chunk \<Rightarrow> jsstring option \<Rightarrow> script_config list option
     \<Rightarrow> script_config list option \<Rightarrow> chunk list" where
  "bootstrap_chunks ex inlineScriptWithNonce scriptContent scripts modules =
     (case scriptContent of
        Some c \<Rightarrow> [inlineScriptWithNonce, stringToChunk (escapeBootstrapScriptContent c),
                   endInlineScript]
      | None \<Rightarrow> [])
     @ (case scripts of
          Some l \<Rightarrow> concat (map (bootstrap_script_chunks ex startScriptSrc) l)
        | None \<Rightarrow> [])
     @ (case modules of
          Some l \<Rightarrow> concat (map (bootstrap_script_chunks ex startModuleSrc) l)
        | None \<Rightarrow> [])"

definition createResponseState ::
  "flags \<Rightarrow> externals \<Rightarrow> jsstring option \<Rightarrow> jsstring option \<Rightarrow> jsstring option
     \<Rightarrow> script_config list option \<Rightarrow> script_config list option \<Rightarrow> jsstring option
     \<Rightarrow> script_config list option \<Rightarrow> script_config list option \<Rightarrow> script_config option
     \<Rightarrow> jsstring option \<Rightarrow> bool option \<Rightarrow> error + response_state" where
  "createResponseState fl ex identifierPrefix nonce bootstrapScriptContent
       bootstrapScripts bootstrapModules fallbackBootstrapScriptContent fallbackBootstrapScripts
       fallbackBootstrapModules externalRuntimeConfig0 containerID documentEmbedding =
     (let idPrefix0 = (case identifierPrefix of None \<Rightarrow> [] | Some p \<Rightarrow> p);
          inlineScriptWithNonce =
            (case nonce of
               None \<Rightarrow> startInlineScriptChunk
             | Some n \<Rightarrow> stringToPrecomputedChunk
                          (js ''<script nonce=\"'' @ escapeTextForBrowser ex n @ js ''\">''));
          fallbackChunks = bootstrap_chunks ex inlineScriptWithNonce
                             fallbackBootstrapScriptContent fallbackBootstrapScripts
                             fallbackBootstrapModules
      in if enableFizzExternalRuntime fl \<and> \<not> enableFloat fl then
           Inl (Error ''enableFizzExternalRuntime without enableFloat is not supported.'')
         else Inr \<lparr>
           bootstrapChunks = bootstrap_chunks ex inlineScriptWithNonce
                               bootstrapScriptContent bootstrapScripts bootstrapModules,
           fallbackBootstrapChunks = (if fallbackChunks \<noteq> [] then Some fallbackChunks else None),
           htmlChunks = [],
           headChunks = [],
           requiresEmbedding = (documentEmbedding = Some True),
           rendered = NONE,
           flushed = NONE,
           charsetChunks = [],
           hoistableChunks = [],
           placeholderPrefix = stringToPrecomputedChunk (idPrefix0 @ js ''P:''),
           segmentPrefix = stringToPrecomputedChunk (idPrefix0 @ js ''S:''),
           boundaryPrefix = idPrefix0 @ js ''B:'',
           containerBoundaryID =
             (case containerID of
                Some c \<Rightarrow> if c \<noteq> [] then Some (ContainerChunk, stringToPrecomputedChunk c)
                          else None
              | None \<Rightarrow> None),
           idPrefix = idPrefix0,
           nextSuspenseID = 0,
           streamingFormat =
             (if enableFizzExternalRuntime fl \<and> externalRuntimeConfig0 \<noteq> None
              then DataStreamingFormat else ScriptStreamingFormat),
           startInlineScript = inlineScriptWithNonce,
           sentCompleteSegmentFunction = False,
           sentCompleteBoundaryFunction = False,
           sentCompleteContainerFunction = False,
           sentClientRenderFunction = False,
           sentStyleInsertionFunction = False,
           externalRuntimeConfig =
             (if enableFizzExternalRuntime fl then
                (case externalRuntimeConfig0 of
                   None \<Rightarrow> None
                 | Some (ScriptString s) \<Rightarrow> Some \<lparr>src = s, integrity = None\<rparr>
                 | Some (ScriptDescriptor d) \<Rightarrow> Some d)
              else None) \<rparr>)"

text \<open>
  The response state of a document render with no options: \<open>createResponseState\<close> called
  with \<open>documentEmbedding = true\<close> and everything else undefined.
\<close>

definition document_response :: response_state where
  "document_response = \<lparr>
     bootstrapChunks = [], fallbackBootstrapChunks = None, htmlChunks = [], headChunks = [],
     requiresEmbedding = True, rendered = 0, flushed = 0, charsetChunks = [],
     hoistableChunks = [], placeholderPrefix = Chunk (js ''P:''), segmentPrefix = Chunk (js ''S:''),
     boundaryPrefix = js ''B:'', containerBoundaryID = None, idPrefix = [], nextSuspenseID = 0,
     streamingFormat = ScriptStreamingFormat, startInlineScript = Chunk (js ''<script>''),
     sentCompleteSegmentFunction = False, sentCompleteBoundaryFunction = False,
     sentCompleteContainerFunction = False, sentClientRenderFunction = False,
     sentStyleInsertionFunction = False, externalRuntimeConfig = None \<rparr>"

text \<open>The same without \<open>documentEmbedding\<close>.\<close>

definition stream_response :: response_state where
  "stream_response = document_response\<lparr>requiresEmbedding := False\<rparr>"

definition no_code :: "inline_code \<Rightarrow> jsstring" where
  "no_code f = []"

text \<open>
  One choice of the externals, for evaluating the model on examples: no escaping, quotes
  around a string for \<open>JSON.stringify\<close>, an attribute pushed as name and value.
\<close>

definition plain_externals :: externals where
  "plain_externals = \<lparr>
     escapeTextForBrowser = (\<lambda>s. s),
     JSON_stringify = (\<lambda>s. js ''\"'' @ s @ js ''\"''),
     pushAttribute = (\<lambda>name v. case v of JString s \<Rightarrow> Inr [js '' '', name, js ''=\"'', s, js ''\"'']
                                          | _ \<Rightarrow> Inr []),
     string_of = (\<lambda>v. case v of JString s \<Rightarrow> Inr s | JSymbol \<Rightarrow> Inl (Error ''TypeError'')
                                | _ \<Rightarrow> Inr []),
     isAttributeNameSafe = (\<lambda>name. True),
     sanitizeURL = (\<lambda>url. None),
     toLowerCase = (\<lambda>s. s) \<rparr>"

definition production_flags :: flags where
  "production_flags = \<lparr> enableFloat = True, enableFizzExternalRuntime = False, DEV = False \<rparr>"

section \<open>Text instances and end tags\<close>

definition textSeparator :: chunk where
  "textSeparator = stringToPrecomputedChunk (js ''<!-- -->'')"

definition encodeHTMLTextNode :: "externals \<Rightarrow> jsstring \<Rightarrow> jsstring" where
  "encodeHTMLTextNode ex text = escapeTextForBrowser ex text"

definition pushTextInstance ::
  "externals \<Rightarrow> chunk list \<Rightarrow> jsstring \<Rightarrow> response_state \<Rightarrow> bool
     \<Rightarrow> chunk list \<times> bool" where
  "pushTextInstance ex target text responseState textEmbedded =
     (if text = [] then (target, textEmbedded)
      else
        let target1 = (if textEmbedded then target @ [textSeparator] else target)
        in (target1 @ [stringToChunk (encodeHTMLTextNode ex text)], True))"

text \<open>
  Consecutive text pushes into one segment: each call gets the flag the previous one
  returned.
\<close>

fun pushTextInstances ::
  "externals \<Rightarrow> chunk list \<Rightarrow> jsstring list \<Rightarrow> response_state \<Rightarrow> bool
     \<Rightarrow> chunk list \<times> bool" where
  "pushTextInstances ex target [] responseState textEmbedded = (target, textEmbedded)"
| "pushTextInstances ex target (text # texts) responseState textEmbedded =
     (case pushTextInstance ex target text responseState textEmbedded of
        (target1, lastPushedText) \<Rightarrow> pushTextInstances ex target1 texts responseState lastPushedText)"

text \<open>The chunks of a list of texts with the separator between neighbours.\<close>

fun separated_texts :: "externals \<Rightarrow> jsstring list \<Rightarrow> chunk list" where
  "separated_texts ex [] = []"
| "separated_texts ex [t] = [Chunk (escapeTextForBrowser ex t)]"
| "separated_texts ex (t # u # ts) =
     Chunk (escapeTextForBrowser ex t) # textSeparator # separated_texts ex (u # ts)"

definition endTag1 :: chunk where "endTag1 = stringToPrecomputedChunk (js ''</'')"
definition endTag2 :: chunk where "endTag2 = stringToPrecomputedChunk (js ''>'')"




section \<open>Tag serialisers\<close>

text \<open>\<open>VALID_TAG_REGEX = /^[a-zA-Z][a-zA-Z:_\.\-\d]*$/\<close>.\<close>

definition is_letter :: "code_unit \<Rightarrow> bool" where
  "is_letter c = ((0x41 \<le> c \<and> c \<le> 0x5A) \<or> (0x61 \<le> c \<and> c \<le> 0x7A))"

definition is_tag_unit :: "code_unit \<Rightarrow> bool" where
  "is_tag_unit c =
     (is_letter c \<or> c = 0x3A \<or> c = 0x5F \<or> c = 0x2E \<or> c = 0x2D \<or> (0x30 \<le> c \<and> c \<le> 0x39))"

fun VALID_TAG_REGEX :: "jsstring \<Rightarrow> bool" where
  "VALID_TAG_REGEX [] = False"
| "VALID_TAG_REGEX (c # cs) = (is_letter c \<and> list_all is_tag_unit cs)"

definition startChunkForTag :: "jsstring \<Rightarrow> error + chunk" where
  "startChunkForTag tag =
     (if \<not> VALID_TAG_REGEX tag then Inl (Error ''Invalid tag'')
      else Inr (stringToPrecomputedChunk (js ''<'' @ tag)))"

definition endOfStartTag :: chunk where
  "endOfStartTag = stringToPrecomputedChunk (js ''>'')"
definition endOfStartTagSelfClosing :: chunk where
  "endOfStartTagSelfClosing = stringToPrecomputedChunk (js ''/>'')"
definition DOCTYPE :: chunk where
  "DOCTYPE = stringToPrecomputedChunk (js ''<!DOCTYPE html>'')"

text \<open>The \<open>for ... in\<close> loop of \<open>pushLinkImpl\<close> over the props that are left.\<close>

fun pushLinkImpl_props ::
  "flags \<Rightarrow> externals \<Rightarrow> bool \<Rightarrow> chunk list \<Rightarrow> props \<Rightarrow> error + chunk list" where
  "pushLinkImpl_props fl ex isStylesheet target [] = Inr target"
| "pushLinkImpl_props fl ex isStylesheet target ((propKey, propValue) # ps) =
     (if nullish propValue then pushLinkImpl_props fl ex isStylesheet target ps
      else if propKey = js ''children'' \<or> propKey = js ''dangerouslySetInnerHTML'' then
        Inl (Error ''link is a self-closing tag and must neither have `children` nor use `dangerouslySetInnerHTML`.'')
      else if propKey = js ''precedence'' \<and> enableFloat fl \<and> isStylesheet then
        pushLinkImpl_props fl ex isStylesheet target ps
      else (case pushAttribute ex propKey propValue of
              Inl e \<Rightarrow> Inl e
            | Inr strs \<Rightarrow>
                pushLinkImpl_props fl ex isStylesheet (target @ map stringToChunk strs) ps))"

definition pushLinkImpl :: "flags \<Rightarrow> externals \<Rightarrow> chunk list \<Rightarrow> props \<Rightarrow> error + chunk list" where
  "pushLinkImpl fl ex target ps =
     (case startChunkForTag (js ''link'') of
        Inl e \<Rightarrow> Inl e
      | Inr start \<Rightarrow>
          (case pushLinkImpl_props fl ex (get_prop ps (js ''rel'') = JString (js ''stylesheet''))
                  (target @ [start]) ps of
             Inl e \<Rightarrow> Inl e
           | Inr target1 \<Rightarrow> Inr (target1 @ [endOfStartTagSelfClosing])))"

fun pushSelfClosing_props :: "externals \<Rightarrow> chunk list \<Rightarrow> props \<Rightarrow> error + chunk list" where
  "pushSelfClosing_props ex target [] = Inr target"
| "pushSelfClosing_props ex target ((propKey, propValue) # ps) =
     (if nullish propValue then pushSelfClosing_props ex target ps
      else if propKey = js ''children'' \<or> propKey = js ''dangerouslySetInnerHTML'' then
        Inl (Error ''is a self-closing tag and must neither have `children` nor use `dangerouslySetInnerHTML`.'')
      else (case pushAttribute ex propKey propValue of
              Inl e \<Rightarrow> Inl e
            | Inr strs \<Rightarrow> pushSelfClosing_props ex (target @ map stringToChunk strs) ps))"

definition pushSelfClosing ::
  "externals \<Rightarrow> chunk list \<Rightarrow> props \<Rightarrow> jsstring \<Rightarrow> error + chunk list" where
  "pushSelfClosing ex target ps tag =
     (case startChunkForTag tag of
        Inl e \<Rightarrow> Inl e
      | Inr start \<Rightarrow>
          (case pushSelfClosing_props ex (target @ [start]) ps of
             Inl e \<Rightarrow> Inl e
           | Inr target1 \<Rightarrow> Inr (target1 @ [endOfStartTagSelfClosing])))"



definition pushInnerHTML :: "externals \<Rightarrow> chunk list \<Rightarrow> jsval \<Rightarrow> jsval \<Rightarrow> error + chunk list" where
  "pushInnerHTML ex target innerHTML children =
     (if \<not> nullish innerHTML then
        (if \<not> nullish children then
           Inl (Error ''Can only set one of `children` or `props.dangerouslySetInnerHTML`.'')
         else (case innerHTML of
                 JObject obj \<Rightarrow>
                   if js ''__html'' \<in> fst ` set obj then
                     (let html = get_prop obj (js ''__html'')
                      in if nullish html then Inr target
                         else (case string_of ex html of
                                 Inl e \<Rightarrow> Inl e
                               | Inr str \<Rightarrow> Inr (target @ [stringToChunk str])))
                   else Inl (Error ''`props.dangerouslySetInnerHTML` must be in the form `{__html: ...}`.'')
               | _ \<Rightarrow> Inl (Error ''`props.dangerouslySetInnerHTML` must be in the form `{__html: ...}`.'')))
      else Inr target)"

text \<open>
  The loop of \<open>pushScriptImpl\<close>: the target, and the last non-null \<open>children\<close> and
  \<open>dangerouslySetInnerHTML\<close> seen.
\<close>

fun pushScriptImpl_props ::
  "externals \<Rightarrow> chunk list \<Rightarrow> jsval \<Rightarrow> jsval \<Rightarrow> props \<Rightarrow> error + chunk list \<times> jsval \<times> jsval" where
  "pushScriptImpl_props ex target children innerHTML [] = Inr (target, children, innerHTML)"
| "pushScriptImpl_props ex target children innerHTML ((propKey, propValue) # ps) =
     (if nullish propValue then pushScriptImpl_props ex target children innerHTML ps
      else if propKey = js ''children'' then pushScriptImpl_props ex target propValue innerHTML ps
      else if propKey = js ''dangerouslySetInnerHTML'' then
        pushScriptImpl_props ex target children propValue ps
      else (case pushAttribute ex propKey propValue of
              Inl e \<Rightarrow> Inl e
            | Inr strs \<Rightarrow>
                pushScriptImpl_props ex (target @ map stringToChunk strs) children innerHTML ps))"

definition pushScriptImpl :: "externals \<Rightarrow> chunk list \<Rightarrow> props \<Rightarrow> error + chunk list" where
  "pushScriptImpl ex target ps =
     (case startChunkForTag (js ''script'') of
        Inl e \<Rightarrow> Inl e
      | Inr start \<Rightarrow>
          (case pushScriptImpl_props ex (target @ [start]) JNull JNull ps of
             Inl e \<Rightarrow> Inl e
           | Inr (target1, children, innerHTML) \<Rightarrow>
               (case pushInnerHTML ex (target1 @ [endOfStartTag]) innerHTML children of
                  Inl e \<Rightarrow> Inl e
                | Inr target2 \<Rightarrow>
                    Inr ((case children of
                            JString c \<Rightarrow> target2 @ [stringToChunk (encodeHTMLTextNode ex c)]
                          | _ \<Rightarrow> target2)
                         @ [endTag1, stringToChunk (js ''script''), endTag2]))))"

fun pushTitleImpl_props ::
  "externals \<Rightarrow> chunk list \<Rightarrow> jsval \<Rightarrow> props \<Rightarrow> error + chunk list \<times> jsval" where
  "pushTitleImpl_props ex target children [] = Inr (target, children)"
| "pushTitleImpl_props ex target children ((propKey, propValue) # ps) =
     (if nullish propValue then pushTitleImpl_props ex target children ps
      else if propKey = js ''children'' then pushTitleImpl_props ex target propValue ps
      else if propKey = js ''dangerouslySetInnerHTML'' then
        Inl (Error ''`dangerouslySetInnerHTML` does not make sense on <title>.'')
      else (case pushAttribute ex propKey propValue of
              Inl e \<Rightarrow> Inl e
            | Inr strs \<Rightarrow> pushTitleImpl_props ex (target @ map stringToChunk strs) children ps))"

definition pushTitleImpl :: "externals \<Rightarrow> chunk list \<Rightarrow> props \<Rightarrow> error + chunk list" where
  "pushTitleImpl ex target ps =
     (case startChunkForTag (js ''title'') of
        Inl e \<Rightarrow> Inl e
      | Inr start \<Rightarrow>
          (case pushTitleImpl_props ex (target @ [start]) JNull ps of
             Inl e \<Rightarrow> Inl e
           | Inr (target1, children) \<Rightarrow>
               (let child = (case children of
                               JArray [] \<Rightarrow> JUndefined
                             | JArray [c] \<Rightarrow> c
                             | JArray (c # d # cs) \<Rightarrow> JNull
                             | c \<Rightarrow> c);
                    target2 = target1 @ [endOfStartTag];
                    close = [endTag1, stringToChunk (js ''title''), endTag2]
                in if child = JFunction \<or> child = JSymbol \<or> child = JNull \<or> child = JUndefined
                   then Inr (target2 @ close)
                   else (case string_of ex child of
                           Inl e \<Rightarrow> Inl e
                         | Inr str \<Rightarrow>
                             Inr (target2 @ [stringToChunk (escapeTextForBrowser ex str)] @ close)))))"

section \<open>The resource registry\<close>

text \<open>
  Resources are objects that the maps, the flush queues and other resources refer to, and
  whose \<open>flushed\<close> flag is set through any of these references. The model keeps the
  objects of each type in a store, in the order of their creation, and a reference is an
  index into the store. A \<open>Set\<close> is the list of its members in insertion order; a \<open>Map\<close>
  that is only looked up is a partial function, and \<open>precedences\<close>, which is iterated, is an
  association list in insertion order. The \<open>set\<close> of a style resource is the set that
  \<open>precedences\<close> holds for its precedence.
\<close>

datatype resource_type = AsStyle | AsFont | AsScript

fun resource_type_string :: "resource_type \<Rightarrow> jsstring" where
  "resource_type_string AsStyle = js ''style''"
| "resource_type_string AsFont = js ''font''"
| "resource_type_string AsScript = js ''script''"

record preload_resource =
  preload_as :: resource_type
  preload_href :: jsstring
  preload_props :: props
  preload_flushed :: bool

record style_resource =
  style_href :: jsstring
  style_precedence :: jsstring
  style_props :: props
  style_flushed :: bool
  style_inShell :: bool
  style_hint :: nat

record script_resource =
  script_src :: jsstring
  script_props :: props
  script_flushed :: bool
  script_hint :: nat

datatype head_type = TitleType | MetaType | LinkType | BaseType

record head_resource =
  head_type :: head_type
  head_props :: props
  head_flushed :: bool

record resources =
  preload_store :: "preload_resource list"
  style_store :: "style_resource list"
  script_store :: "script_resource list"
  head_store :: "head_resource list"
  boundary_store :: "nat list list"
  preloadsMap :: "jsstring \<rightharpoonup> nat"
  stylesMap :: "jsstring \<rightharpoonup> nat"
  scriptsMap :: "jsstring \<rightharpoonup> nat"
  headsMap :: "jsstring \<rightharpoonup> nat"
  charset :: "nat option"
  bases :: "nat list"
  preconnects :: "nat list"
  fontPreloads :: "nat list"
  firstPrecedence :: jsstring
  firstPrecedenceFlushed :: bool
  precedences :: "(jsstring \<times> nat list) list"
  usedStylePreloads :: "nat list"
  scripts :: "nat list"
  usedScriptPreloads :: "nat list"
  explicitStylePreloads :: "nat list"
  explicitScriptPreloads :: "nat list"
  headResources :: "nat list"
  structuredMetaKeys :: "jsstring \<rightharpoonup> nat"
  boundaryResources :: "nat option"

definition createResources :: resources where
  "createResources = \<lparr>
     preload_store = [], style_store = [], script_store = [], head_store = [],
     boundary_store = [],
     preloadsMap = Map.empty, stylesMap = Map.empty, scriptsMap = Map.empty,
     headsMap = Map.empty,
     charset = None, bases = [], preconnects = [], fontPreloads = [],
     firstPrecedence = [], firstPrecedenceFlushed = False, precedences = [],
     usedStylePreloads = [], scripts = [], usedScriptPreloads = [],
     explicitStylePreloads = [], explicitScriptPreloads = [], headResources = [],
     structuredMetaKeys = Map.empty, boundaryResources = None \<rparr>"

text \<open>\<open>Set.prototype.add\<close>.\<close>

definition set_add :: "nat list \<Rightarrow> nat \<Rightarrow> nat list" where
  "set_add xs x = (if x \<in> set xs then xs else xs @ [x])"

text \<open>\<open>resource.set.add(resource)\<close> for the style resource \<open>i\<close> of precedence \<open>p\<close>.\<close>

definition precedence_set_add :: "(jsstring \<times> nat list) list \<Rightarrow> jsstring \<Rightarrow> nat \<Rightarrow> (jsstring \<times> nat list) list" where
  "precedence_set_add precs p i = map (\<lambda>(k, xs). if k = p then (k, set_add xs i) else (k, xs)) precs"

text \<open>
  \<open>createBoundaryResources\<close> makes a new empty set; the boundary keeps the reference.
\<close>

definition createBoundaryResources :: "resources \<Rightarrow> resources \<times> nat" where
  "createBoundaryResources r =
     (r\<lparr>boundary_store := boundary_store r @ [[]]\<rparr>, length (boundary_store r))"

definition setCurrentlyRenderingBoundaryResourcesTarget :: "resources \<Rightarrow> nat option \<Rightarrow> resources" where
  "setCurrentlyRenderingBoundaryResourcesTarget r b = r\<lparr>boundaryResources := b\<rparr>"

text \<open>The options of \<open>preload\<close> and \<open>preinit\<close>.\<close>

record preload_options =
  preload_options_as :: resource_type
  preload_options_crossOrigin :: jsval
  preload_options_integrity :: jsval

datatype preinit_as = PreinitStyle | PreinitScript

record preinit_options =
  preinit_options_as :: preinit_as
  preinit_options_precedence :: jsval
  preinit_options_crossOrigin :: jsval
  preinit_options_integrity :: jsval

definition preloadPropsFromPreloadOptions :: "jsstring \<Rightarrow> resource_type \<Rightarrow> preload_options \<Rightarrow> props" where
  "preloadPropsFromPreloadOptions href as0 options =
     [(js ''href'', JString href), (js ''rel'', JString (js ''preload'')),
      (js ''as'', JString (resource_type_string as0)),
      (js ''crossOrigin'',
         if as0 = AsFont then JString [] else preload_options_crossOrigin options),
      (js ''integrity'', preload_options_integrity options)]"

definition preloadPropsFromRawProps :: "jsstring \<Rightarrow> resource_type \<Rightarrow> props \<Rightarrow> props" where
  "preloadPropsFromRawProps href as0 rawProps =
     (let ps = set_prop (set_prop (set_prop rawProps (js ''href'') (JString href))
                  (js ''rel'') (JString (js ''preload'')))
                  (js ''as'') (JString (resource_type_string as0))
      in if as0 = AsFont then set_prop ps (js ''crossOrigin'') (JString []) else ps)"

definition preloadAsStylePropsFromProps :: "jsstring \<Rightarrow> props \<Rightarrow> props" where
  "preloadAsStylePropsFromProps href ps =
     [(js ''rel'', JString (js ''preload'')), (js ''as'', JString (js ''style'')),
      (js ''href'', JString href),
      (js ''crossOrigin'', get_prop ps (js ''crossOrigin'')),
      (js ''integrity'', get_prop ps (js ''integrity'')),
      (js ''media'', get_prop ps (js ''media'')),
      (js ''hrefLang'', get_prop ps (js ''hrefLang'')),
      (js ''referrerPolicy'', get_prop ps (js ''referrerPolicy''))]"

definition preloadAsScriptPropsFromProps :: "jsstring \<Rightarrow> props \<Rightarrow> props" where
  "preloadAsScriptPropsFromProps href ps =
     [(js ''rel'', JString (js ''preload'')), (js ''as'', JString (js ''script'')),
      (js ''href'', JString href),
      (js ''crossOrigin'', get_prop ps (js ''crossOrigin'')),
      (js ''integrity'', get_prop ps (js ''integrity'')),
      (js ''referrerPolicy'', get_prop ps (js ''referrerPolicy''))]"

definition createPreloadResource ::
  "resources \<Rightarrow> jsstring \<Rightarrow> resource_type \<Rightarrow> props \<Rightarrow> resources \<times> nat" where
  "createPreloadResource r href as0 ps =
     (let resource = length (preload_store r)
      in (r\<lparr>preload_store := preload_store r @
                 [\<lparr>preload_as = as0, preload_href = href, preload_props = ps,
                   preload_flushed = False\<rparr>],
             preloadsMap := (preloadsMap r)(href \<mapsto> resource)\<rparr>,
          resource))"

definition stylePropsFromRawProps :: "jsstring \<Rightarrow> jsstring \<Rightarrow> props \<Rightarrow> props" where
  "stylePropsFromRawProps href precedence rawProps =
     delete_prop
       (set_prop (set_prop (set_prop rawProps (js ''href'') (JString href))
          (js ''rel'') (JString (js ''stylesheet'')))
          (js ''data-precedence'') (JString precedence))
       (js ''precedence'')"

definition stylePropsFromPreinitOptions :: "jsstring \<Rightarrow> jsstring \<Rightarrow> preinit_options \<Rightarrow> props" where
  "stylePropsFromPreinitOptions href precedence options =
     [(js ''rel'', JString (js ''stylesheet'')), (js ''href'', JString href),
      (js ''data-precedence'', JString precedence),
      (js ''crossOrigin'', preinit_options_crossOrigin options)]"

text \<open>\<open>if (resourceProps.k == null) resourceProps.k = preloadProps.k\<close>.\<close>

definition adopt_prop :: "jsstring \<Rightarrow> props \<Rightarrow> props \<Rightarrow> props" where
  "adopt_prop k preloadProps resourceProps =
     (if nullish (get_prop resourceProps k) then set_prop resourceProps k (get_prop preloadProps k)
      else resourceProps)"

definition adoptPreloadPropsForStyleProps :: "props \<Rightarrow> props \<Rightarrow> props" where
  "adoptPreloadPropsForStyleProps resourceProps preloadProps =
     adopt_prop (js ''title'') preloadProps
       (adopt_prop (js ''referrerPolicy'') preloadProps
          (adopt_prop (js ''crossOrigin'') preloadProps resourceProps))"

definition adoptPreloadPropsForScriptProps :: "props \<Rightarrow> props \<Rightarrow> props" where
  "adoptPreloadPropsForScriptProps resourceProps preloadProps =
     adopt_prop (js ''integrity'') preloadProps
       (adopt_prop (js ''referrerPolicy'') preloadProps
          (adopt_prop (js ''crossOrigin'') preloadProps resourceProps))"

definition createStyleResource ::
  "resources \<Rightarrow> jsstring \<Rightarrow> jsstring \<Rightarrow> props \<Rightarrow> resources \<times> nat" where
  "createStyleResource r href precedence ps =
     (let r1 = (if map_of (precedences r) precedence = None then
                  r\<lparr>precedences := precedences r @ [(precedence, [])],
                    firstPrecedence :=
                      (if firstPrecedence r = [] then precedence else firstPrecedence r)\<rparr>
                else r);
          (r2, ps2, hint) =
            (case preloadsMap r1 href of
               Some hint \<Rightarrow>
                 (r1, adoptPreloadPropsForStyleProps ps (preload_props (preload_store r1 ! hint)),
                  hint)
             | None \<Rightarrow>
                 (case createPreloadResource r1 href AsStyle
                         (preloadAsStylePropsFromProps href ps) of
                    (r', hint) \<Rightarrow>
                      (r'\<lparr>explicitStylePreloads := set_add (explicitStylePreloads r') hint\<rparr>,
                       ps, hint)));
          resource = length (style_store r2)
      in (r2\<lparr>style_store := style_store r2 @
                  [\<lparr>style_href = href, style_precedence = precedence, style_props = ps2,
                    style_flushed = False, style_inShell = False, style_hint = hint\<rparr>],
              stylesMap := (stylesMap r2)(href \<mapsto> resource)\<rparr>,
          resource))"

definition scriptPropsFromPreinitOptions :: "jsstring \<Rightarrow> preinit_options \<Rightarrow> props" where
  "scriptPropsFromPreinitOptions src0 options =
     [(js ''src'', JString src0), (js ''async'', JBool True),
      (js ''crossOrigin'', preinit_options_crossOrigin options),
      (js ''integrity'', preinit_options_integrity options)]"

definition scriptPropsFromRawProps :: "jsstring \<Rightarrow> props \<Rightarrow> props" where
  "scriptPropsFromRawProps src0 rawProps = set_prop rawProps (js ''src'') (JString src0)"

definition createScriptResource :: "resources \<Rightarrow> jsstring \<Rightarrow> props \<Rightarrow> resources \<times> nat" where
  "createScriptResource r src0 ps =
     (let (r2, ps2, hint) =
            (case preloadsMap r src0 of
               Some hint \<Rightarrow>
                 (r, adoptPreloadPropsForScriptProps ps (preload_props (preload_store r ! hint)),
                  hint)
             | None \<Rightarrow>
                 (case createPreloadResource r src0 AsScript
                         (preloadAsScriptPropsFromProps src0 ps) of
                    (r', hint) \<Rightarrow>
                      (r'\<lparr>explicitScriptPreloads := set_add (explicitScriptPreloads r') hint\<rparr>,
                       ps, hint)));
          resource = length (script_store r2)
      in (r2\<lparr>script_store := script_store r2 @
                  [\<lparr>script_src = src0, script_props = ps2, script_flushed = False,
                    script_hint = hint\<rparr>],
              scriptsMap := (scriptsMap r2)(src0 \<mapsto> resource)\<rparr>,
          resource))"

text \<open>
  The module variable \<open>currentResources\<close> is an argument: \<open>None\<close> outside of a render.
\<close>

definition preload :: "resources option \<Rightarrow> jsstring \<Rightarrow> preload_options \<Rightarrow> resources option" where
  "preload currentResources href options =
     (case currentResources of
        None \<Rightarrow> None
      | Some r \<Rightarrow>
          Some (if href \<noteq> [] then
                  (let as0 = preload_options_as options;
                       (r1, resource) =
                         (case preloadsMap r href of
                            Some resource \<Rightarrow> (r, resource)
                          | None \<Rightarrow> createPreloadResource r href as0
                                      (preloadPropsFromPreloadOptions href as0 options))
                   in case as0 of
                        AsFont \<Rightarrow> r1\<lparr>fontPreloads := set_add (fontPreloads r1) resource\<rparr>
                      | AsStyle \<Rightarrow>
                          r1\<lparr>explicitStylePreloads := set_add (explicitStylePreloads r1) resource\<rparr>
                      | AsScript \<Rightarrow>
                          r1\<lparr>explicitScriptPreloads := set_add (explicitScriptPreloads r1) resource\<rparr>)
                else r))"

definition preinitImpl :: "resources \<Rightarrow> jsstring \<Rightarrow> preinit_options \<Rightarrow> resources" where
  "preinitImpl r href options =
     (if href \<noteq> [] then
        (case preinit_options_as options of
           PreinitStyle \<Rightarrow>
             (let (r1, resource) =
                    (case stylesMap r href of
                       Some resource \<Rightarrow> (r, resource)
                     | None \<Rightarrow>
                         (let precedence =
                                (case preinit_options_precedence options of
                                   JString p \<Rightarrow> if p \<noteq> [] then p else js ''default''
                                 | _ \<Rightarrow> js ''default'')
                          in createStyleResource r href precedence
                               (stylePropsFromPreinitOptions href precedence options)))
              in r1\<lparr>precedences := precedence_set_add (precedences r1)
                                     (style_precedence (style_store r1 ! resource)) resource,
                    explicitStylePreloads := set_add (explicitStylePreloads r1)
                                               (style_hint (style_store r1 ! resource))\<rparr>)
         | PreinitScript \<Rightarrow>
             (case scriptsMap r href of
                Some resource \<Rightarrow> r
              | None \<Rightarrow>
                  (case createScriptResource r href (scriptPropsFromPreinitOptions href options) of
                     (r1, resource) \<Rightarrow> r1\<lparr>scripts := set_add (scripts r1) resource\<rparr>)))
      else r)"

definition preinit :: "resources option \<Rightarrow> jsstring \<Rightarrow> preinit_options \<Rightarrow> resources option" where
  "preinit currentResources href options =
     (case currentResources of
        None \<Rightarrow> None
      | Some r \<Rightarrow> Some (preinitImpl r href options))"

datatype react_node = NodeNull | NodeFalse

definition as_resource_type :: "jsval \<Rightarrow> resource_type option" where
  "as_resource_type v =
     (if v = JString (js ''script'') then Some AsScript
      else if v = JString (js ''style'') then Some AsStyle
      else if v = JString (js ''font'') then Some AsFont
      else None)"

text \<open>The end of \<open>pushLink\<close>, after the \<open>switch\<close> on \<open>rel\<close>.\<close>

definition pushLink_hoistable ::
  "flags \<Rightarrow> externals \<Rightarrow> chunk list \<Rightarrow> props \<Rightarrow> response_state \<Rightarrow> resources
     \<Rightarrow> error + chunk list \<times> response_state \<times> resources option \<times> react_node" where
  "pushLink_hoistable fl ex target ps responseState r =
     (if truthy (get_prop ps (js ''onLoad'')) \<or> truthy (get_prop ps (js ''onError'')) then
        Inr (target, responseState, Some r, NodeNull)
      else (case pushLinkImpl fl ex (hoistableChunks responseState) ps of
              Inl e \<Rightarrow> Inl e
            | Inr chunks \<Rightarrow>
                Inr (target, responseState\<lparr>hoistableChunks := chunks\<rparr>, Some r, NodeNull)))"

text \<open>
  The branch of \<open>pushLink\<close> for a stylesheet that is not a resource: a preload is created
  for it when there is none, and the link is written in place.
\<close>

definition pushLink_unmanaged_stylesheet ::
  "flags \<Rightarrow> externals \<Rightarrow> chunk list \<Rightarrow> props \<Rightarrow> response_state \<Rightarrow> resources \<Rightarrow> jsstring
     \<Rightarrow> error + chunk list \<times> response_state \<times> resources option \<times> react_node" where
  "pushLink_unmanaged_stylesheet fl ex target ps responseState r href =
     (let r1 = (case preloadsMap r href of
                  Some preloadResource \<Rightarrow> r
                | None \<Rightarrow>
                    (case createPreloadResource r href AsStyle
                            (preloadAsStylePropsFromProps href ps) of
                       (r', preloadResource) \<Rightarrow>
                         r'\<lparr>usedStylePreloads := set_add (usedStylePreloads r') preloadResource\<rparr>))
      in case pushLinkImpl fl ex target ps of
           Inl e \<Rightarrow> Inl e
         | Inr target1 \<Rightarrow> Inr (target1, responseState, Some r1, NodeNull))"

definition pushLink ::
  "flags \<Rightarrow> externals \<Rightarrow> chunk list \<Rightarrow> props \<Rightarrow> response_state \<Rightarrow> bool \<Rightarrow> bool
     \<Rightarrow> resources option
     \<Rightarrow> error + chunk list \<times> response_state \<times> resources option \<times> react_node" where
  "pushLink fl ex target0 ps responseState textEmbedded noscriptTagInScope0 currentResources =
     (if \<not> enableFloat fl \<or> noscriptTagInScope0 then
        (case pushLinkImpl fl ex target0 ps of
           Inl e \<Rightarrow> Inl e
         | Inr target \<Rightarrow> Inr (target, responseState, currentResources, NodeNull))
      else
        (let target = (if textEmbedded then target0 @ [textSeparator] else target0)
         in case currentResources of
              None \<Rightarrow> Inl (Error ''\"currentResources\" was expected to exist. This is a bug in React.'')
            | Some r \<Rightarrow>
                (case (get_prop ps (js ''rel''), get_prop ps (js ''href'')) of
                   (JString rel, JString href) \<Rightarrow>
                     if href = [] \<or> rel = [] then
                       Inr (target, responseState, Some r, NodeFalse)
                     else if rel = js ''stylesheet'' then
                       (case get_prop ps (js ''precedence'') of
                          JString precedence \<Rightarrow>
                            if truthy (get_prop ps (js ''onLoad''))
                               \<or> truthy (get_prop ps (js ''onError''))
                               \<or> \<not> nullish (get_prop ps (js ''disabled'')) then
                              pushLink_unmanaged_stylesheet fl ex target ps responseState r href
                            else
                              (let (r1, resource) =
                                     (case stylesMap r href of
                                        Some resource \<Rightarrow> (r, resource)
                                      | None \<Rightarrow>
                                          (case createStyleResource r href precedence
                                                  (stylePropsFromRawProps href precedence ps) of
                                             (r', resource) \<Rightarrow>
                                               (r'\<lparr>usedStylePreloads :=
                                                      set_add (usedStylePreloads r')
                                                        (style_hint (style_store r' ! resource))\<rparr>,
                                                resource)))
                               in Inr (target, responseState,
                                       Some (case boundaryResources r1 of
                                               Some b \<Rightarrow>
                                                 r1\<lparr>boundary_store := (boundary_store r1)
                                                       [b := set_add (boundary_store r1 ! b) resource]\<rparr>
                                             | None \<Rightarrow>
                                                 r1\<lparr>precedences :=
                                                       precedence_set_add (precedences r1)
                                                         (style_precedence (style_store r1 ! resource))
                                                         resource\<rparr>),
                                       NodeNull))
                        | _ \<Rightarrow> pushLink_unmanaged_stylesheet fl ex target ps responseState r href)
                     else if rel = js ''preload'' then
                       (case as_resource_type (get_prop ps (js ''as'')) of
                          Some as0 \<Rightarrow>
                            Inr (target, responseState,
                                 Some (case preloadsMap r href of
                                         Some resource \<Rightarrow> r
                                       | None \<Rightarrow>
                                           (case createPreloadResource r href as0
                                                   (preloadPropsFromRawProps href as0 ps) of
                                              (r1, resource) \<Rightarrow>
                                                (case as0 of
                                                   AsScript \<Rightarrow>
                                                     r1\<lparr>explicitScriptPreloads :=
                                                          set_add (explicitScriptPreloads r1) resource\<rparr>
                                                 | AsStyle \<Rightarrow>
                                                     r1\<lparr>explicitStylePreloads :=
                                                          set_add (explicitStylePreloads r1) resource\<rparr>
                                                 | AsFont \<Rightarrow>
                                                     r1\<lparr>fontPreloads :=
                                                          set_add (fontPreloads r1) resource\<rparr>))),
                                 NodeNull)
                        | None \<Rightarrow> pushLink_hoistable fl ex target ps responseState r)
                     else pushLink_hoistable fl ex target ps responseState r
                 | _ \<Rightarrow> Inr (target, responseState, Some r, NodeFalse))))"

definition pushScript ::
  "flags \<Rightarrow> externals \<Rightarrow> chunk list \<Rightarrow> props \<Rightarrow> response_state \<Rightarrow> bool \<Rightarrow> bool
     \<Rightarrow> resources option \<Rightarrow> error + chunk list \<times> resources option" where
  "pushScript fl ex target ps responseState textEmbedded noscriptTagInScope0 currentResources =
     (if \<not> enableFloat fl \<or> noscriptTagInScope0 then
        (case pushScriptImpl ex target ps of
           Inl e \<Rightarrow> Inl e
         | Inr target1 \<Rightarrow> Inr (target1, currentResources))
      else
        (case currentResources of
           None \<Rightarrow> Inl (Error ''\"currentResources\" was expected to exist. This is a bug in React.'')
         | Some r \<Rightarrow>
             (case get_prop ps (js ''src'') of
                JString src0 \<Rightarrow>
                  if src0 \<noteq> [] \<and> truthy (get_prop ps (js ''async'')) then
                    (let r1 =
                       (if truthy (get_prop ps (js ''onLoad''))
                           \<or> truthy (get_prop ps (js ''onError'')) then
                          (case preloadsMap r src0 of
                             Some preloadResource \<Rightarrow> r
                           | None \<Rightarrow>
                               (case createPreloadResource r src0 AsScript
                                       (preloadAsScriptPropsFromProps src0 ps) of
                                  (r', preloadResource) \<Rightarrow>
                                    r'\<lparr>usedScriptPreloads :=
                                         set_add (usedScriptPreloads r') preloadResource\<rparr>))
                        else
                          (case scriptsMap r src0 of
                             Some resource \<Rightarrow> r
                           | None \<Rightarrow>
                               (case createScriptResource r src0
                                       (scriptPropsFromRawProps src0 ps) of
                                  (r', resource) \<Rightarrow>
                                    r'\<lparr>scripts := set_add (scripts r') resource\<rparr>)))
                     in Inr (if textEmbedded then target @ [textSeparator] else target, Some r1))
                  else
                    (case pushScriptImpl ex target ps of
                       Inl e \<Rightarrow> Inl e
                     | Inr target1 \<Rightarrow> Inr (target1, Some r))
              | _ \<Rightarrow>
                  (case pushScriptImpl ex target ps of
                     Inl e \<Rightarrow> Inl e
                   | Inr target1 \<Rightarrow> Inr (target1, Some r)))))"

definition hoistResources :: "resources \<Rightarrow> nat \<Rightarrow> resources" where
  "hoistResources r source =
     (case boundaryResources r of
        Some currentBoundaryResources \<Rightarrow>
          (let added = r\<lparr>boundary_store := (boundary_store r)
                          [currentBoundaryResources :=
                             fold (\<lambda>resource xs. set_add xs resource) (boundary_store r ! source)
                               (boundary_store r ! currentBoundaryResources)]\<rparr>
           in added\<lparr>boundary_store := (boundary_store added)[source := []]\<rparr>)
      | None \<Rightarrow> r)"

definition hoistResourcesToRoot :: "resources \<Rightarrow> nat \<Rightarrow> resources" where
  "hoistResourcesToRoot r b =
     (let added = r\<lparr>precedences :=
                      fold (\<lambda>resource precs.
                              precedence_set_add precs (style_precedence (style_store r ! resource))
                                resource)
                        (boundary_store r ! b) (precedences r)\<rparr>
      in added\<lparr>boundary_store := (boundary_store added)[b := []]\<rparr>)"

section \<open>Flushing the registry\<close>

text \<open>
  \<open>Set.prototype.forEach\<close> with a callback that works on the target and the registry and
  may throw.
\<close>

fun forEach :: "('s \<Rightarrow> 'a \<Rightarrow> error + 's) \<Rightarrow> 'a list \<Rightarrow> 's \<Rightarrow> error + 's" where
  "forEach f [] s = Inr s"
| "forEach f (x # xs) s = (case f s x of Inl e \<Rightarrow> Inl e | Inr s' \<Rightarrow> forEach f xs s')"

definition set_preload_flushed :: "resources \<Rightarrow> nat \<Rightarrow> resources" where
  "set_preload_flushed r i =
     r\<lparr>preload_store := (preload_store r)[i := (preload_store r ! i)\<lparr>preload_flushed := True\<rparr>]\<rparr>"

definition set_head_flushed :: "resources \<Rightarrow> nat \<Rightarrow> resources" where
  "set_head_flushed r i =
     r\<lparr>head_store := (head_store r)[i := (head_store r ! i)\<lparr>head_flushed := True\<rparr>]\<rparr>"

text \<open>The callbacks of the flush iterations.\<close>

definition flushLinkResource ::
  "flags \<Rightarrow> externals \<Rightarrow> chunk list \<times> resources \<Rightarrow> nat \<Rightarrow> error + chunk list \<times> resources" where
  "flushLinkResource fl ex st resource =
     (case st of (target, r) \<Rightarrow>
        if \<not> preload_flushed (preload_store r ! resource) then
          (case pushLinkImpl fl ex target (preload_props (preload_store r ! resource)) of
             Inl e \<Rightarrow> Inl e
           | Inr target1 \<Rightarrow> Inr (target1, set_preload_flushed r resource))
        else Inr (target, r))"

definition flush_base ::
  "externals \<Rightarrow> chunk list \<times> resources \<Rightarrow> nat \<Rightarrow> error + chunk list \<times> resources" where
  "flush_base ex st i =
     (case st of (target, r) \<Rightarrow>
        (case pushSelfClosing ex target (head_props (head_store r ! i)) (js ''base'') of
           Inl e \<Rightarrow> Inl e
         | Inr target1 \<Rightarrow> Inr (target1, set_head_flushed r i)))"

definition flush_preconnect ::
  "flags \<Rightarrow> externals \<Rightarrow> chunk list \<times> resources \<Rightarrow> nat \<Rightarrow> error + chunk list \<times> resources" where
  "flush_preconnect fl ex st i =
     (case st of (target, r) \<Rightarrow>
        (case pushLinkImpl fl ex target (head_props (head_store r ! i)) of
           Inl e \<Rightarrow> Inl e
         | Inr target1 \<Rightarrow> Inr (target1, set_head_flushed r i)))"

definition flush_fontPreload ::
  "flags \<Rightarrow> externals \<Rightarrow> chunk list \<times> resources \<Rightarrow> nat \<Rightarrow> error + chunk list \<times> resources" where
  "flush_fontPreload fl ex st i =
     (case st of (target, r) \<Rightarrow>
        (case pushLinkImpl fl ex target (preload_props (preload_store r ! i)) of
           Inl e \<Rightarrow> Inl e
         | Inr target1 \<Rightarrow> Inr (target1, set_preload_flushed r i)))"

definition flush_style ::
  "flags \<Rightarrow> externals \<Rightarrow> chunk list \<times> resources \<Rightarrow> nat \<Rightarrow> error + chunk list \<times> resources" where
  "flush_style fl ex st i =
     (case st of (target, r) \<Rightarrow>
        if \<not> style_flushed (style_store r ! i) then
          (case pushLinkImpl fl ex target (style_props (style_store r ! i)) of
             Inl e \<Rightarrow> Inl e
           | Inr target1 \<Rightarrow>
               Inr (target1,
                    set_preload_flushed
                      (r\<lparr>style_store := (style_store r)
                            [i := (style_store r ! i)\<lparr>style_flushed := True, style_inShell := True\<rparr>]\<rparr>)
                      (style_hint (style_store r ! i))))
        else Inr (target, r))"

definition flush_script ::
  "externals \<Rightarrow> chunk list \<times> resources \<Rightarrow> nat \<Rightarrow> error + chunk list \<times> resources" where
  "flush_script ex st i =
     (case st of (target, r) \<Rightarrow>
        (case pushScriptImpl ex target (script_props (script_store r ! i)) of
           Inl e \<Rightarrow> Inl e
         | Inr target1 \<Rightarrow>
             Inr (target1,
                  set_preload_flushed
                    (r\<lparr>script_store := (script_store r)
                          [i := (script_store r ! i)\<lparr>script_flushed := True\<rparr>]\<rparr>)
                    (script_hint (script_store r ! i)))))"

definition flush_headResource ::
  "flags \<Rightarrow> externals \<Rightarrow> chunk list \<times> resources \<Rightarrow> nat \<Rightarrow> error + chunk list \<times> resources" where
  "flush_headResource fl ex st i =
     (case st of (target, r) \<Rightarrow>
        (case (case head_type (head_store r ! i) of
                 TitleType \<Rightarrow> pushTitleImpl ex target (head_props (head_store r ! i))
               | MetaType \<Rightarrow> pushSelfClosing ex target (head_props (head_store r ! i)) (js ''meta'')
               | LinkType \<Rightarrow> pushLinkImpl fl ex target (head_props (head_store r ! i))
               | BaseType \<Rightarrow> Inr target) of
           Inl e \<Rightarrow> Inl e
         | Inr target1 \<Rightarrow> Inr (target1, set_head_flushed r i)))"

definition precedencePlaceholderStart :: chunk where
  "precedencePlaceholderStart = stringToPrecomputedChunk (js ''<style data-precedence=\"'')"
definition precedencePlaceholderEnd :: chunk where
  "precedencePlaceholderEnd = stringToPrecomputedChunk (js ''\"></style>'')"

definition precedence_set :: "resources \<Rightarrow> jsstring \<Rightarrow> nat list" where
  "precedence_set r precedence =
     (case map_of (precedences r) precedence of Some p \<Rightarrow> p | None \<Rightarrow> [])"

definition precedence_set_clear :: "resources \<Rightarrow> jsstring \<Rightarrow> resources" where
  "precedence_set_clear r precedence =
     r\<lparr>precedences := map (\<lambda>(k, xs). if k = precedence then (k, []) else (k, xs)) (precedences r)\<rparr>"

text \<open>
  The callback of \<open>precedences.forEach\<close> in \<open>writeInitialResources\<close>; \<open>first\<close> and
  \<open>firstFlushed\<close> are \<open>firstPrecedence\<close> and \<open>firstPrecedenceFlushed\<close> as read at the start
  of the function.
\<close>

definition flush_precedence ::
  "flags \<Rightarrow> externals \<Rightarrow> jsstring \<Rightarrow> bool \<Rightarrow> chunk list \<times> resources \<Rightarrow> jsstring
     \<Rightarrow> error + chunk list \<times> resources" where
  "flush_precedence fl ex first firstFlushed st precedence =
     (case st of (target, r) \<Rightarrow>
        if precedence = first \<and> firstFlushed \<and> precedence_set r precedence = [] then
          Inr (target, r)
        else if precedence_set r precedence \<noteq> [] then
          (case forEach (flush_style fl ex) (precedence_set r precedence) (target, r) of
             Inl e \<Rightarrow> Inl e
           | Inr (target1, r1) \<Rightarrow> Inr (target1, precedence_set_clear r1 precedence))
        else
          Inr (target @ [precedencePlaceholderStart,
                         stringToChunk (escapeTextForBrowser ex precedence),
                         precedencePlaceholderEnd], r))"

text \<open>
  Writing an array of chunks: all but the last with \<open>writeChunk\<close>, the last with
  \<open>writeChunkAndReturn\<close>.
\<close>

definition write_all :: "destination \<Rightarrow> chunk list \<Rightarrow> destination \<times> bool" where
  "write_all destination cs =
     (if cs = [] then (destination, True)
      else writeChunkAndReturn (writeChunks destination (butlast cs)) (last cs))"

text \<open>The start of the three flush functions: the external runtime is made a script.\<close>

definition preinit_external_runtime ::
  "flags \<Rightarrow> resources \<Rightarrow> response_state \<Rightarrow> bool \<Rightarrow> resources" where
  "preinit_external_runtime fl r responseState willEmitInstructions =
     (case externalRuntimeConfig responseState of
        Some config \<Rightarrow>
          if enableFizzExternalRuntime fl \<and> willEmitInstructions then
            preinitImpl r (src config)
              \<lparr>preinit_options_as = PreinitScript, preinit_options_precedence = JUndefined,
               preinit_options_crossOrigin = JUndefined,
               preinit_options_integrity =
                 (case integrity config of Some i \<Rightarrow> JString i | None \<Rightarrow> JUndefined)\<rparr>
          else r
      | None \<Rightarrow> r)"

text \<open>Going on after a step that may have thrown.\<close>

definition on_ok :: "error + 'a \<Rightarrow> ('a \<Rightarrow> error + 'b) \<Rightarrow> error + 'b" where
  "on_ok m f = (case m of Inl e \<Rightarrow> Inl e | Inr x \<Rightarrow> f x)"

definition writeInitialResources ::
  "flags \<Rightarrow> externals \<Rightarrow> destination \<Rightarrow> resources \<Rightarrow> response_state \<Rightarrow> bool
     \<Rightarrow> error + destination \<times> resources \<times> bool" where
  "writeInitialResources fl ex destination resources0 responseState willEmitInstructions =
     (let r = preinit_external_runtime fl resources0 responseState willEmitInstructions;
          first = firstPrecedence r;
          firstFlushed = firstPrecedenceFlushed r
      in
      on_ok (forEach (flush_base ex) (bases r) ([], r)) (\<lambda>(t1, r1).
      on_ok (forEach (flush_preconnect fl ex) (preconnects r1) (t1, r1\<lparr>bases := []\<rparr>)) (\<lambda>(t2, r2).
      on_ok (forEach (flush_fontPreload fl ex) (fontPreloads r2) (t2, r2\<lparr>preconnects := []\<rparr>)) (\<lambda>(t3, r3).
      on_ok (forEach (flush_precedence fl ex first firstFlushed) (map fst (precedences r3))
               (t3, r3\<lparr>fontPreloads := []\<rparr>)) (\<lambda>(t4, r4).
      on_ok (forEach (flushLinkResource fl ex) (usedStylePreloads r4) (t4, r4)) (\<lambda>(t5, r5).
      on_ok (forEach (flush_script ex) (scripts r5) (t5, r5\<lparr>usedStylePreloads := []\<rparr>)) (\<lambda>(t6, r6).
      on_ok (forEach (flushLinkResource fl ex) (usedScriptPreloads r6) (t6, r6\<lparr>scripts := []\<rparr>)) (\<lambda>(t7, r7).
      on_ok (forEach (flushLinkResource fl ex) (explicitStylePreloads r7)
               (t7, r7\<lparr>usedScriptPreloads := []\<rparr>)) (\<lambda>(t8, r8).
      on_ok (forEach (flushLinkResource fl ex) (explicitScriptPreloads r8)
               (t8, r8\<lparr>explicitStylePreloads := []\<rparr>)) (\<lambda>(t9, r9).
      on_ok (forEach (flush_headResource fl ex) (headResources r9)
               (t9, r9\<lparr>explicitScriptPreloads := []\<rparr>)) (\<lambda>(target, r10).
      (case write_all destination target of
         (destination1, ok) \<Rightarrow> Inr (destination1, r10\<lparr>headResources := []\<rparr>, ok)))))))))))))"

text \<open>
  The stylesheet step of \<open>writeEarlyResources\<close>: only the set of \<open>firstPrecedence\<close>, when
  it has members.
\<close>

definition flush_first_precedence ::
  "flags \<Rightarrow> externals \<Rightarrow> jsstring \<Rightarrow> chunk list \<times> resources \<Rightarrow> error + chunk list \<times> resources" where
  "flush_first_precedence fl ex first st =
     (case st of (target, r) \<Rightarrow>
        if first \<noteq> [] \<and> map_of (precedences r) first \<noteq> None \<and> precedence_set r first \<noteq> [] then
          (case forEach (flush_style fl ex) (precedence_set r first) (target, r) of
             Inl e \<Rightarrow> Inl e
           | Inr (target1, r1) \<Rightarrow>
               Inr (target1, precedence_set_clear (r1\<lparr>firstPrecedenceFlushed := True\<rparr>) first))
        else Inr (target, r))"

definition writeEarlyResources ::
  "flags \<Rightarrow> externals \<Rightarrow> destination \<Rightarrow> resources \<Rightarrow> response_state \<Rightarrow> bool
     \<Rightarrow> error + destination \<times> resources \<times> bool" where
  "writeEarlyResources fl ex destination resources0 responseState willEmitInstructions =
     (let r = preinit_external_runtime fl resources0 responseState willEmitInstructions;
          first = firstPrecedence r
      in
      on_ok (forEach (flush_base ex) (bases r) ([], r)) (\<lambda>(t1, r1).
      on_ok (forEach (flush_preconnect fl ex) (preconnects r1) (t1, r1\<lparr>bases := []\<rparr>)) (\<lambda>(t2, r2).
      on_ok (forEach (flush_fontPreload fl ex) (fontPreloads r2) (t2, r2\<lparr>preconnects := []\<rparr>)) (\<lambda>(t3, r3).
      on_ok (flush_first_precedence fl ex first (t3, r3\<lparr>fontPreloads := []\<rparr>)) (\<lambda>(t4, r4).
      on_ok (forEach (flushLinkResource fl ex) (usedStylePreloads r4) (t4, r4)) (\<lambda>(t5, r5).
      on_ok (forEach (flush_script ex) (scripts r5) (t5, r5\<lparr>usedStylePreloads := []\<rparr>)) (\<lambda>(t6, r6).
      on_ok (forEach (flushLinkResource fl ex) (usedScriptPreloads r6) (t6, r6\<lparr>scripts := []\<rparr>)) (\<lambda>(t7, r7).
      on_ok (forEach (flushLinkResource fl ex) (explicitStylePreloads r7)
               (t7, r7\<lparr>usedScriptPreloads := []\<rparr>)) (\<lambda>(t8, r8).
      on_ok (forEach (flushLinkResource fl ex) (explicitScriptPreloads r8)
               (t8, r8\<lparr>explicitStylePreloads := []\<rparr>)) (\<lambda>(t9, r9).
      on_ok (forEach (flush_headResource fl ex) (headResources r9)
               (t9, r9\<lparr>explicitScriptPreloads := []\<rparr>)) (\<lambda>(target, r10).
      (case write_all destination target of
         (destination1, ok) \<Rightarrow> Inr (destination1, r10\<lparr>headResources := []\<rparr>, ok)))))))))))))"

definition writeResources ::
  "flags \<Rightarrow> externals \<Rightarrow> destination \<Rightarrow> resources \<Rightarrow> response_state \<Rightarrow> bool
     \<Rightarrow> error + destination \<times> resources \<times> bool" where
  "writeResources fl ex destination resources0 responseState willEmitInstructions =
     (let r = preinit_external_runtime fl resources0 responseState willEmitInstructions
      in
      on_ok (forEach (flush_preconnect fl ex) (preconnects r) ([], r)) (\<lambda>(t2, r2).
      on_ok (forEach (flush_fontPreload fl ex) (fontPreloads r2) (t2, r2\<lparr>preconnects := []\<rparr>)) (\<lambda>(t3, r3).
      on_ok (forEach (flushLinkResource fl ex) (usedStylePreloads r3)
               (t3, r3\<lparr>fontPreloads := []\<rparr>)) (\<lambda>(t5, r5).
      on_ok (forEach (flush_script ex) (scripts r5) (t5, r5\<lparr>usedStylePreloads := []\<rparr>)) (\<lambda>(t6, r6).
      on_ok (forEach (flushLinkResource fl ex) (usedScriptPreloads r6) (t6, r6\<lparr>scripts := []\<rparr>)) (\<lambda>(t7, r7).
      on_ok (forEach (flushLinkResource fl ex) (explicitStylePreloads r7)
               (t7, r7\<lparr>usedScriptPreloads := []\<rparr>)) (\<lambda>(t8, r8).
      on_ok (forEach (flushLinkResource fl ex) (explicitScriptPreloads r8)
               (t8, r8\<lparr>explicitStylePreloads := []\<rparr>)) (\<lambda>(t9, r9).
      on_ok (forEach (flush_headResource fl ex) (headResources r9)
               (t9, r9\<lparr>explicitScriptPreloads := []\<rparr>)) (\<lambda>(target, r10).
      (case write_all destination target of
         (destination1, ok) \<Rightarrow> Inr (destination1, r10\<lparr>headResources := []\<rparr>, ok)))))))))))"

section \<open>Preamble and postamble\<close>

text \<open>The first step of \<open>writePreamble\<close>: the open tags of html and head.\<close>

definition write_preamble_open ::
  "destination \<Rightarrow> response_state \<Rightarrow> error + destination \<times> response_state" where
  "write_preamble_open destination responseState =
     (if flushed responseState = NONE then
        on_ok (if htmlChunks responseState \<noteq> [] then
                 Inr (writeChunks destination (htmlChunks responseState),
                      responseState\<lparr>flushed := flushed responseState OR HTML\<rparr>)
               else if requiresEmbedding responseState then
                 on_ok (startChunkForTag (js ''html'')) (\<lambda>start.
                   Inr (writeChunks destination [DOCTYPE, start, endOfStartTag],
                        responseState\<lparr>flushed := flushed responseState OR HTML\<rparr>))
               else Inr (destination, responseState))
          (\<lambda>(d1, rs1).
             if headChunks rs1 \<noteq> [] then
               Inr (writeChunks d1 (headChunks rs1), rs1\<lparr>flushed := flushed rs1 OR HEAD\<rparr>)
             else if flushed rs1 AND HTML \<noteq> 0 then
               on_ok (startChunkForTag (js ''head'')) (\<lambda>start.
                 Inr (writeChunks d1 [start, endOfStartTag], rs1\<lparr>flushed := flushed rs1 OR HEAD\<rparr>))
             else Inr (d1, rs1))
      else Inr (destination, responseState))"

definition writePreamble ::
  "flags \<Rightarrow> externals \<Rightarrow> destination \<Rightarrow> resources \<Rightarrow> response_state \<Rightarrow> bool
     \<Rightarrow> error + destination \<times> resources \<times> response_state \<times> bool" where
  "writePreamble fl ex destination resources0 responseState willEmitInstructions =
     (if enableFloat fl then
        on_ok (write_preamble_open destination responseState) (\<lambda>(d1, rs1).
        (let d2 = writeChunks d1 (charsetChunks rs1);
             rs2 = rs1\<lparr>charsetChunks := []\<rparr>
         in
         on_ok (writeInitialResources fl ex d2 resources0 rs2 willEmitInstructions)
           (\<lambda>(d3, r3, ok3).
         (let (d4, ok4) = (if hoistableChunks rs2 \<noteq> [] then write_all d3 (hoistableChunks rs2)
                           else (d3, ok3));
              rs4 = rs2\<lparr>hoistableChunks := []\<rparr>;
              (d5, ok5) = (if rendered rs4 AND HEAD = NONE \<and> flushed rs4 AND HEAD \<noteq> 0 then
                             writeChunkAndReturn
                               (writeChunks d4 [endTag1, stringToChunk (js ''head'')]) endTag2
                           else (d4, ok4))
          in if requiresEmbedding rs4 \<and> rendered rs4 AND HTML_HEAD_OR_BODY = NONE then
               on_ok (startChunkForTag (js ''body'')) (\<lambda>start.
                 (case writeChunkAndReturn (writeChunk d5 start) endOfStartTag of
                    (d6, ok6) \<Rightarrow> Inr (d6, r3, rs4\<lparr>flushed := flushed rs4 OR BODY\<rparr>, ok6)))
             else
               Inr (d5, r3, rs4\<lparr>flushed := flushed rs4 OR (rendered rs4 AND BODY)\<rparr>, ok5)))))
      else Inr (destination, resources0, responseState, True))"

definition writePostamble :: "flags \<Rightarrow> destination \<Rightarrow> response_state \<Rightarrow> destination" where
  "writePostamble fl destination responseState =
     (if enableFloat fl then
        (let d1 = (if flushed responseState AND BODY \<noteq> NONE then
                     writeChunks destination [endTag1, stringToChunk (js ''body''), endTag2]
                   else destination)
         in if flushed responseState AND HTML \<noteq> NONE then
              writeChunks d1 [endTag1, stringToChunk (js ''html''), endTag2]
            else d1)
      else destination)"

section \<open>Style dependencies of a boundary\<close>

definition hasStyleResourceDependencies :: "resources \<Rightarrow> nat \<Rightarrow> bool" where
  "hasStyleResourceDependencies r boundaryResources0 =
     list_ex (\<lambda>resource. \<not> style_inShell (style_store r ! resource))
       (boundary_store r ! boundaryResources0)"

definition arrayFirstOpenBracket :: chunk where
  "arrayFirstOpenBracket = stringToPrecomputedChunk (js ''['')"
definition arraySubsequentOpenBracket :: chunk where
  "arraySubsequentOpenBracket = stringToPrecomputedChunk (js '',['')"
definition arrayInterstitial :: chunk where
  "arrayInterstitial = stringToPrecomputedChunk (js '','')"
definition arrayCloseBracket :: chunk where
  "arrayCloseBracket = stringToPrecomputedChunk (js '']'')"

text \<open>
  The serialisers of the dependencies come in two copies that differ in how a string is
  encoded: \<open>escapeJSObjectForInstructionScripts(s)\<close> in the \<open>InJS\<close> functions and
  \<open>escapeTextForBrowser(JSON.stringify(s))\<close> in the \<open>InAttr\<close> functions. The model has one
  copy with the encoding as an argument.
\<close>

definition encode_in_js :: "externals \<Rightarrow> jsstring \<Rightarrow> error + jsstring" where
  "encode_in_js ex str = escapeJSObjectForInstructionScripts ex str"

definition encode_in_attr :: "externals \<Rightarrow> jsstring \<Rightarrow> error + jsstring" where
  "encode_in_attr ex str = Inr (escapeTextForBrowser ex (JSON_stringify ex str))"

definition reserved_attribute_names :: "jsstring list" where
  "reserved_attribute_names = map js
     [''innerHTML'', ''dangerouslySetInnerHTML'', ''suppressContentEditableWarning'',
      ''suppressHydrationWarning'', ''style'']"

definition is_event_name :: "jsstring \<Rightarrow> bool" where
  "is_event_name name =
     (length name > 2 \<and> (name ! 0 = 0x6F \<or> name ! 0 = 0x4F) \<and> (name ! 1 = 0x6E \<or> name ! 1 = 0x4E))"

definition writeStyleResourceAttribute ::
  "(jsstring \<Rightarrow> error + jsstring) \<Rightarrow> externals \<Rightarrow> destination \<Rightarrow> jsstring \<Rightarrow> jsval
     \<Rightarrow> error + destination" where
  "writeStyleResourceAttribute enc ex destination name v =
     (let attributeName = (if name = js ''className'' then js ''class'' else toLowerCase ex name)
      in if v = JFunction \<or> v = JSymbol then Inr destination
         else if name \<in> set reserved_attribute_names then Inr destination
         else if name = js ''hidden'' \<and> v = JBool False then Inr destination
         else if name \<noteq> js ''className'' \<and> name \<noteq> js ''hidden'' \<and> name \<noteq> js ''src''
                 \<and> name \<noteq> js ''href'' \<and> \<not> isAttributeNameSafe ex name then Inr destination
         else
           on_ok (if name = js ''src'' \<or> name = js ''href'' then
                    on_ok (string_of ex v) (\<lambda>url.
                      case sanitizeURL ex url of Some e \<Rightarrow> Inl e | None \<Rightarrow> Inr ())
                  else Inr ()) (\<lambda>u.
           if is_event_name name then Inr destination
           else
             on_ok (string_of ex v) (\<lambda>attributeValue.
             on_ok (enc attributeName) (\<lambda>encodedName.
             on_ok (enc attributeValue) (\<lambda>encodedValue.
               Inr (writeChunks destination
                      [arrayInterstitial, stringToChunk encodedName,
                       arrayInterstitial, stringToChunk encodedValue]))))))"

fun writeStyleResourceDependency_props ::
  "(jsstring \<Rightarrow> error + jsstring) \<Rightarrow> externals \<Rightarrow> destination \<Rightarrow> props \<Rightarrow> error + destination" where
  "writeStyleResourceDependency_props enc ex destination [] = Inr destination"
| "writeStyleResourceDependency_props enc ex destination ((propKey, propValue) # ps) =
     (if nullish propValue then writeStyleResourceDependency_props enc ex destination ps
      else if propKey = js ''href'' \<or> propKey = js ''rel'' \<or> propKey = js ''precedence''
              \<or> propKey = js ''data-precedence'' then
        writeStyleResourceDependency_props enc ex destination ps
      else if propKey = js ''children'' \<or> propKey = js ''dangerouslySetInnerHTML'' then
        Inl (Error ''link is a self-closing tag and must neither have `children` nor use `dangerouslySetInnerHTML`.'')
      else on_ok (writeStyleResourceAttribute enc ex destination propKey propValue)
             (\<lambda>d. writeStyleResourceDependency_props enc ex d ps))"

definition writeStyleResourceDependency ::
  "(jsstring \<Rightarrow> error + jsstring) \<Rightarrow> externals \<Rightarrow> destination \<Rightarrow> jsstring \<Rightarrow> jsstring \<Rightarrow> props
     \<Rightarrow> error + destination" where
  "writeStyleResourceDependency enc ex destination href precedence ps =
     (case sanitizeURL ex href of
        Some e \<Rightarrow> Inl e
      | None \<Rightarrow>
          on_ok (enc href) (\<lambda>encodedHref.
          on_ok (enc precedence) (\<lambda>encodedPrecedence.
            writeStyleResourceDependency_props enc ex
              (writeChunks destination
                 [stringToChunk encodedHref, arrayInterstitial, stringToChunk encodedPrecedence])
              ps)))"

definition writeStyleResourceDependencyHrefOnly ::
  "(jsstring \<Rightarrow> error + jsstring) \<Rightarrow> destination \<Rightarrow> jsstring \<Rightarrow> error + destination" where
  "writeStyleResourceDependencyHrefOnly enc destination href =
     on_ok (enc href) (\<lambda>encodedHref. Inr (writeChunk destination (stringToChunk encodedHref)))"

text \<open>
  The callback of \<open>boundaryResources.forEach\<close>; the state is the destination, the registry
  and \<open>nextArrayOpenBrackChunk\<close>.
\<close>

definition write_dependency ::
  "(jsstring \<Rightarrow> error + jsstring) \<Rightarrow> externals \<Rightarrow> destination \<times> resources \<times> chunk \<Rightarrow> nat
     \<Rightarrow> error + destination \<times> resources \<times> chunk" where
  "write_dependency enc ex st resource =
     (case st of (destination, r, nextArrayOpenBrackChunk) \<Rightarrow>
        if style_inShell (style_store r ! resource) then Inr (destination, r, nextArrayOpenBrackChunk)
        else if style_flushed (style_store r ! resource) then
          on_ok (writeStyleResourceDependencyHrefOnly enc
                   (writeChunk destination nextArrayOpenBrackChunk)
                   (style_href (style_store r ! resource))) (\<lambda>d.
            Inr (writeChunk d arrayCloseBracket, r, arraySubsequentOpenBracket))
        else
          on_ok (writeStyleResourceDependency enc ex
                   (writeChunk destination nextArrayOpenBrackChunk)
                   (style_href (style_store r ! resource))
                   (style_precedence (style_store r ! resource))
                   (style_props (style_store r ! resource))) (\<lambda>d.
            Inr (writeChunk d arrayCloseBracket,
                 set_preload_flushed
                   (r\<lparr>style_store := (style_store r)
                         [resource := (style_store r ! resource)\<lparr>style_flushed := True\<rparr>]\<rparr>)
                   (style_hint (style_store r ! resource)),
                 arraySubsequentOpenBracket)))"

definition writeStyleResourceDependencies ::
  "(jsstring \<Rightarrow> error + jsstring) \<Rightarrow> externals \<Rightarrow> destination \<Rightarrow> resources \<Rightarrow> nat
     \<Rightarrow> error + destination \<times> resources" where
  "writeStyleResourceDependencies enc ex destination r boundaryResources0 =
     on_ok (forEach (write_dependency enc ex) (boundary_store r ! boundaryResources0)
              (writeChunk destination arrayFirstOpenBracket, r, arrayFirstOpenBracket))
       (\<lambda>(d, r1, nextArrayOpenBrackChunk). Inr (writeChunk d arrayCloseBracket, r1))"

definition writeStyleResourceDependenciesInJS ::
  "externals \<Rightarrow> destination \<Rightarrow> resources \<Rightarrow> nat \<Rightarrow> error + destination \<times> resources" where
  "writeStyleResourceDependenciesInJS ex = writeStyleResourceDependencies (encode_in_js ex) ex"

definition writeStyleResourceDependenciesInAttr ::
  "externals \<Rightarrow> destination \<Rightarrow> resources \<Rightarrow> nat \<Rightarrow> error + destination \<times> resources" where
  "writeStyleResourceDependenciesInAttr ex = writeStyleResourceDependencies (encode_in_attr ex) ex"

section \<open>Suspense boundaries and instructions\<close>

definition assignSuspenseBoundaryID :: "response_state \<Rightarrow> suspense_boundary_id \<times> response_state" where
  "assignSuspenseBoundaryID responseState =
     (Some (BoundaryChunk (nextSuspenseID responseState),
            stringToPrecomputedChunk
              (boundaryPrefix responseState @ toString16 (nextSuspenseID responseState))),
      responseState\<lparr>nextSuspenseID := nextSuspenseID responseState + 1\<rparr>)"

definition getRootBoundaryID :: "response_state \<Rightarrow> suspense_boundary_id" where
  "getRootBoundaryID responseState = containerBoundaryID responseState"

definition startCompletedSuspenseBoundary :: chunk where
  "startCompletedSuspenseBoundary = stringToPrecomputedChunk (js ''<!--$-->'')"
definition startPendingSuspenseBoundary1 :: chunk where
  "startPendingSuspenseBoundary1 = stringToPrecomputedChunk (js ''<!--$?--><template id=\"'')"
definition startPendingSuspenseBoundary2 :: chunk where
  "startPendingSuspenseBoundary2 = stringToPrecomputedChunk (js ''\"></template>'')"
definition startClientRenderedSuspenseBoundary :: chunk where
  "startClientRenderedSuspenseBoundary = stringToPrecomputedChunk (js ''<!--$!-->'')"
definition endSuspenseBoundary :: chunk where
  "endSuspenseBoundary = stringToPrecomputedChunk (js ''<!--/$-->'')"
definition clientRenderedSuspenseBoundaryError1 :: chunk where
  "clientRenderedSuspenseBoundaryError1 = stringToPrecomputedChunk (js ''<template'')"
definition clientRenderedSuspenseBoundaryErrorAttrInterstitial :: chunk where
  "clientRenderedSuspenseBoundaryErrorAttrInterstitial = stringToPrecomputedChunk (js ''\"'')"
definition clientRenderedSuspenseBoundaryError1A :: chunk where
  "clientRenderedSuspenseBoundaryError1A = stringToPrecomputedChunk (js '' data-dgst=\"'')"
definition clientRenderedSuspenseBoundaryError1B :: chunk where
  "clientRenderedSuspenseBoundaryError1B = stringToPrecomputedChunk (js '' data-msg=\"'')"
definition clientRenderedSuspenseBoundaryError1C :: chunk where
  "clientRenderedSuspenseBoundaryError1C = stringToPrecomputedChunk (js '' data-stck=\"'')"
definition clientRenderedSuspenseBoundaryError2 :: chunk where
  "clientRenderedSuspenseBoundaryError2 = stringToPrecomputedChunk (js ''></template>'')"

text \<open>An optional string argument (\<open>?string\<close>): its truthiness, and \<open>x || ''\<close>.\<close>

fun given :: "jsstring option \<Rightarrow> bool" where
  "given None = False"
| "given (Some str) = (str \<noteq> [])"

fun or_empty :: "jsstring option \<Rightarrow> jsstring" where
  "or_empty None = []"
| "or_empty (Some str) = str"

definition writeStartPendingSuspenseBoundary ::
  "destination \<Rightarrow> response_state \<Rightarrow> suspense_boundary_id \<Rightarrow> error + destination \<times> bool" where
  "writeStartPendingSuspenseBoundary destination responseState id0 =
     (case id0 of
        None \<Rightarrow> Inl (Error ''An ID must have been assigned before we can complete the boundary.'')
      | Some (object, c) \<Rightarrow>
          Inr (writeChunkAndReturn
                 (writeChunks destination [startPendingSuspenseBoundary1, c])
                 startPendingSuspenseBoundary2))"

definition writeStartClientRenderedSuspenseBoundary ::
  "flags \<Rightarrow> externals \<Rightarrow> destination \<Rightarrow> response_state \<Rightarrow> jsstring option \<Rightarrow> jsstring option
     \<Rightarrow> jsstring option \<Rightarrow> destination \<times> bool" where
  "writeStartClientRenderedSuspenseBoundary fl ex destination responseState errorDigest
       errorMesssage errorComponentStack =
     writeChunkAndReturn
       (writeChunks destination
          ([startClientRenderedSuspenseBoundary, clientRenderedSuspenseBoundaryError1]
           @ (if given errorDigest then
                [clientRenderedSuspenseBoundaryError1A,
                 stringToChunk (escapeTextForBrowser ex (or_empty errorDigest)),
                 clientRenderedSuspenseBoundaryErrorAttrInterstitial]
              else [])
           @ (if DEV fl \<and> given errorMesssage then
                [clientRenderedSuspenseBoundaryError1B,
                 stringToChunk (escapeTextForBrowser ex (or_empty errorMesssage)),
                 clientRenderedSuspenseBoundaryErrorAttrInterstitial]
              else [])
           @ (if DEV fl \<and> given errorComponentStack then
                [clientRenderedSuspenseBoundaryError1C,
                 stringToChunk (escapeTextForBrowser ex (or_empty errorComponentStack)),
                 clientRenderedSuspenseBoundaryErrorAttrInterstitial]
              else [])))
       clientRenderedSuspenseBoundaryError2"

definition writeEndClientRenderedSuspenseBoundary ::
  "destination \<Rightarrow> response_state \<Rightarrow> destination \<times> bool" where
  "writeEndClientRenderedSuspenseBoundary destination responseState =
     writeChunkAndReturn destination endSuspenseBoundary"

definition writeEndPendingSuspenseBoundary ::
  "destination \<Rightarrow> response_state \<Rightarrow> destination \<times> bool" where
  "writeEndPendingSuspenseBoundary destination responseState =
     writeChunkAndReturn destination endSuspenseBoundary"

definition dataElementQuotedEnd :: chunk where
  "dataElementQuotedEnd = stringToPrecomputedChunk (js ''\"></template>'')"

definition completeSegmentScript1Full :: chunk where
  "completeSegmentScript1Full = CodeChunk completeSegmentFunctionString (js ''$RS(\"'')"
definition completeSegmentScript1Partial :: chunk where
  "completeSegmentScript1Partial = stringToPrecomputedChunk (js ''$RS(\"'')"
definition completeSegmentScript2 :: chunk where
  "completeSegmentScript2 = stringToPrecomputedChunk (js ''\",\"'')"
definition completeSegmentScriptEnd :: chunk where
  "completeSegmentScriptEnd = stringToPrecomputedChunk (js ''\")</script>'')"
definition completeSegmentData1 :: chunk where
  "completeSegmentData1 = stringToPrecomputedChunk (js ''<template data-ri=\"s\" data-sid=\"'')"
definition completeSegmentData2 :: chunk where
  "completeSegmentData2 = stringToPrecomputedChunk (js ''\" data-pid=\"'')"
definition completeSegmentDataEnd :: chunk where
  "completeSegmentDataEnd = dataElementQuotedEnd"

definition scriptFormat :: "flags \<Rightarrow> response_state \<Rightarrow> bool" where
  "scriptFormat fl responseState =
     (\<not> enableFizzExternalRuntime fl \<or> streamingFormat responseState = ScriptStreamingFormat)"

definition writeCompletedSegmentInstruction ::
  "flags \<Rightarrow> destination \<Rightarrow> response_state \<Rightarrow> nat \<Rightarrow> destination \<times> response_state \<times> bool" where
  "writeCompletedSegmentInstruction fl destination responseState contentSegmentID =
     (let formattedID = stringToChunk (toString16 contentSegmentID)
      in if scriptFormat fl responseState then
           (case writeChunkAndReturn
                   (writeChunks destination
                      [startInlineScript responseState,
                       if \<not> sentCompleteSegmentFunction responseState
                       then completeSegmentScript1Full else completeSegmentScript1Partial,
                       segmentPrefix responseState, formattedID, completeSegmentScript2,
                       placeholderPrefix responseState, formattedID])
                   completeSegmentScriptEnd of
              (d, ok) \<Rightarrow> (d, responseState\<lparr>sentCompleteSegmentFunction := True\<rparr>, ok))
         else
           (case writeChunkAndReturn
                   (writeChunks destination
                      [completeSegmentData1, segmentPrefix responseState, formattedID,
                       completeSegmentData2, placeholderPrefix responseState, formattedID])
                   completeSegmentDataEnd of
              (d, ok) \<Rightarrow> (d, responseState, ok)))"

definition completeBoundaryFunction :: chunk where
  "completeBoundaryFunction = CodeChunk completeBoundaryFunctionString []"
definition completeContainerFunction :: chunk where
  "completeContainerFunction = CodeChunk completeContainerFunctionString []"
definition styleInsertionFunction :: chunk where
  "styleInsertionFunction = CodeChunk styleInsertionFunctionString []"
definition completeBoundaryScript1 :: chunk where
  "completeBoundaryScript1 = stringToPrecomputedChunk (js ''$RC(\"'')"
definition completeBoundaryWithStylesScript1 :: chunk where
  "completeBoundaryWithStylesScript1 = stringToPrecomputedChunk (js ''$RR($RC,\"'')"
definition completeContainerScript1 :: chunk where
  "completeContainerScript1 = stringToPrecomputedChunk (js ''$RK(\"'')"
definition completeContainerWithStylesScript1 :: chunk where
  "completeContainerWithStylesScript1 = stringToPrecomputedChunk (js ''$RR($RK,\"'')"
definition completeBoundaryOrContainerScript2 :: chunk where
  "completeBoundaryOrContainerScript2 = stringToPrecomputedChunk (js ''\",\"'')"
definition completeBoundaryOrContainerScript2a :: chunk where
  "completeBoundaryOrContainerScript2a = stringToPrecomputedChunk (js ''\",'')"
definition completeBoundaryOrContainerScript3 :: chunk where
  "completeBoundaryOrContainerScript3 = stringToPrecomputedChunk (js ''\"'')"
definition completeBoundaryOrContainerScriptEnd :: chunk where
  "completeBoundaryOrContainerScriptEnd = stringToPrecomputedChunk (js '')</script>'')"
definition bootstrapContainerOpenStart :: chunk where
  "bootstrapContainerOpenStart = stringToPrecomputedChunk (js ''<template id=\"bs:'')"
definition bootstrapContainerOpenEnd :: chunk where
  "bootstrapContainerOpenEnd = stringToPrecomputedChunk (js ''\">'')"
definition bootstrapContainerClose :: chunk where
  "bootstrapContainerClose = stringToPrecomputedChunk (js ''</template>'')"
definition completeContainerData1 :: chunk where
  "completeContainerData1 = stringToPrecomputedChunk (js ''<template data-ri=\"c\" data-bid=\"'')"
definition completeContainerWithStylesData1 :: chunk where
  "completeContainerWithStylesData1 =
     stringToPrecomputedChunk (js ''<template data-ri=\"rc\" data-bid=\"'')"
definition completeBoundaryData1 :: chunk where
  "completeBoundaryData1 = stringToPrecomputedChunk (js ''<template data-ri=\"b\" data-bid=\"'')"
definition completeBoundaryWithStylesData1 :: chunk where
  "completeBoundaryWithStylesData1 =
     stringToPrecomputedChunk (js ''<template data-ri=\"rb\" data-bid=\"'')"
definition completeBoundaryOrContainerData2 :: chunk where
  "completeBoundaryOrContainerData2 = stringToPrecomputedChunk (js ''\" data-sid=\"'')"
definition completeBoundaryOrContainerData3 :: chunk where
  "completeBoundaryOrContainerData3 = stringToPrecomputedChunk (js ''\" data-sty=\"'')"
definition completeBoundaryOrContainerDataEmptyEnd :: chunk where
  "completeBoundaryOrContainerDataEmptyEnd = dataElementQuotedEnd"

text \<open>
  The bootstrap chunks in a template container named after the segment, written before the
  instruction of a completed container when there are bootstrap chunks.
\<close>

definition write_bootstrap_container ::
  "destination \<Rightarrow> response_state \<Rightarrow> chunk \<Rightarrow> destination" where
  "write_bootstrap_container destination responseState formattedContentID =
     (if bootstrapChunks responseState \<noteq> [] then
        writeChunks destination
          ([bootstrapContainerOpenStart, segmentPrefix responseState, formattedContentID,
            bootstrapContainerOpenEnd]
           @ bootstrapChunks responseState @ [bootstrapContainerClose])
      else destination)"

definition writeCompletedBoundaryInstruction ::
  "flags \<Rightarrow> externals \<Rightarrow> destination \<Rightarrow> response_state \<Rightarrow> suspense_boundary_id \<Rightarrow> nat \<Rightarrow> nat
     \<Rightarrow> resources \<Rightarrow> error + destination \<times> response_state \<times> resources \<times> bool" where
  "writeCompletedBoundaryInstruction fl ex destination responseState boundaryID contentSegmentID
       boundaryResources0 r =
     (case boundaryID of
        None \<Rightarrow> Inl (Error ''An ID must have been assigned before we can complete the boundary.'')
      | Some (object, bid) \<Rightarrow>
        (let hasStyleDependencies =
               (enableFloat fl \<and> hasStyleResourceDependencies r boundaryResources0);
             formattedContentID = stringToChunk (toString16 contentSegmentID);
             container = (boundaryID = containerBoundaryID responseState);
             arguments = [bid, completeBoundaryOrContainerScript2, segmentPrefix responseState,
                          formattedContentID]
         in
         if scriptFormat fl responseState then
           if hasStyleDependencies then
             (let d1 = (if container
                        then write_bootstrap_container destination responseState formattedContentID
                        else destination);
                  d2 = writeChunks d1
                         ([startInlineScript responseState]
                          @ (if \<not> sentStyleInsertionFunction responseState
                             then [clonePrecomputedChunk styleInsertionFunction] else [])
                          @ (if container then
                               (if \<not> sentCompleteContainerFunction responseState
                                then [completeContainerFunction] else [])
                               @ [completeContainerWithStylesScript1]
                             else
                               (if \<not> sentCompleteBoundaryFunction responseState
                                then [completeBoundaryFunction] else [])
                               @ [completeBoundaryWithStylesScript1])
                          @ arguments @ [completeBoundaryOrContainerScript2a]);
                  rs1 = (if container
                         then responseState\<lparr>sentStyleInsertionFunction := True,
                                            sentCompleteContainerFunction := True\<rparr>
                         else responseState\<lparr>sentStyleInsertionFunction := True,
                                            sentCompleteBoundaryFunction := True\<rparr>)
              in on_ok (writeStyleResourceDependenciesInJS ex d2 r boundaryResources0)
                   (\<lambda>(d3, r1).
                      case writeChunkAndReturn d3 completeBoundaryOrContainerScriptEnd of
                        (d4, ok) \<Rightarrow> Inr (d4, rs1, r1, ok)))
           else if container then
             (case writeChunkAndReturn
                     (writeChunks destination
                        ([startInlineScript responseState]
                         @ (if \<not> sentCompleteContainerFunction responseState
                            then [completeContainerFunction] else [])
                         @ [completeContainerScript1] @ arguments
                         @ [completeBoundaryOrContainerScript3]))
                     completeBoundaryOrContainerScriptEnd of
                (d1, ok1) \<Rightarrow>
                  (case (if bootstrapChunks responseState \<noteq> []
                         then write_all d1 (bootstrapChunks responseState) else (d1, ok1)) of
                     (d2, ok2) \<Rightarrow>
                       Inr (d2, responseState\<lparr>sentCompleteContainerFunction := True\<rparr>, r, ok2)))
           else
             (case writeChunkAndReturn
                     (writeChunks destination
                        ([startInlineScript responseState]
                         @ (if \<not> sentCompleteBoundaryFunction responseState
                            then [completeBoundaryFunction] else [])
                         @ [completeBoundaryScript1] @ arguments
                         @ [completeBoundaryOrContainerScript3]))
                     completeBoundaryOrContainerScriptEnd of
                (d1, ok) \<Rightarrow>
                  Inr (d1, responseState\<lparr>sentCompleteBoundaryFunction := True\<rparr>, r, ok))
         else
           (let d1 = (if container
                      then write_bootstrap_container destination responseState formattedContentID
                      else destination);
                data_arguments = [bid, completeBoundaryOrContainerData2,
                                  segmentPrefix responseState, formattedContentID]
            in if hasStyleDependencies then
                 on_ok (writeStyleResourceDependenciesInAttr ex
                          (writeChunks d1
                             ([if container then completeContainerWithStylesData1
                               else completeBoundaryWithStylesData1]
                              @ data_arguments @ [completeBoundaryOrContainerData3]))
                          r boundaryResources0)
                   (\<lambda>(d3, r1).
                      case writeChunkAndReturn d3 completeBoundaryOrContainerDataEmptyEnd of
                        (d4, ok) \<Rightarrow> Inr (d4, responseState, r1, ok))
               else
                 (case writeChunkAndReturn
                         (writeChunks d1
                            ([if container then completeContainerData1 else completeBoundaryData1]
                             @ data_arguments))
                         completeBoundaryOrContainerDataEmptyEnd of
                    (d2, ok) \<Rightarrow> Inr (d2, responseState, r, ok)))))"

definition clientRenderScript1Full :: chunk where
  "clientRenderScript1Full = CodeChunk clientRenderFunctionString (js ''$RX(\"'')"
definition clientRenderScript1Partial :: chunk where
  "clientRenderScript1Partial = stringToPrecomputedChunk (js ''$RX(\"'')"
definition clientRenderScript1A :: chunk where
  "clientRenderScript1A = stringToPrecomputedChunk (js ''\"'')"
definition clientRenderErrorScriptArgInterstitial :: chunk where
  "clientRenderErrorScriptArgInterstitial = stringToPrecomputedChunk (js '','')"
definition clientRenderScriptEnd :: chunk where
  "clientRenderScriptEnd = stringToPrecomputedChunk (js '')</script>'')"
definition clientRenderData1 :: chunk where
  "clientRenderData1 = stringToPrecomputedChunk (js ''<template data-ri=\"x\" data-bid=\"'')"
definition clientRenderData2 :: chunk where
  "clientRenderData2 = stringToPrecomputedChunk (js ''\" data-dgst=\"'')"
definition clientRenderData3 :: chunk where
  "clientRenderData3 = stringToPrecomputedChunk (js ''\" data-msg=\"'')"
definition clientRenderData4 :: chunk where
  "clientRenderData4 = stringToPrecomputedChunk (js ''\" data-stck=\"'')"
definition clientRenderDataEnd :: chunk where
  "clientRenderDataEnd = dataElementQuotedEnd"

text \<open>One optional argument of the client render instruction, in either format.\<close>

definition client_render_argument ::
  "externals \<Rightarrow> bool \<Rightarrow> chunk \<Rightarrow> jsstring \<Rightarrow> error + chunk list" where
  "client_render_argument ex script dataStart str =
     (if script then
        on_ok (escapeJSStringsForInstructionScripts ex str) (\<lambda>escaped.
          Inr [clientRenderErrorScriptArgInterstitial, stringToChunk escaped])
      else Inr [dataStart, stringToChunk (escapeTextForBrowser ex str)])"

text \<open>The optional arguments: digest, message and component stack.\<close>

definition client_render_arguments ::
  "externals \<Rightarrow> bool \<Rightarrow> jsstring option \<Rightarrow> jsstring option \<Rightarrow> jsstring option
     \<Rightarrow> error + chunk list" where
  "client_render_arguments ex script errorDigest errorMessage errorComponentStack =
     on_ok (if given errorDigest \<or> given errorMessage \<or> given errorComponentStack
            then client_render_argument ex script clientRenderData2 (or_empty errorDigest)
            else Inr []) (\<lambda>a1.
     on_ok (if given errorMessage \<or> given errorComponentStack
            then client_render_argument ex script clientRenderData3 (or_empty errorMessage)
            else Inr []) (\<lambda>a2.
     on_ok (if given errorComponentStack
            then client_render_argument ex script clientRenderData4
                   (or_empty errorComponentStack)
            else Inr []) (\<lambda>a3. Inr (a1 @ a2 @ a3))))"

definition writeClientRenderBoundaryInstruction ::
  "flags \<Rightarrow> externals \<Rightarrow> destination \<Rightarrow> response_state \<Rightarrow> suspense_boundary_id
     \<Rightarrow> jsstring option \<Rightarrow> jsstring option \<Rightarrow> jsstring option
     \<Rightarrow> error + destination \<times> response_state \<times> bool" where
  "writeClientRenderBoundaryInstruction fl ex destination responseState boundaryID errorDigest
       errorMessage errorComponentStack =
     (let script = scriptFormat fl responseState
      in if boundaryID = containerBoundaryID responseState then
           (case write_all destination
                   (case fallbackBootstrapChunks responseState of
                      Some chunks \<Rightarrow> chunks
                    | None \<Rightarrow> bootstrapChunks responseState) of
              (d, ok) \<Rightarrow> Inr (d, responseState, ok))
         else
           (case boundaryID of
              None \<Rightarrow>
                Inl (Error ''An ID must have been assigned before we can complete the boundary.'')
            | Some (object, bid) \<Rightarrow>
                (let d1 = writeChunks destination
                            ((if script then
                                [startInlineScript responseState,
                                 if \<not> sentClientRenderFunction responseState
                                 then clientRenderScript1Full else clientRenderScript1Partial]
                              else [clientRenderData1])
                             @ [bid] @ (if script then [clientRenderScript1A] else []));
                     rs1 = (if script then responseState\<lparr>sentClientRenderFunction := True\<rparr>
                            else responseState)
                 in
                 on_ok (client_render_arguments ex script errorDigest errorMessage
                          errorComponentStack) (\<lambda>arguments.
                   (case writeChunkAndReturn (writeChunks d1 arguments)
                           (if script then clientRenderScriptEnd else clientRenderDataEnd) of
                      (d2, ok) \<Rightarrow> Inr (d2, rs1, ok))))))"

section \<open>A font preloaded again after its flush\<close>

text \<open>
  An example run: \<open>preload('f', {as: 'font'})\<close> on a new registry, the flush of the shell by
  \<open>writeInitialResources\<close>, the same \<open>preload\<close> call again, and a later flush by
  \<open>writeResources\<close>. The result holds the text of the first flush, the \<open>flushed\<close> flag of the
  resource and the \<open>fontPreloads\<close> queue before the second flush, and the text of the second
  flush.
\<close>

definition font_options :: preload_options where
  "font_options = \<lparr>preload_options_as = AsFont, preload_options_crossOrigin = JUndefined,
                    preload_options_integrity = JUndefined\<rparr>"

definition font_preload_twice :: "error + jsstring \<times> bool \<times> nat list \<times> jsstring" where
  "font_preload_twice =
     (case preload (Some createResources) (js ''f'') font_options of
        None \<Rightarrow> Inl (Error ''no render'')
      | Some r1 \<Rightarrow>
          on_ok (writeInitialResources production_flags plain_externals [] r1 stream_response
                   False) (\<lambda>(d1, r2, ok1).
            (case preload (Some r2) (js ''f'') font_options of
               None \<Rightarrow> Inl (Error ''no render'')
             | Some r3 \<Rightarrow>
                 on_ok (writeResources production_flags plain_externals [] r3 stream_response
                          False) (\<lambda>(d2, r4, ok2).
                   Inr (written_text no_code d1, preload_flushed (preload_store r3 ! 0),
                        fontPreloads r3, written_text no_code d2)))))"

section \<open>An errored boundary\<close>

text \<open>
  Modelled from the spec: the renderer's flush of a boundary that errored, a function of
  \<open>ReactFizzServer\<close> that is not among the sources. The spec: an errored boundary
  ``emits \<open><!--$!-->\<close> + fallback content + \<open><!--/$-->\<close>, and a \<open>$RX("boundaryID", optDigest,
  optMessage, optStack)\<close> instruction (script form) or \<open><template data-ri="x" ...>\<close> (data
  form)''. The writers it calls are those of the sources; the chunks of the fallback content
  are an argument.
\<close>

definition flushClientRenderedBoundary ::
  "flags \<Rightarrow> externals \<Rightarrow> destination \<Rightarrow> response_state \<Rightarrow> suspense_boundary_id \<Rightarrow> chunk list
     \<Rightarrow> jsstring option \<Rightarrow> jsstring option \<Rightarrow> jsstring option
     \<Rightarrow> error + destination \<times> response_state \<times> bool" where
  "flushClientRenderedBoundary fl ex destination responseState boundaryID fallback errorDigest
       errorMessage errorComponentStack =
     (case writeStartClientRenderedSuspenseBoundary fl ex destination responseState errorDigest
             errorMessage errorComponentStack of
        (d1, ok1) \<Rightarrow>
          (case writeEndClientRenderedSuspenseBoundary (writeChunks d1 fallback) responseState of
             (d2, ok2) \<Rightarrow>
               writeClientRenderBoundaryInstruction fl ex d2 responseState boundaryID errorDigest
                 errorMessage errorComponentStack))"

section \<open>Sequences of instruction writes\<close>

text \<open>
  The three instruction writers are called by the renderer, once per completed segment,
  completed boundary or errored boundary, on the same destination, response state and
  registry. An \<open>instruction\<close> names one such call with its arguments, and
  \<open>write_instruction\<close> makes it, passing the destination, the response state and the registry
  on to the next call. A call that throws ends the sequence.
\<close>

datatype instruction =
    CompletedSegment nat
  | CompletedBoundary suspense_boundary_id nat nat
  | ClientRender suspense_boundary_id "jsstring option" "jsstring option" "jsstring option"

fun write_instruction ::
  "flags \<Rightarrow> externals \<Rightarrow> destination \<times> response_state \<times> resources \<Rightarrow> instruction
     \<Rightarrow> error + destination \<times> response_state \<times> resources" where
  "write_instruction fl ex (d, rs, r) (CompletedSegment contentSegmentID) =
     (case writeCompletedSegmentInstruction fl d rs contentSegmentID of
        (d1, rs1, ok) \<Rightarrow> Inr (d1, rs1, r))"
| "write_instruction fl ex (d, rs, r) (CompletedBoundary boundaryID contentSegmentID b) =
     on_ok (writeCompletedBoundaryInstruction fl ex d rs boundaryID contentSegmentID b r)
       (\<lambda>(d1, rs1, r1, ok). Inr (d1, rs1, r1))"
| "write_instruction fl ex (d, rs, r) (ClientRender boundaryID digest msg stack) =
     on_ok (writeClientRenderBoundaryInstruction fl ex d rs boundaryID digest msg stack)
       (\<lambda>(d1, rs1, ok). Inr (d1, rs1, r))"

text \<open>
  Counting the helper function bodies in the destination: \<open>code_count f d\<close> is the number of
  chunks of \<open>d\<close> that contain the body of the imported function \<open>f\<close>.
\<close>

fun is_code :: "inline_code \<Rightarrow> chunk \<Rightarrow> bool" where
  "is_code f (Chunk s) = False"
| "is_code f (CodeChunk g s) = (g = f)"

definition code_count :: "inline_code \<Rightarrow> destination \<Rightarrow> nat" where
  "code_count f d = length (filter (is_code f) d)"

text \<open>The \<open>sent*Function\<close> flag of the response state that guards the function \<open>f\<close>.\<close>

fun sent :: "inline_code \<Rightarrow> response_state \<Rightarrow> bool" where
  "sent clientRenderFunctionString rs = sentClientRenderFunction rs"
| "sent completeBoundaryFunctionString rs = sentCompleteBoundaryFunction rs"
| "sent completeContainerFunctionString rs = sentCompleteContainerFunction rs"
| "sent styleInsertionFunctionString rs = sentStyleInsertionFunction rs"
| "sent completeSegmentFunctionString rs = sentCompleteSegmentFunction rs"

text \<open>
  The helper functions an instruction calls: \<open>$RS\<close> for a segment; \<open>$RC\<close> or \<open>$RR\<close> for a
  boundary and \<open>$RB\<close> or \<open>$RZ\<close> for the container boundary, with the style insertion function
  when the boundary has style dependencies; \<open>$RX\<close> for a client render of a boundary other
  than the container boundary (for the container boundary the bootstrap chunks are written
  and no instruction).
\<close>

fun instruction_uses ::
  "flags \<Rightarrow> response_state \<Rightarrow> resources \<Rightarrow> instruction \<Rightarrow> inline_code \<Rightarrow> bool" where
  "instruction_uses fl rs r (CompletedSegment n) f = (f = completeSegmentFunctionString)"
| "instruction_uses fl rs r (CompletedBoundary boundaryID n b) f =
     ((if boundaryID = containerBoundaryID rs then f = completeContainerFunctionString
       else f = completeBoundaryFunctionString)
      \<or> (f = styleInsertionFunctionString \<and> enableFloat fl \<and> hasStyleResourceDependencies r b))"
| "instruction_uses fl rs r (ClientRender boundaryID digest msg stack) f =
     (f = clientRenderFunctionString \<and> boundaryID \<noteq> containerBoundaryID rs)"

text \<open>
  A chunk with no function body in it. The chunks that \<open>createResponseState\<close> and
  \<open>assignSuspenseBoundaryID\<close> make are of this kind.
\<close>

fun is_plain :: "chunk \<Rightarrow> bool" where
  "is_plain (Chunk s) = True"
| "is_plain (CodeChunk g s) = False"

definition plain_response :: "response_state \<Rightarrow> bool" where
  "plain_response rs =
     (is_plain (startInlineScript rs) \<and> is_plain (segmentPrefix rs)
      \<and> is_plain (placeholderPrefix rs) \<and> list_all is_plain (bootstrapChunks rs)
      \<and> (case fallbackBootstrapChunks rs of Some cs \<Rightarrow> list_all is_plain cs | None \<Rightarrow> True))"

fun plain_instruction :: "instruction \<Rightarrow> bool" where
  "plain_instruction (CompletedSegment n) = True"
| "plain_instruction (CompletedBoundary boundaryID n b) =
     (case boundaryID of Some (object, c) \<Rightarrow> is_plain c | None \<Rightarrow> True)"
| "plain_instruction (ClientRender boundaryID digest msg stack) =
     (case boundaryID of Some (object, c) \<Rightarrow> is_plain c | None \<Rightarrow> True)"

declare escapeBootstrapScriptContent.simps [simp del]

text \<open>
  The claim in its own words, as the text an instruction writes. An instruction is an
  inline script: the script start, the bodies of those helper functions it uses that are
  still \<open>fresh\<close> (not sent with the response state at the start and not used by an
  instruction before it), and the short invocation, that is the call of the helper with its
  arguments. A completed container has the bootstrap chunks with it (in a template before
  the script when it has style dependencies, after the script otherwise), and a client
  render of the container writes the fallback bootstrap chunks and no script. The style
  dependencies and the arguments of the client render are the text that the serialisers of
  the source write for them.
\<close>

definition helper_bodies ::
  "(inline_code \<Rightarrow> jsstring) \<Rightarrow> (inline_code \<Rightarrow> bool) \<Rightarrow> inline_code list \<Rightarrow> jsstring" where
  "helper_bodies code fresh fs = concat (map code (filter fresh fs))"

definition boundary_id_text :: "(inline_code \<Rightarrow> jsstring) \<Rightarrow> suspense_boundary_id \<Rightarrow> jsstring" where
  "boundary_id_text code boundaryID =
     (case boundaryID of Some (object, c) \<Rightarrow> chunk_text code c | None \<Rightarrow> [])"

definition style_dependencies_text ::
  "(inline_code \<Rightarrow> jsstring) \<Rightarrow> externals \<Rightarrow> resources \<Rightarrow> nat \<Rightarrow> jsstring" where
  "style_dependencies_text code ex r b =
     (case writeStyleResourceDependencies (encode_in_js ex) ex [] r b of
        Inl e \<Rightarrow> []
      | Inr (dependencies, r') \<Rightarrow> written_text code dependencies)"

definition client_render_arguments_text ::
  "(inline_code \<Rightarrow> jsstring) \<Rightarrow> externals \<Rightarrow> jsstring option \<Rightarrow> jsstring option \<Rightarrow> jsstring option
     \<Rightarrow> jsstring" where
  "client_render_arguments_text code ex errorDigest errorMessage errorComponentStack =
     (case client_render_arguments ex True errorDigest errorMessage errorComponentStack of
        Inl e \<Rightarrow> []
      | Inr arguments \<Rightarrow> written_text code arguments)"

fun instruction_text ::
  "(inline_code \<Rightarrow> jsstring) \<Rightarrow> flags \<Rightarrow> externals \<Rightarrow> response_state \<Rightarrow> (inline_code \<Rightarrow> bool)
     \<Rightarrow> resources \<Rightarrow> instruction \<Rightarrow> jsstring" where
  "instruction_text code fl ex rs fresh r (CompletedSegment n) =
     chunk_text code (startInlineScript rs)
     @ helper_bodies code fresh [completeSegmentFunctionString]
     @ js ''$RS(\"'' @ chunk_text code (segmentPrefix rs) @ toString16 n
     @ js ''\",\"'' @ chunk_text code (placeholderPrefix rs) @ toString16 n
     @ js ''\")</script>''"
| "instruction_text code fl ex rs fresh r (CompletedBoundary boundaryID n b) =
     (let container = (boundaryID = containerBoundaryID rs);
          segment = chunk_text code (segmentPrefix rs) @ toString16 n
      in if enableFloat fl \<and> hasStyleResourceDependencies r b then
           (if container \<and> bootstrapChunks rs \<noteq> [] then
              js ''<template id=\"bs:'' @ segment @ js ''\">''
              @ written_text code (bootstrapChunks rs) @ js ''</template>''
            else [])
           @ chunk_text code (startInlineScript rs)
           @ helper_bodies code fresh
               [styleInsertionFunctionString,
                if container then completeContainerFunctionString
                else completeBoundaryFunctionString]
           @ (if container then js ''$RR($RK,\"'' else js ''$RR($RC,\"'')
           @ boundary_id_text code boundaryID @ js ''\",\"'' @ segment @ js ''\",''
           @ style_dependencies_text code ex r b @ js '')</script>''
         else
           chunk_text code (startInlineScript rs)
           @ helper_bodies code fresh
               [if container then completeContainerFunctionString
                else completeBoundaryFunctionString]
           @ (if container then js ''$RK(\"'' else js ''$RC(\"'')
           @ boundary_id_text code boundaryID @ js ''\",\"'' @ segment @ js ''\")</script>''
           @ (if container then written_text code (bootstrapChunks rs) else []))"
| "instruction_text code fl ex rs fresh r (ClientRender boundaryID dg msg stack) =
     (if boundaryID = containerBoundaryID rs then
        written_text code (case fallbackBootstrapChunks rs of
                             Some chunks \<Rightarrow> chunks | None \<Rightarrow> bootstrapChunks rs)
      else
        chunk_text code (startInlineScript rs)
        @ helper_bodies code fresh [clientRenderFunctionString]
        @ js ''$RX(\"'' @ boundary_id_text code boundaryID @ js ''\"''
        @ client_render_arguments_text code ex dg msg stack @ js '')</script>'')"

text \<open>Visible bodies for the helper functions, for examples.\<close>

fun example_code :: "inline_code \<Rightarrow> jsstring" where
  "example_code clientRenderFunctionString = js ''/*clientRender*/''"
| "example_code completeBoundaryFunctionString = js ''/*completeBoundary*/''"
| "example_code completeContainerFunctionString = js ''/*completeContainer*/''"
| "example_code styleInsertionFunctionString = js ''/*styleInsertion*/''"
| "example_code completeSegmentFunctionString = js ''/*completeSegment*/''"

section \<open>The order of the flush\<close>







section \<open>Going on after a step\<close>

lemma on_ok_Inr [simp]: "on_ok (Inr x) f = f x"
  by (simp add: on_ok_def)

lemma on_ok_Inl [simp]: "on_ok (Inl e) f = Inl e"
  by (simp add: on_ok_def)


section \<open>Lemmas on strings\<close>




lemma plain_externals_sel:
  "escapeTextForBrowser plain_externals s = s"
  "JSON_stringify plain_externals s = js ''\"'' @ s @ js ''\"''"
  "isAttributeNameSafe plain_externals n = True"
  "sanitizeURL plain_externals u = None"
  "toLowerCase plain_externals s = s"
  "string_of plain_externals (JString s) = Inr s"
  "pushAttribute plain_externals n (JString s) = Inr [js '' '', n, js ''=\"'', s, js ''\"'']"
  by (simp_all add: plain_externals_def)

lemma createResponseState_document:
  "createResponseState production_flags ex None None None None None None None None None None
     (Some True) = Inr document_response"
  by (simp add: createResponseState_def production_flags_def document_response_def
      bootstrap_chunks_def startInlineScriptChunk_def stringToPrecomputedChunk_def NONE_def)

lemma createResponseState_stream:
  "createResponseState production_flags ex None None None None None None None None None None None
     = Inr stream_response"
  by (simp add: createResponseState_def production_flags_def document_response_def
      stream_response_def bootstrap_chunks_def startInlineScriptChunk_def
      stringToPrecomputedChunk_def NONE_def)

section \<open>Text instances\<close>

lemma pushTextInstances_separated:
  "fst (pushTextInstances ex target texts rs e) =
     target @ (if e \<and> filter (\<lambda>t. t \<noteq> []) texts \<noteq> [] then [textSeparator] else [])
            @ separated_texts ex (filter (\<lambda>t. t \<noteq> []) texts)"
proof (induction texts arbitrary: target e)
  case Nil
  then show ?case by simp
next
  case (Cons t ts)
  show ?case
  proof (cases "t = []")
    case True
    then show ?thesis using Cons.IH [of target e] by (simp add: pushTextInstance_def)
  next
    case False
    show ?thesis
    proof (cases "filter (\<lambda>t. t \<noteq> []) ts")
      case Nil
      then show ?thesis using False Cons.IH
        by (simp add: pushTextInstance_def Let_def stringToChunk_def encodeHTMLTextNode_def)
    next
      case (Cons u us)
      then show ?thesis using False Cons.IH
        by (simp add: pushTextInstance_def Let_def stringToChunk_def encodeHTMLTextNode_def)
    qed
  qed
qed

text \<open>
  C9. \<open>pushTextInstance\<close> with the empty string leaves the target alone and returns
  \<open>textEmbedded\<close>; with a non-empty string it appends the escaped text, after the
  separator \<open><!-- -->\<close> exactly when \<open>textEmbedded\<close> is true, and returns true. So a run
  of text pushes that starts with \<open>textEmbedded = false\<close> writes the non-empty texts with
  one separator between neighbours and none in front.
\<close>

theorem pushTextInstance_separator:
  "pushTextInstance ex target [] rs e = (target, e)
   \<and> (text \<noteq> [] \<longrightarrow>
        pushTextInstance ex target text rs e =
          (target @ (if e then [Chunk (js ''<!-- -->'')] else [])
             @ [Chunk (escapeTextForBrowser ex text)], True))
   \<and> fst (pushTextInstances ex [] texts rs False) =
        separated_texts ex (filter (\<lambda>t. t \<noteq> []) texts)"
proof (intro conjI impI)
  show "pushTextInstance ex target [] rs e = (target, e)"
    by (simp add: pushTextInstance_def)
next
  assume "text \<noteq> []"
  then show "pushTextInstance ex target text rs e =
          (target @ (if e then [Chunk (js ''<!-- -->'')] else [])
             @ [Chunk (escapeTextForBrowser ex text)], True)"
    by (simp add: pushTextInstance_def Let_def textSeparator_def stringToChunk_def
        stringToPrecomputedChunk_def encodeHTMLTextNode_def)
next
  show "fst (pushTextInstances ex [] texts rs False) =
        separated_texts ex (filter (\<lambda>t. t \<noteq> []) texts)"
    by (simp add: pushTextInstances_separated)
qed

theorem pushTextInstance_separator_witness:
  "js ''b'' \<noteq> []
   \<and> pushTextInstance plain_externals [Chunk (js ''a'')] (js ''b'') document_response True =
       ([Chunk (js ''a''), Chunk (js ''<!-- -->''), Chunk (js ''b'')], True)
   \<and> fst (pushTextInstances plain_externals [] [js ''a'', [], js ''b''] document_response False) =
       [Chunk (js ''a''), Chunk (js ''<!-- -->''), Chunk (js ''b'')]"
  using pushTextInstance_separator [of plain_externals "[Chunk (js ''a'')]" document_response
      True "js ''b''" "[js ''a'', [], js ''b'']"]
  by (simp add: js_def textSeparator_def stringToPrecomputedChunk_def plain_externals_sel)


section \<open>End tags\<close>







section \<open>The bootstrap script content\<close>

lemma canonicalize_lt [simp]: "canonicalize c = 0x3C \<longleftrightarrow> c = 0x3C"
  unfolding canonicalize_def by (auto; unat_arith)

lemma canonicalize_slash [simp]: "canonicalize c = 0x2F \<longleftrightarrow> c = 0x2F"
  unfolding canonicalize_def by (auto; unat_arith)

lemma js_script: "js ''<script'' = [0x3C, 0x73, 0x63, 0x72, 0x69, 0x70, 0x74]"
  by (simp add: js_def unit_of_char_def)

lemma js_end_script: "js ''</script'' = [0x3C, 0x2F, 0x73, 0x63, 0x72, 0x69, 0x70, 0x74]"
  by (simp add: js_def unit_of_char_def)

lemma js_u0073: "js (CHR 0x5C # ''u0073'') = [0x5C, 0x75, 0x30, 0x30, 0x37, 0x33]"
  by (simp add: js_def unit_of_char_def)

lemma js_u0053: "js (CHR 0x5C # ''u0053'') = [0x5C, 0x75, 0x30, 0x30, 0x35, 0x33]"
  by (simp add: js_def unit_of_char_def)

lemma canonicalize_consts [simp]:
  "canonicalize 0x3C = 0x3C" "canonicalize 0x2F = 0x2F" "canonicalize 0x5C = 0x5C"
  "canonicalize 0x73 = 0x53" "canonicalize 0x63 = 0x43" "canonicalize 0x72 = 0x52"
  "canonicalize 0x69 = 0x49" "canonicalize 0x70 = 0x50" "canonicalize 0x74 = 0x54"
  "canonicalize 0x75 = 0x55" "canonicalize 0x30 = 0x30" "canonicalize 0x37 = 0x37"
  "canonicalize 0x33 = 0x33" "canonicalize 0x35 = 0x35"
  by (simp_all add: canonicalize_def)

lemma escapeBootstrapScriptContent_Nil [simp]: "escapeBootstrapScriptContent [] = []"
  by (simp add: escapeBootstrapScriptContent.simps)

lemma scriptRegex_match_other: "c \<noteq> 0x3C \<Longrightarrow> scriptRegex_match (c # cs) = None"
  by (simp add: scriptRegex_match_def js_script js_end_script)

lemma escapeBootstrapScriptContent_copy: "scriptRegex_match (c # cs) = None \<Longrightarrow>
   escapeBootstrapScriptContent (c # cs) = c # escapeBootstrapScriptContent cs"
  by (subst escapeBootstrapScriptContent.simps) simp

lemma escapeBootstrapScriptContent_lt: "\<exists>r. escapeBootstrapScriptContent (0x3C # cs) = 0x3C # r"
proof (cases "scriptRegex_match (0x3C # cs)")
  case None
  then show ?thesis by (simp add: escapeBootstrapScriptContent_copy)
next
  case (Some m)
  then show ?thesis
    by (subst escapeBootstrapScriptContent.simps)
       (auto simp: scriptRegex_match_def scriptReplacer_def split: if_splits)
qed

lemma match_i_escaped:
  "\<forall>q\<in>set p. canonicalize q \<noteq> 0x3C \<Longrightarrow> match_i p (escapeBootstrapScriptContent cs)
     \<Longrightarrow> match_i p cs"
proof (induction p arbitrary: cs)
  case Nil
  then show ?case by simp
next
  case (Cons q qs)
  show ?case
  proof (cases cs)
    case Nil
    then show ?thesis using Cons.prems by simp
  next
    case (Cons c cs')
    show ?thesis
    proof (cases "c = 0x3C")
      case True
      obtain r where "escapeBootstrapScriptContent (0x3C # cs') = 0x3C # r"
        using escapeBootstrapScriptContent_lt by blast
      then show ?thesis using Cons.prems True \<open>cs = c # cs'\<close> by simp
    next
      case False
      then have "escapeBootstrapScriptContent (c # cs') = c # escapeBootstrapScriptContent cs'"
        by (simp add: escapeBootstrapScriptContent_copy scriptRegex_match_other)
      then show ?thesis using Cons.prems Cons.IH [of cs'] \<open>cs = c # cs'\<close> by simp
    qed
  qed
qed

lemma occurs_skip:
  "\<forall>x\<in>set a. canonicalize x \<noteq> canonicalize p0 \<Longrightarrow>
     occurs_i (p0 # ps) (a @ b) = occurs_i (p0 # ps) b"
  by (induction a) auto

lemma match_units:
  "match_i p s \<Longrightarrow> map canonicalize (take (length p) s) = map canonicalize p"
  by (induction p s rule: match_i.induct) auto

lemma match_i_ConsE:
  assumes "match_i (p # ps) s"
  obtains c cs where "s = c # cs" "canonicalize c = canonicalize p" "match_i ps cs"
  using assms by (cases s) auto

lemma match_script_shape:
  assumes "match_i (js ''<script'') s"
  obtains a b c d e f rest where "s = 0x3C # a # b # c # d # e # f # rest"
    "canonicalize a = 0x53" "canonicalize b = 0x43" "canonicalize c = 0x52"
    "canonicalize d = 0x49" "canonicalize e = 0x50" "canonicalize f = 0x54"
proof -
  from assms have m0: "match_i [0x3C, 0x73, 0x63, 0x72, 0x69, 0x70, 0x74] s"
    by (simp add: js_script)
  from m0 obtain c0 s0 where s0: "s = c0 # s0" "canonicalize c0 = canonicalize 0x3C"
    "match_i [0x73, 0x63, 0x72, 0x69, 0x70, 0x74] s0" by (rule match_i_ConsE)
  from s0(3) obtain a s1 where s1: "s0 = a # s1" "canonicalize a = canonicalize 0x73"
    "match_i [0x63, 0x72, 0x69, 0x70, 0x74] s1" by (rule match_i_ConsE)
  from s1(3) obtain b s2 where s2: "s1 = b # s2" "canonicalize b = canonicalize 0x63"
    "match_i [0x72, 0x69, 0x70, 0x74] s2" by (rule match_i_ConsE)
  from s2(3) obtain c s3 where s3: "s2 = c # s3" "canonicalize c = canonicalize 0x72"
    "match_i [0x69, 0x70, 0x74] s3" by (rule match_i_ConsE)
  from s3(3) obtain d s4 where s4: "s3 = d # s4" "canonicalize d = canonicalize 0x69"
    "match_i [0x70, 0x74] s4" by (rule match_i_ConsE)
  from s4(3) obtain e s5 where s5: "s4 = e # s5" "canonicalize e = canonicalize 0x70"
    "match_i [0x74] s5" by (rule match_i_ConsE)
  from s5(3) obtain f s6 where s6: "s5 = f # s6" "canonicalize f = canonicalize 0x74"
    by (rule match_i_ConsE)
  have "s = 0x3C # a # b # c # d # e # f # s6"
    using s0(1,2) s1(1) s2(1) s3(1) s4(1) s5(1) s6(1) by simp
  then show ?thesis
    using that s1(2) s2(2) s3(2) s4(2) s5(2) s6(2) by simp
qed

lemma match_end_script_shape:
  assumes "match_i (js ''</script'') s"
  obtains a b c d e f rest where "s = 0x3C # 0x2F # a # b # c # d # e # f # rest"
    "canonicalize a = 0x53" "canonicalize b = 0x43" "canonicalize c = 0x52"
    "canonicalize d = 0x49" "canonicalize e = 0x50" "canonicalize f = 0x54"
proof -
  from assms have m0: "match_i [0x3C, 0x2F, 0x73, 0x63, 0x72, 0x69, 0x70, 0x74] s"
    by (simp add: js_end_script)
  from m0 obtain c0 s0 where s0: "s = c0 # s0" "canonicalize c0 = canonicalize 0x3C"
    "match_i [0x2F, 0x73, 0x63, 0x72, 0x69, 0x70, 0x74] s0" by (rule match_i_ConsE)
  from s0(3) obtain c1 t where t: "s0 = c1 # t" "canonicalize c1 = canonicalize 0x2F"
    "match_i [0x73, 0x63, 0x72, 0x69, 0x70, 0x74] t" by (rule match_i_ConsE)
  have "match_i (js ''<script'') (0x3C # t)" using t(3) by (simp add: js_script)
  then obtain a b c d e f rest where r: "0x3C # t = 0x3C # a # b # c # d # e # f # rest"
    "canonicalize a = 0x53" "canonicalize b = 0x43" "canonicalize c = 0x52"
    "canonicalize d = 0x49" "canonicalize e = 0x50" "canonicalize f = 0x54"
    by (rule match_script_shape)
  have "s = 0x3C # 0x2F # a # b # c # d # e # f # rest"
    using s0(1,2) t(1,2) r(1) by simp
  then show ?thesis using that r by simp
qed

lemma escaped_script:
  assumes "canonicalize a = 0x53" "canonicalize b = 0x43" "canonicalize c = 0x52"
    "canonicalize d = 0x49" "canonicalize e = 0x50" "canonicalize f = 0x54"
  shows "\<exists>x. escapeBootstrapScriptContent (0x3C # a # b # c # d # e # f # rest) =
     0x3C # (0x5C # [0x75, 0x30, 0x30, x, 0x33, b, c, d, e, f])
       @ escapeBootstrapScriptContent rest \<and> canonicalize x \<noteq> 0x3C"
proof -
  have m: "match_i (js ''<script'') (0x3C # a # b # c # d # e # f # rest)"
    using assms by (simp add: js_script)
  have n: "\<not> match_i (js ''</script'') (0x3C # a # b # c # d # e # f # rest)"
    using assms by (simp add: js_end_script)
  show ?thesis
    by (subst escapeBootstrapScriptContent.simps)
       (simp add: scriptRegex_match_def m n scriptReplacer_def js_u0073 js_u0053)
qed

lemma escaped_end_script:
  assumes "canonicalize a = 0x53" "canonicalize b = 0x43" "canonicalize c = 0x52"
    "canonicalize d = 0x49" "canonicalize e = 0x50" "canonicalize f = 0x54"
  shows "\<exists>x. escapeBootstrapScriptContent (0x3C # 0x2F # a # b # c # d # e # f # rest) =
     0x3C # 0x2F # (0x5C # [0x75, 0x30, 0x30, x, 0x33, b, c, d, e, f])
       @ escapeBootstrapScriptContent rest \<and> canonicalize x \<noteq> 0x3C"
proof -
  have m: "match_i (js ''</script'') (0x3C # 0x2F # a # b # c # d # e # f # rest)"
    using assms by (simp add: js_end_script)
  show ?thesis
    by (subst escapeBootstrapScriptContent.simps)
       (simp add: scriptRegex_match_def m scriptReplacer_def js_u0073 js_u0053)
qed

lemma replaced_safe:
  assumes A: "\<forall>y\<in>set A. canonicalize y \<noteq> 0x3C"
    and t: "\<not> occurs_i (0x3C # p) t"
    and p: "p = 0x73 # q \<or> p = 0x2F # 0x73 # q"
  shows "\<not> occurs_i (0x3C # p) (0x3C # (0x5C # A) @ t)"
    and "\<not> occurs_i (0x3C # p) (0x3C # 0x2F # (0x5C # A) @ t)"
proof -
  have skip: "occurs_i (0x3C # p) ((0x5C # A) @ t) = occurs_i (0x3C # p) t"
    by (rule occurs_skip) (use A in simp)
  have m1: "\<not> match_i (0x3C # p) (0x3C # (0x5C # A) @ t)"
    using p by auto
  show "\<not> occurs_i (0x3C # p) (0x3C # (0x5C # A) @ t)"
    using m1 skip t by (simp only: occurs_i.simps) simp
  have m2: "\<not> match_i (0x3C # p) (0x3C # 0x2F # (0x5C # A) @ t)"
    using p by auto
  have m3: "\<not> match_i (0x3C # p) (0x2F # (0x5C # A) @ t)"
    by simp
  show "\<not> occurs_i (0x3C # p) (0x3C # 0x2F # (0x5C # A) @ t)"
    using m2 m3 skip t by (simp only: occurs_i.simps) simp
qed

lemma escapeBootstrapScriptContent_safe:
  "\<not> occurs_i (js ''<script'') (escapeBootstrapScriptContent s)
   \<and> \<not> occurs_i (js ''</script'') (escapeBootstrapScriptContent s)"
proof (induction "length s" arbitrary: s rule: less_induct)
  case less
  show ?case
  proof (cases s)
    case Nil
    then show ?thesis by (simp add: js_script js_end_script)
  next
    case (Cons c0 cs)
    show ?thesis
    proof (cases "match_i (js ''</script'') s")
      case True
      then obtain a b c d e f rest where
        s: "s = 0x3C # 0x2F # a # b # c # d # e # f # rest"
        and k: "canonicalize a = 0x53" "canonicalize b = 0x43" "canonicalize c = 0x52"
               "canonicalize d = 0x49" "canonicalize e = 0x50" "canonicalize f = 0x54"
        by (rule match_end_script_shape)
      have ih: "\<not> occurs_i (js ''<script'') (escapeBootstrapScriptContent rest)"
               "\<not> occurs_i (js ''</script'') (escapeBootstrapScriptContent rest)"
        using less [of rest] s by simp_all
      obtain x where
        e: "escapeBootstrapScriptContent s =
              0x3C # 0x2F # (0x5C # [0x75, 0x30, 0x30, x, 0x33, b, c, d, e, f])
                @ escapeBootstrapScriptContent rest"
        and x: "canonicalize x \<noteq> 0x3C"
        using escaped_end_script [OF k, of rest] s by blast
      have A: "\<forall>y\<in>set [0x75, 0x30, 0x30, x, 0x33, b, c, d, e, f]. canonicalize y \<noteq> 0x3C"
        using k x by auto
      show ?thesis
        unfolding e js_script js_end_script
        using replaced_safe(2) [OF A ih(1) [unfolded js_script]]
          replaced_safe(2) [OF A ih(2) [unfolded js_end_script]]
        by blast
    next
      case False
      note no_end = False
      show ?thesis
      proof (cases "match_i (js ''<script'') s")
        case True
        then obtain a b c d e f rest where
          s: "s = 0x3C # a # b # c # d # e # f # rest"
          and k: "canonicalize a = 0x53" "canonicalize b = 0x43" "canonicalize c = 0x52"
                 "canonicalize d = 0x49" "canonicalize e = 0x50" "canonicalize f = 0x54"
          by (rule match_script_shape)
        have ih: "\<not> occurs_i (js ''<script'') (escapeBootstrapScriptContent rest)"
                 "\<not> occurs_i (js ''</script'') (escapeBootstrapScriptContent rest)"
          using less [of rest] s by simp_all
        obtain x where
          e: "escapeBootstrapScriptContent s =
                0x3C # (0x5C # [0x75, 0x30, 0x30, x, 0x33, b, c, d, e, f])
                  @ escapeBootstrapScriptContent rest"
          and x: "canonicalize x \<noteq> 0x3C"
          using escaped_script [OF k, of rest] s by blast
        have A: "\<forall>y\<in>set [0x75, 0x30, 0x30, x, 0x33, b, c, d, e, f]. canonicalize y \<noteq> 0x3C"
          using k x by auto
        show ?thesis
          unfolding e js_script js_end_script
          using replaced_safe(1) [OF A ih(1) [unfolded js_script]]
            replaced_safe(1) [OF A ih(2) [unfolded js_end_script]]
          by blast
      next
        case False
        then have r: "scriptRegex_match s = None"
          using no_end by (simp add: scriptRegex_match_def)
        have ih: "\<not> occurs_i (js ''<script'') (escapeBootstrapScriptContent cs)
                  \<and> \<not> occurs_i (js ''</script'') (escapeBootstrapScriptContent cs)"
          using less [of cs] Cons by simp
        have e: "escapeBootstrapScriptContent s = c0 # escapeBootstrapScriptContent cs"
          using r Cons by (simp add: escapeBootstrapScriptContent_copy)
        have a: "\<not> match_i (js ''<script'') (c0 # escapeBootstrapScriptContent cs)"
        proof
          assume "match_i (js ''<script'') (c0 # escapeBootstrapScriptContent cs)"
          then have "c0 = 0x3C"
            and "match_i [0x73, 0x63, 0x72, 0x69, 0x70, 0x74] (escapeBootstrapScriptContent cs)"
            by (simp_all add: js_script)
          then have "match_i [0x73, 0x63, 0x72, 0x69, 0x70, 0x74] cs"
            using match_i_escaped [of "[0x73, 0x63, 0x72, 0x69, 0x70, 0x74]" cs] by simp
          then show False using False Cons \<open>c0 = 0x3C\<close> by (simp add: js_script)
        qed
        have b: "\<not> match_i (js ''</script'') (c0 # escapeBootstrapScriptContent cs)"
        proof
          assume "match_i (js ''</script'') (c0 # escapeBootstrapScriptContent cs)"
          then have "c0 = 0x3C"
            and "match_i [0x2F, 0x73, 0x63, 0x72, 0x69, 0x70, 0x74] (escapeBootstrapScriptContent cs)"
            by (simp_all add: js_end_script)
          then have "match_i [0x2F, 0x73, 0x63, 0x72, 0x69, 0x70, 0x74] cs"
            using match_i_escaped [of "[0x2F, 0x73, 0x63, 0x72, 0x69, 0x70, 0x74]" cs] by simp
          then show False using no_end Cons \<open>c0 = 0x3C\<close> by (simp add: js_end_script)
        qed
        show ?thesis using e a b ih by simp
      qed
    qed
  qed
qed

lemma escapeBootstrapScriptContent_id:
  "\<not> occurs_i (js ''<script'') s \<Longrightarrow> \<not> occurs_i (js ''</script'') s
     \<Longrightarrow> escapeBootstrapScriptContent s = s"
proof (induction s)
  case Nil
  then show ?case by simp
next
  case (Cons c cs)
  then have "scriptRegex_match (c # cs) = None" by (simp add: scriptRegex_match_def)
  then show ?case using Cons by (simp add: escapeBootstrapScriptContent_copy)
qed


lemma scan_script_s_positions:
  "scan_script_s p s =
     concat (map (\<lambda>i. if script_s_at (p @ s) (length p + i)
                       then s_escape ((p @ s) ! (length p + i)) else [(p @ s) ! (length p + i)])
               [0..<length s])"
proof (induction s arbitrary: p)
  case Nil
  then show ?case by simp
next
  case (Cons c cs)
  have "scan_script_s (p @ [c]) cs =
     concat (map (\<lambda>i. if script_s_at (p @ c # cs) (length p + Suc i)
                       then s_escape ((p @ c # cs) ! (length p + Suc i))
                       else [(p @ c # cs) ! (length p + Suc i)])
               [0..<length cs])"
    using Cons.IH [of "p @ [c]"] by (simp cong: if_cong)
  moreover have "(p @ c # cs) ! Suc (length p + i) = cs ! i" for i
    by (metis add_Suc_right nth_Cons_Suc nth_append_length_plus)
  ultimately show ?case
    by (simp add: map_upt_Suc script_s_at_def del: upt_Suc cong: if_cong)
qed

lemma js_lt: "js ''<'' = [0x3C]" "js ''</'' = [0x3C, 0x2F]"
  "js ''script'' = [0x73, 0x63, 0x72, 0x69, 0x70, 0x74]"
  by (simp_all add: js_def unit_of_char_def)

lemma suffix_units:
  "suffix [a] q \<longleftrightarrow> take 1 (rev q) = [a]"
  "suffix [a, b] q \<longleftrightarrow> take 2 (rev q) = [b, a]"
proof -
  show "suffix [a] q \<longleftrightarrow> take 1 (rev q) = [a]"
    by (cases q rule: rev_cases) (auto simp: suffix_def)
  show "suffix [a, b] q \<longleftrightarrow> take 2 (rev q) = [b, a]"
  proof (cases q rule: rev_cases)
    case Nil
    then show ?thesis by (simp add: suffix_def)
  next
    case (snoc q1 y)
    then show ?thesis
      by (cases q1 rule: rev_cases) (auto simp: suffix_def)
  qed
qed

lemma escaped_script_exact:
  assumes "canonicalize a = 0x53" "canonicalize b = 0x43" "canonicalize c = 0x52"
    "canonicalize d = 0x49" "canonicalize e = 0x50" "canonicalize f = 0x54"
  shows "escapeBootstrapScriptContent (0x3C # a # b # c # d # e # f # rest) =
     0x3C # s_escape a @ [b, c, d, e, f] @ escapeBootstrapScriptContent rest"
proof -
  have m: "match_i (js ''<script'') (0x3C # a # b # c # d # e # f # rest)"
    using assms by (simp add: js_script)
  have n: "\<not> match_i (js ''</script'') (0x3C # a # b # c # d # e # f # rest)"
    using assms by (simp add: js_end_script)
  show ?thesis
    by (subst escapeBootstrapScriptContent.simps)
       (simp add: scriptRegex_match_def m n scriptReplacer_def s_escape_def)
qed

lemma escaped_end_script_exact:
  assumes "canonicalize a = 0x53" "canonicalize b = 0x43" "canonicalize c = 0x52"
    "canonicalize d = 0x49" "canonicalize e = 0x50" "canonicalize f = 0x54"
  shows "escapeBootstrapScriptContent (0x3C # 0x2F # a # b # c # d # e # f # rest) =
     0x3C # 0x2F # s_escape a @ [b, c, d, e, f] @ escapeBootstrapScriptContent rest"
proof -
  have m: "match_i (js ''</script'') (0x3C # 0x2F # a # b # c # d # e # f # rest)"
    using assms by (simp add: js_end_script)
  show ?thesis
    by (subst escapeBootstrapScriptContent.simps)
       (simp add: scriptRegex_match_def m scriptReplacer_def s_escape_def)
qed

lemma js_slash_script: "js ''/script'' = [0x2F, 0x73, 0x63, 0x72, 0x69, 0x70, 0x74]"
  by (simp add: js_def unit_of_char_def)

lemma canon_neq [simp]:
  "canonicalize x = 0x43 \<Longrightarrow> canonicalize x \<noteq> 0x53"
  "canonicalize x = 0x52 \<Longrightarrow> canonicalize x \<noteq> 0x53"
  "canonicalize x = 0x49 \<Longrightarrow> canonicalize x \<noteq> 0x53"
  "canonicalize x = 0x50 \<Longrightarrow> canonicalize x \<noteq> 0x53"
  "canonicalize x = 0x54 \<Longrightarrow> canonicalize x \<noteq> 0x53"
  by simp_all

lemma escapeBootstrapScriptContent_scan:
  "scan_ready p s \<Longrightarrow> escapeBootstrapScriptContent s = scan_script_s p s"
proof (induction "length s" arbitrary: s p rule: less_induct)
  case less
  show ?case
  proof (cases s)
    case Nil
    then show ?thesis by simp
  next
    case (Cons c0 cs)
    show ?thesis
    proof (cases "match_i (js ''</script'') s")
      case True
      then obtain a b c d e f rest where
        s: "s = 0x3C # 0x2F # a # b # c # d # e # f # rest"
        and k: "canonicalize a = 0x53" "canonicalize b = 0x43" "canonicalize c = 0x52"
               "canonicalize d = 0x49" "canonicalize e = 0x50" "canonicalize f = 0x54"
        by (rule match_end_script_shape)
      have f: "f \<noteq> 0x3C" "f \<noteq> 0x2F" using k(6) by auto
      have r: "scan_ready (p @ [0x3C, 0x2F, a, b, c, d, e, f]) rest"
        using f by (simp add: scan_ready_def js_lt suffix_units)
      have ih: "escapeBootstrapScriptContent rest =
                  scan_script_s (p @ [0x3C, 0x2F, a, b, c, d, e, f]) rest"
        using less.hyps [of rest, OF _ r] s by simp
      show ?thesis
        unfolding s escaped_end_script_exact [OF k] ih
        using k by (simp add: js_lt suffix_units)
    next
      case False
      note no_end = False
      show ?thesis
      proof (cases "match_i (js ''<script'') s")
        case True
        then obtain a b c d e f rest where
          s: "s = 0x3C # a # b # c # d # e # f # rest"
          and k: "canonicalize a = 0x53" "canonicalize b = 0x43" "canonicalize c = 0x52"
                 "canonicalize d = 0x49" "canonicalize e = 0x50" "canonicalize f = 0x54"
          by (rule match_script_shape)
        have f: "f \<noteq> 0x3C" "f \<noteq> 0x2F" using k(6) by auto
        have r: "scan_ready (p @ [0x3C, a, b, c, d, e, f]) rest"
          using f by (simp add: scan_ready_def js_lt suffix_units)
        have ih: "escapeBootstrapScriptContent rest =
                    scan_script_s (p @ [0x3C, a, b, c, d, e, f]) rest"
          using less.hyps [of rest, OF _ r] s by simp
        show ?thesis
          unfolding s escaped_script_exact [OF k] ih
          using k by (simp add: js_lt suffix_units)
      next
        case False
        then have m: "scriptRegex_match s = None"
          using no_end by (simp add: scriptRegex_match_def)
        have e: "escapeBootstrapScriptContent s = c0 # escapeBootstrapScriptContent cs"
          using m Cons by (simp add: escapeBootstrapScriptContent_copy)
        have r: "scan_ready (p @ [c0]) cs"
          using less.prems False no_end unfolding Cons scan_ready_def
          by (auto simp: js_lt suffix_units js_script js_end_script js_slash_script)
        have ih: "escapeBootstrapScriptContent cs = scan_script_s (p @ [c0]) cs"
          using less.hyps [of cs, OF _ r] Cons by simp
        have n: "\<not> (match_i (js ''script'') (c0 # cs)
                   \<and> (suffix (js ''<'') p \<or> suffix (js ''</'') p))"
          using less.prems unfolding Cons scan_ready_def by blast
        have "scan_script_s p (c0 # cs) = c0 # scan_script_s (p @ [c0]) cs"
          using n by auto
        then show ?thesis using e ih Cons by simp
      qed
    qed
  qed
qed

lemma escapeBootstrapScriptContent_replace:
  "escapeBootstrapScriptContent s = replace_script_s s"
proof -
  have "scan_ready [] s" by (simp add: scan_ready_def js_lt suffix_units)
  then have "escapeBootstrapScriptContent s = scan_script_s [] s"
    by (rule escapeBootstrapScriptContent_scan)
  then show ?thesis
    using scan_script_s_positions [of "[]" s] by (simp add: replace_script_s_def cong: if_cong)
qed

lemma createResponseState_bootstrapChunks:
  "createResponseState fl esc ip nonce (Some content) bs bm fc fs fm ext cid de = Inr rs
     \<Longrightarrow> bootstrapChunks rs ! 1 = Chunk (escapeBootstrapScriptContent content)"
  by (auto simp: createResponseState_def Let_def bootstrap_chunks_def stringToChunk_def
      split: if_splits)

text \<open>
  C10. \<open>escapeBootstrapScriptContent\<close> returns the string with the \<open>s\<close> of every occurrence of
  \<open><script\<close> or \<open></script\<close>, in any letter case, replaced by its escape (\<open>u0073\<close> after a
  backslash for \<open>s\<close>, \<open>u0053\<close> for \<open>S\<close>) and every other unit kept. The result has no
  occurrence of \<open><script\<close> or \<open></script\<close> in any letter case; a string without such an
  occurrence is returned as it is; and the inline bootstrap script of \<open>createResponseState\<close>
  carries the escaped content.
\<close>

theorem escapeBootstrapScriptContent_no_script:
  "escapeBootstrapScriptContent s = replace_script_s s
   \<and> \<not> occurs_i (js ''<script'') (escapeBootstrapScriptContent s)
   \<and> \<not> occurs_i (js ''</script'') (escapeBootstrapScriptContent s)
   \<and> (\<not> occurs_i (js ''<script'') s \<and> \<not> occurs_i (js ''</script'') s
        \<longrightarrow> escapeBootstrapScriptContent s = s)
   \<and> (createResponseState fl esc ip nonce (Some s) bs bm fc fs fm ext cid de = Inr rs
        \<longrightarrow> bootstrapChunks rs ! 1 = Chunk (escapeBootstrapScriptContent s))"
  using escapeBootstrapScriptContent_safe [of s] escapeBootstrapScriptContent_id [of s]
    createResponseState_bootstrapChunks [of fl esc ip nonce s bs bm fc fs fm ext cid de rs]
    escapeBootstrapScriptContent_replace [of s]
  by blast

theorem escapeBootstrapScriptContent_no_script_witness:
  "\<not> occurs_i (js ''<script'') (js ''a'') \<and> \<not> occurs_i (js ''</script'') (js ''a'')
   \<and> escapeBootstrapScriptContent (js ''a'') = js ''a''
   \<and> createResponseState production_flags plain_externals None None (Some (js ''a'')) None None
        None None None
        None None (Some True)
      = Inr (document_response\<lparr>bootstrapChunks :=
               [Chunk (js ''<script>''), Chunk (js ''a''), Chunk (js ''</script>'')]\<rparr>)
   \<and> bootstrapChunks (document_response\<lparr>bootstrapChunks :=
               [Chunk (js ''<script>''), Chunk (js ''a''), Chunk (js ''</script>'')]\<rparr>) ! 1
      = Chunk (escapeBootstrapScriptContent (js ''a''))
   \<and> \<not> occurs_i (js ''</script'') (escapeBootstrapScriptContent (js ''</SCRIPT>''))
   \<and> escapeBootstrapScriptContent (js ''a</SCRIPT>b<script'') =
       js (''a</'' @ CHR 0x5C # ''u0053CRIPT>b<'' @ CHR 0x5C # ''u0073cript'')"
proof -
  have e: "replace_script_s (js ''a</SCRIPT>b<script'') =
       js (''a</'' @ CHR 0x5C # ''u0053CRIPT>b<'' @ CHR 0x5C # ''u0073cript'')"
    by code_simp
  have new: "escapeBootstrapScriptContent (js ''a</SCRIPT>b<script'') =
       js (''a</'' @ CHR 0x5C # ''u0053CRIPT>b<'' @ CHR 0x5C # ''u0073cript'')"
    using escapeBootstrapScriptContent_no_script [of "js ''a</SCRIPT>b<script''"] e by simp
  have old: "\<not> occurs_i (js ''<script'') (js ''a'') \<and> \<not> occurs_i (js ''</script'') (js ''a'')
   \<and> escapeBootstrapScriptContent (js ''a'') = js ''a''
   \<and> createResponseState production_flags plain_externals None None (Some (js ''a'')) None None
        None None None
        None None (Some True)
      = Inr (document_response\<lparr>bootstrapChunks :=
               [Chunk (js ''<script>''), Chunk (js ''a''), Chunk (js ''</script>'')]\<rparr>)
   \<and> bootstrapChunks (document_response\<lparr>bootstrapChunks :=
               [Chunk (js ''<script>''), Chunk (js ''a''), Chunk (js ''</script>'')]\<rparr>) ! 1
      = Chunk (escapeBootstrapScriptContent (js ''a''))
   \<and> \<not> occurs_i (js ''</script'') (escapeBootstrapScriptContent (js ''</SCRIPT>''))"
    using escapeBootstrapScriptContent_no_script [of "js ''a''" production_flags plain_externals
      None None None
      None None None None None None "Some True"
      "document_response\<lparr>bootstrapChunks :=
               [Chunk (js ''<script>''), Chunk (js ''a''), Chunk (js ''</script>'')]\<rparr>",
      THEN conjunct2]
      escapeBootstrapScriptContent_no_script [of "js ''</SCRIPT>''", THEN conjunct2]
    by (simp add: js_def unit_of_char_def createResponseState_def Let_def escapeBootstrapScriptContent_copy scriptRegex_match_other
      production_flags_def document_response_def bootstrap_chunks_def startInlineScriptChunk_def
      endInlineScript_def stringToPrecomputedChunk_def stringToChunk_def NONE_def)
  from old new show ?thesis by blast
qed


section \<open>Instruction script escaping\<close>

lemma replace_class_total:
  assumes "\<And>c. cls c \<Longrightarrow> f c = Inr (g c)"
  shows "replace_class cls f s = Inr (concat (map (\<lambda>c. if cls c then g c else [c]) s))"
  using assms by (induction s) auto

lemma string_escape_unit_safe:
  "0x3C \<notin> set (string_escape_unit c) \<and> 0x2028 \<notin> set (string_escape_unit c)
   \<and> 0x2029 \<notin> set (string_escape_unit c)"
  by (simp add: string_escape_unit_def js_def unit_of_char_def)

lemma object_escape_unit_safe:
  "0x3C \<notin> set (object_escape_unit c) \<and> 0x2028 \<notin> set (object_escape_unit c)
   \<and> 0x2029 \<notin> set (object_escape_unit c) \<and> 0x26 \<notin> set (object_escape_unit c)
   \<and> 0x3E \<notin> set (object_escape_unit c)"
  by (simp add: object_escape_unit_def string_escape_unit_def js_def unit_of_char_def)

lemma escapeJSStrings_eq:
  "escapeJSStringsForInstructionScripts ex input =
     Inr (concat (map string_escape_unit (JSON_stringify ex input)))"
proof -
  have "replace_class regexForJSStringsInInstructionScripts instruction_script_replacer
          (JSON_stringify ex input)
        = Inr (concat (map (\<lambda>c. if regexForJSStringsInInstructionScripts c
                                  then string_escape_unit c else [c]) (JSON_stringify ex input)))"
    by (rule replace_class_total)
       (auto simp: regexForJSStringsInInstructionScripts_def instruction_script_replacer_def
          string_escape_unit_def)
  moreover have "(\<lambda>c. if regexForJSStringsInInstructionScripts c then string_escape_unit c else [c])
                 = string_escape_unit"
    by (auto simp: fun_eq_iff regexForJSStringsInInstructionScripts_def string_escape_unit_def)
  ultimately show ?thesis by (simp add: escapeJSStringsForInstructionScripts_def)
qed

lemma escapeJSObject_eq:
  "escapeJSObjectForInstructionScripts ex input =
     Inr (concat (map object_escape_unit (JSON_stringify ex input)))"
proof -
  have "replace_class regexForJSStringsInScripts object_script_replacer (JSON_stringify ex input)
        = Inr (concat (map (\<lambda>c. if regexForJSStringsInScripts c
                                  then object_escape_unit c else [c]) (JSON_stringify ex input)))"
    by (rule replace_class_total)
       (auto simp: regexForJSStringsInScripts_def object_script_replacer_def
          object_escape_unit_def string_escape_unit_def)
  moreover have "(\<lambda>c. if regexForJSStringsInScripts c then object_escape_unit c else [c])
                 = object_escape_unit"
    by (auto simp: fun_eq_iff regexForJSStringsInScripts_def object_escape_unit_def
        string_escape_unit_def)
  ultimately show ?thesis by (simp add: escapeJSObjectForInstructionScripts_def)
qed

text \<open>
  C8. The instruction-script escapers return the \<open>JSON.stringify\<close> encoding of the input
  with every \<open><\<close>, U+2028 and U+2029 (and, for the object form, every \<open>&\<close> and \<open>>\<close>)
  replaced by its six-character \<open>\u\<close> escape; the replacer never reaches its throwing
  default, and the result has none of these code units left.
\<close>

theorem escapeJSStrings_no_raw:
  "(\<exists>out. escapeJSStringsForInstructionScripts ex input = Inr out
       \<and> out = concat (map string_escape_unit (JSON_stringify ex input))
       \<and> 0x3C \<notin> set out \<and> 0x2028 \<notin> set out \<and> 0x2029 \<notin> set out)
   \<and> (\<exists>out. escapeJSObjectForInstructionScripts ex input = Inr out
       \<and> out = concat (map object_escape_unit (JSON_stringify ex input))
       \<and> 0x3C \<notin> set out \<and> 0x2028 \<notin> set out \<and> 0x2029 \<notin> set out
       \<and> 0x26 \<notin> set out \<and> 0x3E \<notin> set out)"
  using string_escape_unit_safe object_escape_unit_safe
  by (simp add: escapeJSStrings_eq escapeJSObject_eq)

theorem escapeJSStrings_no_raw_witness:
  "escapeJSStringsForInstructionScripts plain_externals (js ''</script>'' @ [0x2028])
     = Inr (js (''\"'' @ CHR 0x5C # ''u003c/script>'' @ CHR 0x5C # ''u2028\"''))
   \<and> escapeJSObjectForInstructionScripts plain_externals (js ''a&b>c'')
     = Inr (js (''\"a'' @ CHR 0x5C # ''u0026b'' @ CHR 0x5C # ''u003ec\"''))"
  using escapeJSStrings_no_raw [of plain_externals "js ''</script>'' @ [0x2028]"]
    escapeJSStrings_no_raw [of plain_externals "js ''a&b>c''"]
  by (simp add: string_escape_unit_def object_escape_unit_def js_def unit_of_char_def
      plain_externals_sel)



section \<open>Preamble and postamble of an empty document\<close>

lemma writeChunks_append [simp]: "writeChunks d cs = d @ cs"
  by (induction cs arbitrary: d) (simp_all add: writeChunk_def)

lemma write_all_append: "write_all d cs = (d @ cs, True)"
  by (cases cs rule: rev_cases) (simp_all add: write_all_def writeChunkAndReturn_def)

lemma startChunkForTag_html [simp]: "startChunkForTag (js ''html'') = Inr (Chunk (js ''<html''))"
  by (simp add: startChunkForTag_def js_def unit_of_char_def is_letter_def is_tag_unit_def
      stringToPrecomputedChunk_def)

lemma startChunkForTag_head [simp]: "startChunkForTag (js ''head'') = Inr (Chunk (js ''<head''))"
  by (simp add: startChunkForTag_def js_def unit_of_char_def is_letter_def is_tag_unit_def
      stringToPrecomputedChunk_def)

lemma startChunkForTag_body [simp]: "startChunkForTag (js ''body'') = Inr (Chunk (js ''<body''))"
  by (simp add: startChunkForTag_def js_def unit_of_char_def is_letter_def is_tag_unit_def
      stringToPrecomputedChunk_def)

lemma writeInitialResources_empty:
  assumes "\<not> (enableFizzExternalRuntime fl \<and> externalRuntimeConfig rs \<noteq> None \<and> w)"
  shows "writeInitialResources fl ex d createResources rs w = Inr (d, createResources, True)"
proof -
  have "preinit_external_runtime fl createResources rs w = createResources"
    using assms by (auto simp: preinit_external_runtime_def split: option.splits)
  then show ?thesis
    by (simp add: writeInitialResources_def createResources_def write_all_append)
qed

lemmas tag_defs = NONE_def HTML_def HEAD_def BODY_def HTML_HEAD_OR_BODY_def

lemma writePreamble_empty_embedding:
  assumes "enableFloat fl" "requiresEmbedding rs" "rendered rs = NONE" "flushed rs = NONE"
    "htmlChunks rs = []" "headChunks rs = []" "charsetChunks rs = []" "hoistableChunks rs = []"
    "\<not> (enableFizzExternalRuntime fl \<and> externalRuntimeConfig rs \<noteq> None \<and> w)"
  shows "writePreamble fl ex d createResources rs w =
    Inr (d @ [DOCTYPE, Chunk (js ''<html''), endOfStartTag, Chunk (js ''<head''), endOfStartTag,
              endTag1, Chunk (js ''head''), endTag2, Chunk (js ''<body''), endOfStartTag],
         createResources, rs\<lparr>flushed := 7\<rparr>, True)"
proof -
  have o: "write_preamble_open d rs =
     Inr (d @ [DOCTYPE, Chunk (js ''<html''), endOfStartTag, Chunk (js ''<head''), endOfStartTag],
          rs\<lparr>flushed := 3\<rparr>)"
    using assms by (simp add: write_preamble_open_def tag_defs)
  have e: "externalRuntimeConfig (rs\<lparr>flushed := 3, charsetChunks := []\<rparr>) = externalRuntimeConfig rs"
    by simp
  show ?thesis
    using assms
    by (simp add: writePreamble_def o writeInitialResources_empty tag_defs
        writeChunkAndReturn_def writeChunk_def stringToChunk_def)
qed

lemma writePreamble_empty_plain:
  assumes "enableFloat fl" "\<not> requiresEmbedding rs" "rendered rs = NONE" "flushed rs = NONE"
    "htmlChunks rs = []" "headChunks rs = []" "charsetChunks rs = []" "hoistableChunks rs = []"
    "\<not> (enableFizzExternalRuntime fl \<and> externalRuntimeConfig rs \<noteq> None \<and> w)"
  shows "writePreamble fl ex d createResources rs w = Inr (d, createResources, rs, True)"
proof -
  have o: "write_preamble_open d rs = Inr (d, rs)"
    using assms by (simp add: write_preamble_open_def tag_defs)
  show ?thesis
    using assms
    by (simp add: writePreamble_def o writeInitialResources_empty tag_defs)
qed


lemma writePostamble_chunks:
  "writePostamble fl d rs =
     d @ (if enableFloat fl \<and> flushed rs AND BODY \<noteq> 0
          then [Chunk (js ''</''), Chunk (js ''body''), Chunk (js ''>'')] else [])
       @ (if enableFloat fl \<and> flushed rs AND HTML \<noteq> 0
          then [Chunk (js ''</''), Chunk (js ''html''), Chunk (js ''>'')] else [])"
  by (simp add: writePostamble_def Let_def NONE_def endTag1_def endTag2_def stringToChunk_def
      stringToPrecomputedChunk_def)

text \<open>
  C4 (amended). On a response on which nothing was rendered (no rendered or flushed flag,
  no buffered html, head, charset or hoistable chunk, an empty registry, no external
  runtime to send), with float enabled: when the response requires embedding,
  \<open>writePreamble\<close> followed by \<open>writePostamble\<close> writes exactly
  \<open><!DOCTYPE html><html><head></head><body></body></html>\<close>; when it does not, they write
  nothing. The postamble writes \<open></body>\<close> if body was flushed and then \<open></html>\<close> if html
  was flushed.
\<close>

theorem writePreamble_writePostamble_empty:
  assumes "enableFloat fl" "rendered rs = NONE" "flushed rs = NONE"
    "htmlChunks rs = []" "headChunks rs = []" "charsetChunks rs = []" "hoistableChunks rs = []"
    "\<not> (enableFizzExternalRuntime fl \<and> externalRuntimeConfig rs \<noteq> None \<and> w)"
  shows "(\<exists>d r rs' ok. writePreamble fl ex [] createResources rs w = Inr (d, r, rs', ok)
            \<and> written_text code (writePostamble fl d rs') =
                (if requiresEmbedding rs
                 then js ''<!DOCTYPE html><html><head></head><body></body></html>'' else []))
         \<and> writePostamble fl d0 rs0 =
              d0 @ (if flushed rs0 AND BODY \<noteq> 0
                    then [Chunk (js ''</''), Chunk (js ''body''), Chunk (js ''>'')] else [])
                 @ (if flushed rs0 AND HTML \<noteq> 0
                    then [Chunk (js ''</''), Chunk (js ''html''), Chunk (js ''>'')] else [])"
proof (intro conjI)
  show "\<exists>d r rs' ok. writePreamble fl ex [] createResources rs w = Inr (d, r, rs', ok)
            \<and> written_text code (writePostamble fl d rs') =
                (if requiresEmbedding rs
                 then js ''<!DOCTYPE html><html><head></head><body></body></html>'' else [])"
  proof (cases "requiresEmbedding rs")
    case True
    have p: "writePreamble fl ex [] createResources rs w =
       Inr ([] @ [DOCTYPE, Chunk (js ''<html''), endOfStartTag, Chunk (js ''<head''),
                  endOfStartTag, endTag1, Chunk (js ''head''), endTag2, Chunk (js ''<body''),
                  endOfStartTag],
            createResources, rs\<lparr>flushed := 7\<rparr>, True)"
      using assms True by (intro writePreamble_empty_embedding) simp_all
    show ?thesis
      unfolding p using True assms(1)
      by (auto simp: writePostamble_chunks written_text_def tag_defs DOCTYPE_def
          endOfStartTag_def endTag1_def endTag2_def stringToPrecomputedChunk_def js_def)
  next
    case False
    have p: "writePreamble fl ex [] createResources rs w = Inr ([], createResources, rs, True)"
      using assms False by (intro writePreamble_empty_plain) simp_all
    show ?thesis
      unfolding p using False assms
      by (auto simp: writePostamble_chunks written_text_def tag_defs)
  qed
next
  show "writePostamble fl d0 rs0 =
              d0 @ (if flushed rs0 AND BODY \<noteq> 0
                    then [Chunk (js ''</''), Chunk (js ''body''), Chunk (js ''>'')] else [])
                 @ (if flushed rs0 AND HTML \<noteq> 0
                    then [Chunk (js ''</''), Chunk (js ''html''), Chunk (js ''>'')] else [])"
    using assms(1) by (simp add: writePostamble_chunks)
qed

theorem writePreamble_writePostamble_empty_witness:
  "enableFloat production_flags \<and> rendered document_response = NONE
   \<and> flushed document_response = NONE \<and> htmlChunks document_response = []
   \<and> headChunks document_response = [] \<and> charsetChunks document_response = []
   \<and> hoistableChunks document_response = []
   \<and> \<not> (enableFizzExternalRuntime production_flags
          \<and> externalRuntimeConfig document_response \<noteq> None \<and> False)
   \<and> (\<exists>d r rs' ok. writePreamble production_flags plain_externals [] createResources
                       document_response False = Inr (d, r, rs', ok)
         \<and> written_text no_code (writePostamble production_flags d rs') =
             js ''<!DOCTYPE html><html><head></head><body></body></html>'')"
proof -
  have h: "enableFloat production_flags" "rendered document_response = NONE"
    "flushed document_response = NONE" "htmlChunks document_response = []"
    "headChunks document_response = []" "charsetChunks document_response = []"
    "hoistableChunks document_response = []"
    "\<not> (enableFizzExternalRuntime production_flags
          \<and> externalRuntimeConfig document_response \<noteq> None \<and> False)"
    "requiresEmbedding document_response"
    by (simp_all add: production_flags_def document_response_def NONE_def)
  show ?thesis
    using h writePreamble_writePostamble_empty [of production_flags document_response False
      plain_externals no_code "[]" document_response, OF h(1-8), THEN conjunct1]
    by simp
qed

theorem writePreamble_writePostamble_counterexample:
  "rendered stream_response = NONE \<and> flushed stream_response = NONE
   \<and> htmlChunks stream_response = [] \<and> headChunks stream_response = []
   \<and> charsetChunks stream_response = [] \<and> hoistableChunks stream_response = []
   \<and> writePreamble production_flags plain_externals [] createResources stream_response False
       = Inr ([], createResources, stream_response, True)
   \<and> writePostamble production_flags [] stream_response = []"
proof -
  have "writePreamble production_flags plain_externals [] createResources stream_response False
       = Inr ([], createResources, stream_response, True)"
    by (rule writePreamble_empty_plain)
       (simp_all add: production_flags_def stream_response_def document_response_def NONE_def)
  then show ?thesis
    by (simp add: writePostamble_chunks stream_response_def document_response_def NONE_def
        tag_defs production_flags_def)
qed

section \<open>Helper functions of the instructions are written once\<close>

lemma on_ok_eq_Inr: "on_ok m f = Inr y \<longleftrightarrow> (\<exists>x. m = Inr x \<and> f x = Inr y)"
  by (cases m) simp_all

lemma code_count_simps [simp]:
  "code_count f [] = 0"
  "code_count f (c # cs) = (if is_code f c then 1 else 0) + code_count f cs"
  "code_count f (xs @ ys) = code_count f xs + code_count f ys"
  by (simp_all add: code_count_def)

lemma is_code_plain [simp]: "is_plain c \<Longrightarrow> \<not> is_code f c"
  by (cases c) simp_all

lemma code_count_plain [simp]: "list_all is_plain cs \<Longrightarrow> code_count f cs = 0"
  by (induction cs) simp_all

lemma is_code_string [simp]:
  "\<not> is_code f (stringToChunk s)" "\<not> is_code f (stringToPrecomputedChunk s)"
  by (simp_all add: stringToChunk_def stringToPrecomputedChunk_def)

lemma writeStyleResourceAttribute_count:
  "writeStyleResourceAttribute enc ex d n v = Inr d' \<Longrightarrow> code_count f d' = code_count f d"
  by (auto simp: writeStyleResourceAttribute_def Let_def on_ok_eq_Inr writeChunk_def
      arrayInterstitial_def split: if_splits option.splits)

lemma writeStyleResourceDependency_props_count:
  "writeStyleResourceDependency_props enc ex d ps = Inr d' \<Longrightarrow> code_count f d' = code_count f d"
proof (induction ps arbitrary: d)
  case Nil
  then show ?case by simp
next
  case (Cons p ps)
  obtain k v where p: "p = (k, v)" by (cases p)
  show ?case using Cons.prems Cons.IH unfolding p
    by (auto simp: on_ok_eq_Inr dest: writeStyleResourceAttribute_count split: if_splits)
qed

lemma writeStyleResourceDependency_count:
  "writeStyleResourceDependency enc ex d h p ps = Inr d' \<Longrightarrow> code_count f d' = code_count f d"
  by (auto simp: writeStyleResourceDependency_def on_ok_eq_Inr arrayInterstitial_def
      dest!: writeStyleResourceDependency_props_count [where f = f] split: option.splits)

lemma nth_update_flushed_inShell:
  "style_inShell ((xs[i := (xs ! i)\<lparr>style_flushed := True\<rparr>]) ! j) = style_inShell (xs ! j)"
proof (cases "i < length xs")
  case True
  then show ?thesis by (cases "i = j") simp_all
next
  case False
  then have "xs[i := (xs ! i)\<lparr>style_flushed := True\<rparr>] = xs"
    by (simp add: list_update_beyond)
  then show ?thesis by simp
qed

lemma write_dependency_frame:
  assumes "write_dependency enc ex (d, r, n) j = Inr (d', r', n')" "is_plain n"
  shows "code_count f d' = code_count f d \<and> is_plain n' \<and> boundary_store r' = boundary_store r
         \<and> (\<forall>k. style_inShell (style_store r' ! k) = style_inShell (style_store r ! k))"
  using assms
  by (auto simp: write_dependency_def on_ok_eq_Inr writeChunk_def arrayCloseBracket_def
      arraySubsequentOpenBracket_def set_preload_flushed_def nth_update_flushed_inShell
      writeStyleResourceDependencyHrefOnly_def stringToPrecomputedChunk_def
      dest!: writeStyleResourceDependency_count [where f = f] split: if_splits)

lemma forEach_write_dependency_frame:
  assumes "forEach (write_dependency enc ex) xs (d, r, n) = Inr (d', r', n')" "is_plain n"
  shows "code_count f d' = code_count f d \<and> is_plain n' \<and> boundary_store r' = boundary_store r
         \<and> (\<forall>k. style_inShell (style_store r' ! k) = style_inShell (style_store r ! k))"
  using assms
proof (induction xs arbitrary: d r n)
  case Nil
  then show ?case by simp
next
  case (Cons j xs)
  from Cons.prems(1) obtain d1 r1 n1 where
    s: "write_dependency enc ex (d, r, n) j = Inr (d1, r1, n1)"
    and t: "forEach (write_dependency enc ex) xs (d1, r1, n1) = Inr (d', r', n')"
    by (auto split: sum.splits)
  from write_dependency_frame [OF s Cons.prems(2), of f] Cons.IH [OF t]
  show ?case by simp
qed

lemma writeStyleResourceDependencies_frame:
  assumes "writeStyleResourceDependencies enc ex d r b = Inr (d', r')"
  shows "code_count f d' = code_count f d \<and> boundary_store r' = boundary_store r
         \<and> (\<forall>k. style_inShell (style_store r' ! k) = style_inShell (style_store r ! k))"
proof -
  from assms obtain d1 n1 where
    l: "forEach (write_dependency enc ex) (boundary_store r ! b)
          (writeChunk d arrayFirstOpenBracket, r, arrayFirstOpenBracket) = Inr (d1, r', n1)"
    and d': "d' = writeChunk d1 arrayCloseBracket"
    by (auto simp: writeStyleResourceDependencies_def on_ok_eq_Inr)
  have p: "is_plain arrayFirstOpenBracket"
    by (simp add: arrayFirstOpenBracket_def stringToPrecomputedChunk_def)
  from forEach_write_dependency_frame [OF l p, of f] show ?thesis
    by (simp add: d' writeChunk_def arrayCloseBracket_def arrayFirstOpenBracket_def)
qed

lemma hasStyleResourceDependencies_frame:
  "boundary_store r' = boundary_store r
   \<Longrightarrow> (\<forall>k. style_inShell (style_store r' ! k) = style_inShell (style_store r ! k))
   \<Longrightarrow> hasStyleResourceDependencies r' b = hasStyleResourceDependencies r b"
  by (simp add: hasStyleResourceDependencies_def)

lemma plain_response_sent [simp]:
  "plain_response (rs\<lparr>sentCompleteSegmentFunction := b\<rparr>) = plain_response rs"
  "plain_response (rs\<lparr>sentCompleteBoundaryFunction := b\<rparr>) = plain_response rs"
  "plain_response (rs\<lparr>sentCompleteContainerFunction := b\<rparr>) = plain_response rs"
  "plain_response (rs\<lparr>sentClientRenderFunction := b\<rparr>) = plain_response rs"
  "plain_response (rs\<lparr>sentStyleInsertionFunction := b\<rparr>) = plain_response rs"
  by (simp_all add: plain_response_def)

lemma scriptFormat_sent [simp]:
  "scriptFormat fl (rs\<lparr>sentCompleteSegmentFunction := b\<rparr>) = scriptFormat fl rs"
  "scriptFormat fl (rs\<lparr>sentCompleteBoundaryFunction := b\<rparr>) = scriptFormat fl rs"
  "scriptFormat fl (rs\<lparr>sentCompleteContainerFunction := b\<rparr>) = scriptFormat fl rs"
  "scriptFormat fl (rs\<lparr>sentClientRenderFunction := b\<rparr>) = scriptFormat fl rs"
  "scriptFormat fl (rs\<lparr>sentStyleInsertionFunction := b\<rparr>) = scriptFormat fl rs"
  by (simp_all add: scriptFormat_def)

lemmas instruction_chunk_defs =
  completeSegmentScript1Full_def completeSegmentScript1Partial_def completeSegmentScript2_def
  completeSegmentScriptEnd_def completeBoundaryFunction_def completeContainerFunction_def
  styleInsertionFunction_def completeBoundaryScript1_def completeBoundaryWithStylesScript1_def
  completeContainerScript1_def completeContainerWithStylesScript1_def
  completeBoundaryOrContainerScript2_def completeBoundaryOrContainerScript2a_def
  completeBoundaryOrContainerScript3_def completeBoundaryOrContainerScriptEnd_def
  bootstrapContainerOpenStart_def bootstrapContainerOpenEnd_def bootstrapContainerClose_def
  clientRenderScript1Full_def clientRenderScript1Partial_def clientRenderScript1A_def
  clientRenderErrorScriptArgInterstitial_def clientRenderScriptEnd_def clonePrecomputedChunk_def

lemma segment_step:
  assumes "scriptFormat fl rs" "plain_response rs"
    "writeCompletedSegmentInstruction fl d rs n = (d', rs', ok)"
  shows "code_count f d' =
           code_count f d + (if f = completeSegmentFunctionString \<and> \<not> sent f rs then 1 else 0)"
    and "sent f rs' = (sent f rs \<or> f = completeSegmentFunctionString)"
    and "scriptFormat fl rs'" and "plain_response rs'"
    and "containerBoundaryID rs' = containerBoundaryID rs"
proof -
  have e: "d' = d @ [startInlineScript rs,
                     if \<not> sentCompleteSegmentFunction rs
                     then completeSegmentScript1Full else completeSegmentScript1Partial,
                     segmentPrefix rs, stringToChunk (toString16 n), completeSegmentScript2,
                     placeholderPrefix rs, stringToChunk (toString16 n),
                     completeSegmentScriptEnd]"
    and r: "rs' = rs\<lparr>sentCompleteSegmentFunction := True\<rparr>"
    using assms(1,3)
    by (auto simp: writeCompletedSegmentInstruction_def Let_def writeChunkAndReturn_def)
  show "code_count f d' =
           code_count f d + (if f = completeSegmentFunctionString \<and> \<not> sent f rs then 1 else 0)"
    using assms(2) unfolding e
    by (cases f) (auto simp: plain_response_def instruction_chunk_defs)
  show "sent f rs' = (sent f rs \<or> f = completeSegmentFunctionString)"
    unfolding r by (cases f) simp_all
  show "scriptFormat fl rs'" "plain_response rs'"
    "containerBoundaryID rs' = containerBoundaryID rs"
    using assms(1,2) unfolding r by simp_all
qed

lemma client_render_argument_count:
  "client_render_argument ex True c str = Inr a \<Longrightarrow> code_count f a = 0"
  by (auto simp: client_render_argument_def on_ok_eq_Inr instruction_chunk_defs)

lemma client_render_arguments_count:
  "client_render_arguments ex True dg msg stack = Inr a \<Longrightarrow> code_count f a = 0"
  by (auto simp: client_render_arguments_def on_ok_eq_Inr
      dest!: client_render_argument_count [where f = f] split: if_splits)

lemma client_render_step:
  assumes "scriptFormat fl rs" "plain_response rs"
    "case boundaryID of Some (object, c) \<Rightarrow> is_plain c | None \<Rightarrow> True"
    "writeClientRenderBoundaryInstruction fl ex d rs boundaryID dg msg stack = Inr (d', rs', ok)"
  shows "code_count f d' =
           code_count f d + (if f = clientRenderFunctionString
                                \<and> boundaryID \<noteq> containerBoundaryID rs \<and> \<not> sent f rs
                             then 1 else 0)"
    and "sent f rs' =
           (sent f rs \<or> (f = clientRenderFunctionString \<and> boundaryID \<noteq> containerBoundaryID rs))"
    and "scriptFormat fl rs'" and "plain_response rs'"
    and "containerBoundaryID rs' = containerBoundaryID rs"
proof -
  show "code_count f d' =
           code_count f d + (if f = clientRenderFunctionString
                                \<and> boundaryID \<noteq> containerBoundaryID rs \<and> \<not> sent f rs
                             then 1 else 0)"
  proof (cases "boundaryID = containerBoundaryID rs")
    case True
    then show ?thesis using assms(2,4)
      by (auto simp: writeClientRenderBoundaryInstruction_def Let_def write_all_append
          plain_response_def split: option.splits)
  next
    case False
    then obtain obj bid a where b: "boundaryID = Some (obj, bid)"
      and a: "client_render_arguments ex True dg msg stack = Inr a"
      and e: "d' = (d @ ([startInlineScript rs,
                          if \<not> sentClientRenderFunction rs
                          then clientRenderScript1Full else clientRenderScript1Partial]
                         @ [bid] @ [clientRenderScript1A])) @ a @ [clientRenderScriptEnd]"
      using assms(1,4)
      by (auto simp: writeClientRenderBoundaryInstruction_def Let_def on_ok_eq_Inr
          writeChunkAndReturn_def split: option.splits)
    show ?thesis using assms(2,3) False client_render_arguments_count [OF a, of f] unfolding e b
      by (cases f) (auto simp: plain_response_def instruction_chunk_defs)
  qed
  show "sent f rs' =
           (sent f rs \<or> (f = clientRenderFunctionString \<and> boundaryID \<noteq> containerBoundaryID rs))"
    using assms(1,4)
    by (cases f)
       (auto simp: writeClientRenderBoundaryInstruction_def Let_def on_ok_eq_Inr
          writeChunkAndReturn_def write_all_append split: option.splits if_splits)
  show "scriptFormat fl rs'" "plain_response rs'"
    "containerBoundaryID rs' = containerBoundaryID rs"
    using assms(1,2,4)
    by (auto simp: writeClientRenderBoundaryInstruction_def Let_def on_ok_eq_Inr
          writeChunkAndReturn_def write_all_append split: option.splits if_splits)
qed


lemma write_bootstrap_container_count:
  "plain_response rs \<Longrightarrow> is_plain c
     \<Longrightarrow> code_count f (write_bootstrap_container d rs c) = code_count f d"
  by (simp add: write_bootstrap_container_def plain_response_def instruction_chunk_defs)

lemma write_all_nonempty:
  "(if cs \<noteq> [] then write_all d cs else (d, True)) = (d @ cs, True)"
  by (simp add: write_all_append)

lemma boundary_step:
  assumes sf: "scriptFormat fl rs" and pl: "plain_response rs" and pb: "is_plain bid"
    and w: "writeCompletedBoundaryInstruction fl ex d rs (Some (obj, bid)) n b r = Inr (d', rs', r', ok)"
  shows "code_count f d' =
           code_count f d + (if instruction_uses fl rs r (CompletedBoundary (Some (obj, bid)) n b) f
                                \<and> \<not> sent f rs then 1 else 0)"
    and "sent f rs' = (sent f rs \<or> instruction_uses fl rs r (CompletedBoundary (Some (obj, bid)) n b) f)"
    and "scriptFormat fl rs'" and "plain_response rs'"
    and "containerBoundaryID rs' = containerBoundaryID rs"
    and "boundary_store r' = boundary_store r"
    and "\<forall>k. style_inShell (style_store r' ! k) = style_inShell (style_store r ! k)"
proof -
  let ?deps = "enableFloat fl \<and> hasStyleResourceDependencies r b"
  let ?container = "Some (obj, bid) = containerBoundaryID rs"
  have all: "code_count f d' =
           code_count f d + (if instruction_uses fl rs r (CompletedBoundary (Some (obj, bid)) n b) f
                                \<and> \<not> sent f rs then 1 else 0)
    \<and> sent f rs' = (sent f rs \<or> instruction_uses fl rs r (CompletedBoundary (Some (obj, bid)) n b) f)
    \<and> scriptFormat fl rs' \<and> plain_response rs'
    \<and> containerBoundaryID rs' = containerBoundaryID rs
    \<and> boundary_store r' = boundary_store r
    \<and> (\<forall>k. style_inShell (style_store r' ! k) = style_inShell (style_store r ! k))"
  proof (cases ?deps)
    case True
    define d1 where "d1 = (if ?container
                           then write_bootstrap_container d rs (stringToChunk (toString16 n))
                           else d)"
    define hd where "hd = [startInlineScript rs]
                          @ (if \<not> sentStyleInsertionFunction rs
                             then [clonePrecomputedChunk styleInsertionFunction] else [])
                          @ (if ?container then
                               (if \<not> sentCompleteContainerFunction rs
                                then [completeContainerFunction] else [])
                               @ [completeContainerWithStylesScript1]
                             else
                               (if \<not> sentCompleteBoundaryFunction rs
                                then [completeBoundaryFunction] else [])
                               @ [completeBoundaryWithStylesScript1])
                          @ [bid, completeBoundaryOrContainerScript2, segmentPrefix rs,
                             stringToChunk (toString16 n)]
                          @ [completeBoundaryOrContainerScript2a]"
    define rs1 where "rs1 = (if ?container
                       then rs\<lparr>sentStyleInsertionFunction := True,
                               sentCompleteContainerFunction := True\<rparr>
                       else rs\<lparr>sentStyleInsertionFunction := True,
                               sentCompleteBoundaryFunction := True\<rparr>)"
    have eq: "writeCompletedBoundaryInstruction fl ex d rs (Some (obj, bid)) n b r =
        on_ok (writeStyleResourceDependencies (encode_in_js ex) ex (d1 @ hd) r b)
          (\<lambda>(d3, r1). Inr (d3 @ [completeBoundaryOrContainerScriptEnd], rs1, r1, True))"
      unfolding d1_def hd_def rs1_def
      by (simp only: writeCompletedBoundaryInstruction_def option.case Let_def True sf if_True
          simp_thms writeChunkAndReturn_def writeStyleResourceDependenciesInJS_def
          writeChunks_append prod.case)
    from w [unfolded eq] obtain d3 where
      dep: "writeStyleResourceDependencies (encode_in_js ex) ex (d1 @ hd) r b = Inr (d3, r')"
      and d': "d' = d3 @ [completeBoundaryOrContainerScriptEnd]"
      and rs': "rs' = rs1"
      by (auto simp: on_ok_eq_Inr)
    note fr = writeStyleResourceDependencies_frame [OF dep, of f]
    have c1: "code_count f d1 = code_count f d"
      using pl by (simp add: d1_def write_bootstrap_container_count stringToChunk_def)
    have ch: "code_count f hd =
                (if instruction_uses fl rs r (CompletedBoundary (Some (obj, bid)) n b) f \<and> \<not> sent f rs
                 then 1 else 0)"
      using pl pb True unfolding hd_def
      by (cases f) (auto simp: plain_response_def instruction_chunk_defs)
    have s: "sent f rs' = (sent f rs \<or> instruction_uses fl rs r (CompletedBoundary (Some (obj, bid)) n b) f)"
      using True unfolding rs' rs1_def by (cases f) auto
    have k: "scriptFormat fl rs'" "plain_response rs'"
      "containerBoundaryID rs' = containerBoundaryID rs"
      using sf pl unfolding rs' rs1_def by auto
    have e: "code_count f d' = code_count f d3"
      unfolding d' by (simp add: instruction_chunk_defs)
    show ?thesis using fr c1 ch s k e by simp
  next
    case False
    show ?thesis
    proof (cases ?container)
      case True
      note cont = True [symmetric]
      from w False cont sf have
        d': "d' = (d @ ([startInlineScript rs]
                         @ (if \<not> sentCompleteContainerFunction rs
                            then [completeContainerFunction] else [])
                         @ [completeContainerScript1]
                         @ [bid, completeBoundaryOrContainerScript2, segmentPrefix rs,
                            stringToChunk (toString16 n)]
                         @ [completeBoundaryOrContainerScript3])
                    @ [completeBoundaryOrContainerScriptEnd]) @ bootstrapChunks rs"
        and rs': "rs' = rs\<lparr>sentCompleteContainerFunction := True\<rparr>" and r': "r' = r"
        by (auto simp: writeCompletedBoundaryInstruction_def Let_def writeChunkAndReturn_def
            write_all_nonempty)
      show ?thesis using pl pb False cont sf unfolding d' rs' r'
        by (cases f) (auto simp: plain_response_def instruction_chunk_defs)
    next
      case nc: False
      from w False nc sf have
        d': "d' = d @ ([startInlineScript rs]
                         @ (if \<not> sentCompleteBoundaryFunction rs
                            then [completeBoundaryFunction] else [])
                         @ [completeBoundaryScript1]
                         @ [bid, completeBoundaryOrContainerScript2, segmentPrefix rs,
                            stringToChunk (toString16 n)]
                         @ [completeBoundaryOrContainerScript3])
                    @ [completeBoundaryOrContainerScriptEnd]"
        and rs': "rs' = rs\<lparr>sentCompleteBoundaryFunction := True\<rparr>" and r': "r' = r"
        by (auto simp: writeCompletedBoundaryInstruction_def Let_def writeChunkAndReturn_def)
      show ?thesis using pl pb False nc sf unfolding d' rs' r'
        by (cases f) (auto simp: plain_response_def instruction_chunk_defs)
    qed
  qed
  from all show "code_count f d' =
           code_count f d + (if instruction_uses fl rs r (CompletedBoundary (Some (obj, bid)) n b) f
                                \<and> \<not> sent f rs then 1 else 0)"
    and "sent f rs' = (sent f rs \<or> instruction_uses fl rs r (CompletedBoundary (Some (obj, bid)) n b) f)"
    and "scriptFormat fl rs'" and "plain_response rs'"
    and "containerBoundaryID rs' = containerBoundaryID rs"
    and "boundary_store r' = boundary_store r"
    and "\<forall>k. style_inShell (style_store r' ! k) = style_inShell (style_store r ! k)"
    by blast+
qed


lemma instruction_uses_frame:
  assumes "containerBoundaryID rs' = containerBoundaryID rs"
    "boundary_store r' = boundary_store r"
    "\<forall>k. style_inShell (style_store r' ! k) = style_inShell (style_store r ! k)"
  shows "instruction_uses fl rs' r' i f = instruction_uses fl rs r i f"
  using assms hasStyleResourceDependencies_frame [OF assms(2,3)] by (cases i) simp_all

lemma write_instruction_step:
  assumes sf: "scriptFormat fl rs" and pl: "plain_response rs" and pi: "plain_instruction i"
    and w: "write_instruction fl ex (d, rs, r) i = Inr (d', rs', r')"
  shows "code_count f d' =
           code_count f d + (if instruction_uses fl rs r i f \<and> \<not> sent f rs then 1 else 0)"
    and "sent f rs' = (sent f rs \<or> instruction_uses fl rs r i f)"
    and "scriptFormat fl rs'" and "plain_response rs'"
    and "instruction_uses fl rs' r' j g = instruction_uses fl rs r j g"
proof -
  have all: "code_count f d' =
           code_count f d + (if instruction_uses fl rs r i f \<and> \<not> sent f rs then 1 else 0)
    \<and> sent f rs' = (sent f rs \<or> instruction_uses fl rs r i f)
    \<and> scriptFormat fl rs' \<and> plain_response rs'
    \<and> instruction_uses fl rs' r' j g = instruction_uses fl rs r j g"
  proof (cases i)
    case (CompletedSegment n)
    from w obtain ok where s: "writeCompletedSegmentInstruction fl d rs n = (d', rs', ok)"
      and r': "r' = r"
      unfolding CompletedSegment by (auto split: prod.splits)
    note st = segment_step [OF sf pl s]
    from st(5) have "instruction_uses fl rs' r' j g = instruction_uses fl rs r j g"
      unfolding r' by (intro instruction_uses_frame) simp_all
    with st(1) [of f] st(2) [of f] st(3,4) show ?thesis
      unfolding CompletedSegment by simp
  next
    case (CompletedBoundary boundaryID n b)
    from w obtain ok where
      s: "writeCompletedBoundaryInstruction fl ex d rs boundaryID n b r = Inr (d', rs', r', ok)"
      unfolding CompletedBoundary by (auto simp: on_ok_eq_Inr)
    have "writeCompletedBoundaryInstruction fl ex d rs None n b r =
            Inl (Error ''An ID must have been assigned before we can complete the boundary.'')"
      by (simp add: writeCompletedBoundaryInstruction_def)
    with s have "boundaryID \<noteq> None" by (cases boundaryID) simp_all
    then obtain obj bid where bid: "boundaryID = Some (obj, bid)"
      by (cases boundaryID) auto
    from pi have pb: "is_plain bid" unfolding CompletedBoundary bid by simp
    note st = boundary_step [OF sf pl pb s [unfolded bid]]
    from st(5,6,7) have "instruction_uses fl rs' r' j g = instruction_uses fl rs r j g"
      by (intro instruction_uses_frame)
    with st(1) [of f] st(2) [of f] st(3,4) show ?thesis
      unfolding CompletedBoundary bid by simp
  next
    case (ClientRender boundaryID dg msg stack)
    from w obtain ok where
      s: "writeClientRenderBoundaryInstruction fl ex d rs boundaryID dg msg stack
            = Inr (d', rs', ok)"
      and r': "r' = r"
      unfolding ClientRender by (auto simp: on_ok_eq_Inr)
    from pi have pb: "case boundaryID of Some (object, c) \<Rightarrow> is_plain c | None \<Rightarrow> True"
      unfolding ClientRender by simp
    note st = client_render_step [OF sf pl pb s]
    from st(5) have "instruction_uses fl rs' r' j g = instruction_uses fl rs r j g"
      unfolding r' by (intro instruction_uses_frame) simp_all
    with st(1) [of f] st(2) [of f] st(3,4) show ?thesis
      unfolding ClientRender by auto
  qed
  from all show "code_count f d' =
           code_count f d + (if instruction_uses fl rs r i f \<and> \<not> sent f rs then 1 else 0)"
    and "sent f rs' = (sent f rs \<or> instruction_uses fl rs r i f)"
    and "scriptFormat fl rs'" and "plain_response rs'"
    and "instruction_uses fl rs' r' j g = instruction_uses fl rs r j g"
    by blast+
qed


lemma bootstrap_chunks_plain:
  "is_plain c \<Longrightarrow> list_all is_plain (bootstrap_chunks ex c content scs mods)"
  by (auto simp: bootstrap_chunks_def bootstrap_script_chunks_def list_all_iff
      stringToChunk_def startScriptSrc_def startModuleSrc_def scriptIntegirty_def
      endAsyncScript_def endInlineScript_def stringToPrecomputedChunk_def
      split: option.splits)

lemma createResponseState_plain:
  assumes "createResponseState fl ex identifierPrefix nonce content scs mods
             fcontent fscs fmods runtime containerID documentEmbedding = Inr rs"
  shows "plain_response rs" and "\<not> sent f rs"
    and "case containerBoundaryID rs of Some (object, c) \<Rightarrow> is_plain c | None \<Rightarrow> True"
proof -
  define c where "c = (case nonce of
               None \<Rightarrow> startInlineScriptChunk
             | Some n \<Rightarrow> stringToPrecomputedChunk
                          (js ''<script nonce=\"'' @ escapeTextForBrowser ex n @ js ''\">''))"
  have pc: "is_plain c"
    by (simp add: c_def startInlineScriptChunk_def stringToPrecomputedChunk_def
        split: option.splits)
  note bc = bootstrap_chunks_plain [OF pc]
  from assms show "plain_response rs"
    using pc bc [of ex content scs mods] bc [of ex fcontent fscs fmods]
    by (auto simp: createResponseState_def Let_def plain_response_def c_def [symmetric]
        stringToPrecomputedChunk_def split: if_splits)
  from assms show "\<not> sent f rs"
    by (cases f) (auto simp: createResponseState_def Let_def split: if_splits)
  from assms show "case containerBoundaryID rs of Some (object, c) \<Rightarrow> is_plain c | None \<Rightarrow> True"
    by (auto simp: createResponseState_def Let_def stringToPrecomputedChunk_def
        split: if_splits option.splits)
qed

lemma assignSuspenseBoundaryID_plain:
  "assignSuspenseBoundaryID rs = (Some (obj, c), rs') \<Longrightarrow> is_plain c"
  by (auto simp: assignSuspenseBoundaryID_def stringToPrecomputedChunk_def)

lemma assignSuspenseBoundaryID_object:
  "assignSuspenseBoundaryID rs = (boundaryID, rs')
     \<Longrightarrow> \<exists>c. boundaryID = Some (BoundaryChunk (nextSuspenseID rs), c)
               \<and> nextSuspenseID rs' = nextSuspenseID rs + 1
               \<and> containerBoundaryID rs' = containerBoundaryID rs"
  by (auto simp: assignSuspenseBoundaryID_def)

lemma createResponseState_container:
  assumes "createResponseState fl ex identifierPrefix nonce content scs mods
             fcontent fscs fmods runtime containerID documentEmbedding = Inr rs"
  shows "containerBoundaryID rs = None \<or> (\<exists>c. containerBoundaryID rs = Some (ContainerChunk, c))"
  using assms
  by (auto simp: createResponseState_def Let_def split: if_splits option.splits)

lemma assigned_not_container:
  assumes "containerBoundaryID rs = None \<or> (\<exists>c. containerBoundaryID rs = Some (ContainerChunk, c))"
    "assignSuspenseBoundaryID rs = (boundaryID, rs')"
  shows "boundaryID \<noteq> containerBoundaryID rs'" "boundaryID \<noteq> None"
    "containerBoundaryID rs' = None \<or> (\<exists>c. containerBoundaryID rs' = Some (ContainerChunk, c))"
  using assms by (auto simp: assignSuspenseBoundaryID_def)


lemma write_instructions_count:
  assumes "scriptFormat fl rs" "plain_response rs" "list_all plain_instruction ins"
    "forEach (write_instruction fl ex) ins (d, rs, r) = Inr (d', rs', r')"
  shows "code_count f d' =
           code_count f d
           + (if \<not> sent f rs \<and> list_ex (\<lambda>i. instruction_uses fl rs r i f) ins then 1 else 0)
         \<and> sent f rs' = (sent f rs \<or> list_ex (\<lambda>i. instruction_uses fl rs r i f) ins)"
  using assms
proof (induction ins arbitrary: d rs r)
  case Nil
  then show ?case by simp
next
  case (Cons i ins)
  from Cons.prems(4) obtain d1 rs1 r1 where
    s: "write_instruction fl ex (d, rs, r) i = Inr (d1, rs1, r1)"
    and t: "forEach (write_instruction fl ex) ins (d1, rs1, r1) = Inr (d', rs', r')"
    by (auto split: sum.splits)
  from Cons.prems(3) have pi: "plain_instruction i" and pis: "list_all plain_instruction ins"
    by simp_all
  note st = write_instruction_step [OF Cons.prems(1,2) pi s]
  have u: "(\<lambda>j. instruction_uses fl rs1 r1 j f) = (\<lambda>j. instruction_uses fl rs r j f)"
    using st(5) by (intro ext)
  from Cons.IH [OF st(3,4) pis t] st(1) [of f] st(2) [of f] show ?case
    unfolding u by auto
qed


section \<open>The client render instruction of an errored boundary\<close>

lemma client_render_argument_total:
  "\<exists>a. client_render_argument ex script c str = Inr a"
  by (simp add: client_render_argument_def escapeJSStrings_eq)

lemma client_render_arguments_total:
  "\<exists>a. client_render_arguments ex script dg msg stack = Inr a"
proof -
  have "\<exists>a1. (if given dg \<or> given msg \<or> given stack
            then client_render_argument ex script clientRenderData2 (or_empty dg)
            else Inr []) = Inr a1"
    using client_render_argument_total [of ex script clientRenderData2 "or_empty dg"] by simp
  then obtain a1 where a1: "(if given dg \<or> given msg \<or> given stack
            then client_render_argument ex script clientRenderData2 (or_empty dg)
            else Inr []) = Inr a1" ..
  have "\<exists>a2. (if given msg \<or> given stack
            then client_render_argument ex script clientRenderData3 (or_empty msg)
            else Inr []) = Inr a2"
    using client_render_argument_total [of ex script clientRenderData3 "or_empty msg"] by simp
  then obtain a2 where a2: "(if given msg \<or> given stack
            then client_render_argument ex script clientRenderData3 (or_empty msg)
            else Inr []) = Inr a2" ..
  have "\<exists>a3. (if given stack
            then client_render_argument ex script clientRenderData4 (or_empty stack)
            else Inr []) = Inr a3"
    using client_render_argument_total [of ex script clientRenderData4 "or_empty stack"] by simp
  then obtain a3 where a3: "(if given stack
            then client_render_argument ex script clientRenderData4 (or_empty stack)
            else Inr []) = Inr a3" ..
  show ?thesis unfolding client_render_arguments_def a1 a2 a3 by simp
qed

lemma writeClientRenderBoundaryInstruction_chunks:
  assumes "Some (obj, bid) \<noteq> containerBoundaryID rs"
    "client_render_arguments ex (scriptFormat fl rs) dg msg stack = Inr a"
  shows "writeClientRenderBoundaryInstruction fl ex d rs (Some (obj, bid)) dg msg stack =
     Inr (d @ (if scriptFormat fl rs
               then [startInlineScript rs,
                     if sentClientRenderFunction rs then clientRenderScript1Partial
                     else clientRenderScript1Full,
                     bid, clientRenderScript1A] @ a @ [clientRenderScriptEnd]
               else [clientRenderData1, bid] @ a @ [clientRenderDataEnd]),
          if scriptFormat fl rs then rs\<lparr>sentClientRenderFunction := True\<rparr> else rs, True)"
  using assms
  by (simp add: writeClientRenderBoundaryInstruction_def Let_def writeChunkAndReturn_def)

text \<open>
  C6. For a boundary with an ID of its own (the one \<open>assignSuspenseBoundaryID\<close> made when its
  placeholder was written, which is not the ID of the container) the flush of the errored
  boundary returns, and it writes: \<open><!--$!-->\<close>, the error template, the fallback content,
  \<open><!--/$-->\<close>, and then one client render instruction and nothing else. In script format
  the instruction is the inline script start, \<open>$RX("\<close> (with the function body before it,
  the first time), the ID, \<open>"\<close>, the arguments and \<open>)</script>\<close>; in data format it is
  \<open><template data-ri="x" data-bid="\<close>, the ID, the arguments and \<open>"></template>\<close>. No
  \<open>$RC\<close> instruction is written.
\<close>

theorem errored_boundary_client_render:
  assumes "Some (obj, bid) \<noteq> containerBoundaryID rs"
  shows "\<exists>a.
     client_render_arguments ex (scriptFormat fl rs) dg msg stack = Inr a
     \<and> flushClientRenderedBoundary fl ex d rs (Some (obj, bid)) fallback dg msg stack =
       Inr (d @ [startClientRenderedSuspenseBoundary, clientRenderedSuspenseBoundaryError1]
              @ (if given dg then
                   [clientRenderedSuspenseBoundaryError1A,
                    stringToChunk (escapeTextForBrowser ex (or_empty dg)),
                    clientRenderedSuspenseBoundaryErrorAttrInterstitial]
                 else [])
              @ (if DEV fl \<and> given msg then
                   [clientRenderedSuspenseBoundaryError1B,
                    stringToChunk (escapeTextForBrowser ex (or_empty msg)),
                    clientRenderedSuspenseBoundaryErrorAttrInterstitial]
                 else [])
              @ (if DEV fl \<and> given stack then
                   [clientRenderedSuspenseBoundaryError1C,
                    stringToChunk (escapeTextForBrowser ex (or_empty stack)),
                    clientRenderedSuspenseBoundaryErrorAttrInterstitial]
                 else [])
              @ [clientRenderedSuspenseBoundaryError2]
              @ fallback @ [endSuspenseBoundary]
              @ (if scriptFormat fl rs
                 then [startInlineScript rs,
                       if sentClientRenderFunction rs then clientRenderScript1Partial
                       else clientRenderScript1Full,
                       bid, clientRenderScript1A] @ a @ [clientRenderScriptEnd]
                 else [clientRenderData1, bid] @ a @ [clientRenderDataEnd]),
            if scriptFormat fl rs then rs\<lparr>sentClientRenderFunction := True\<rparr> else rs, True)"
proof -
  obtain a where a: "client_render_arguments ex (scriptFormat fl rs) dg msg stack = Inr a"
    using client_render_arguments_total by blast
  show ?thesis
    unfolding flushClientRenderedBoundary_def
    using a writeClientRenderBoundaryInstruction_chunks [OF assms a]
    by (simp add: writeEndClientRenderedSuspenseBoundary_def writeChunkAndReturn_def
        writeStartClientRenderedSuspenseBoundary_def)
qed

theorem errored_boundary_client_render_witness:
  "Some (BoundaryChunk 0, Chunk (js ''B:0'')) \<noteq> containerBoundaryID stream_response
   \<and> (\<exists>d' rs' ok.
         flushClientRenderedBoundary production_flags plain_externals [] stream_response
           (Some (BoundaryChunk 0, Chunk (js ''B:0''))) [Chunk (js ''Loading'')] (Some (js ''x1'')) None None
           = Inr (d', rs', ok)
         \<and> written_text no_code d' =
             js ''<!--$!--><template data-dgst=\"x1\"></template>Loading<!--/$--><script>$RX(\"B:0\",\"x1\")</script>'')"
proof -
  have c: "Some (BoundaryChunk 0, Chunk (js ''B:0'')) \<noteq> containerBoundaryID stream_response"
    by (simp add: stream_response_def document_response_def)
  have sf: "scriptFormat production_flags stream_response = True"
    by (simp add: scriptFormat_def production_flags_def)
  have a: "client_render_arguments plain_externals True (Some (js ''x1'')) None None
             = Inr [clientRenderErrorScriptArgInterstitial, Chunk (js ''\"x1\"'')]"
    by (simp add: client_render_arguments_def client_render_argument_def escapeJSStrings_eq
        plain_externals_sel stringToChunk_def js_def unit_of_char_def string_escape_unit_def)
  note t = errored_boundary_client_render [OF c, of plain_externals production_flags
      "Some (js ''x1'')" None None "[]" "[Chunk (js ''Loading'')]", unfolded sf a, simplified]
  show ?thesis
    using t c
    by (auto simp: written_text_def stream_response_def document_response_def
        production_flags_def plain_externals_sel stringToChunk_def stringToPrecomputedChunk_def
        startClientRenderedSuspenseBoundary_def clientRenderedSuspenseBoundaryError1_def
        clientRenderedSuspenseBoundaryError1A_def
        clientRenderedSuspenseBoundaryErrorAttrInterstitial_def
        clientRenderedSuspenseBoundaryError2_def endSuspenseBoundary_def
        clientRenderScript1Full_def clientRenderScript1A_def clientRenderScriptEnd_def
        clientRenderErrorScriptArgInterstitial_def no_code_def js_def)
qed

section \<open>A flushed font preload is written again\<close>

text \<open>
  C2. The flush of \<open>fontPreloads\<close> does not look at the \<open>flushed\<close> flag (its comment says that
  a font preload in the queue is never flushed already), while \<open>preload\<close> puts the resource
  it finds in \<open>preloadsMap\<close> into \<open>fontPreloads\<close> whether flushed or not. In the example run
  the link of the font is written by the first flush, the resource is flushed and back in the
  queue before the second flush, and the second flush writes the same link again.
\<close>

theorem font_preload_flushed_twice:
  "font_preload_twice =
     Inr (js ''<link href=\"f\" rel=\"preload\" as=\"font\" crossOrigin=\"\"/>'', True, [0],
          js ''<link href=\"f\" rel=\"preload\" as=\"font\" crossOrigin=\"\"/>'')"
  by code_simp

section \<open>Every instruction writes its invocation\<close>

lemma on_ok_assoc: "on_ok (on_ok m f) g = on_ok m (\<lambda>x. on_ok (f x) g)"
  by (cases m) simp_all

lemma on_ok_if: "on_ok (if c then a else b) f = (if c then on_ok a f else on_ok b f)"
  by simp

lemma writeStyleResourceAttribute_append:
  "writeStyleResourceAttribute enc ex (t @ s) name v =
     on_ok (writeStyleResourceAttribute enc ex s name v) (\<lambda>s'. Inr (t @ s'))"
  by (simp add: writeStyleResourceAttribute_def Let_def on_ok_assoc on_ok_if cong: if_cong)

lemma writeStyleResourceDependency_props_append:
  "writeStyleResourceDependency_props enc ex (t @ s) ps =
     on_ok (writeStyleResourceDependency_props enc ex s ps) (\<lambda>s'. Inr (t @ s'))"
proof (induction ps arbitrary: s)
  case Nil
  then show ?case by simp
next
  case (Cons p ps)
  obtain k v where p: "p = (k, v)" by (cases p)
  show ?case
    unfolding p
    using Cons.IH writeStyleResourceAttribute_append [of enc ex t s k v]
    by (cases "writeStyleResourceAttribute enc ex s k v") simp_all
qed

lemma writeStyleResourceDependency_append:
  "writeStyleResourceDependency enc ex (t @ s) href precedence ps =
     on_ok (writeStyleResourceDependency enc ex s href precedence ps) (\<lambda>s'. Inr (t @ s'))"
  by (simp add: writeStyleResourceDependency_def on_ok_assoc
      writeStyleResourceDependency_props_append [of enc ex t] split: option.splits)

lemma writeStyleResourceDependencyHrefOnly_append:
  "writeStyleResourceDependencyHrefOnly enc (t @ s) href =
     on_ok (writeStyleResourceDependencyHrefOnly enc s href) (\<lambda>s'. Inr (t @ s'))"
  by (simp add: writeStyleResourceDependencyHrefOnly_def on_ok_assoc writeChunk_def)

lemma write_dependency_append:
  "write_dependency enc ex (t @ s, r, n) x =
     on_ok (write_dependency enc ex (s, r, n) x) (\<lambda>(s', r', n'). Inr (t @ s', r', n'))"
proof -
  let ?st = "style_store r ! x"
  note h = writeStyleResourceDependencyHrefOnly_append [of enc t "s @ [n]" "style_href ?st"]
  note f = writeStyleResourceDependency_append [of enc ex t "s @ [n]" "style_href ?st"
      "style_precedence ?st" "style_props ?st"]
  show ?thesis
  proof (cases "style_inShell ?st")
    case True
    then show ?thesis by (simp add: write_dependency_def)
  next
    case False
    show ?thesis
    proof (cases "style_flushed ?st")
      case True
      then show ?thesis
        using False h
        by (cases "writeStyleResourceDependencyHrefOnly enc (s @ [n]) (style_href ?st)")
           (simp_all add: write_dependency_def writeChunk_def)
    next
      case nf: False
      then show ?thesis
        using False f
        by (cases "writeStyleResourceDependency enc ex (s @ [n]) (style_href ?st)
                     (style_precedence ?st) (style_props ?st)")
           (simp_all add: write_dependency_def writeChunk_def)
    qed
  qed
qed

lemma forEach_write_dependency_append:
  "forEach (write_dependency enc ex) q (t @ s, r, n) =
     on_ok (forEach (write_dependency enc ex) q (s, r, n))
       (\<lambda>(s', r', n'). Inr (t @ s', r', n'))"
proof (induction q arbitrary: s r n)
  case Nil
  then show ?case by simp
next
  case (Cons x q)
  show ?case
  proof (cases "write_dependency enc ex (s, r, n) x")
    case (Inl e)
    then show ?thesis using write_dependency_append [of enc ex t s r n x] by simp
  next
    case (Inr y)
    obtain s1 r1 n1 where y: "y = (s1, r1, n1)" by (cases y)
    then show ?thesis
      using write_dependency_append [of enc ex t s r n x] Inr Cons.IH [of s1 r1 n1] by simp
  qed
qed

lemma writeStyleResourceDependencies_append:
  "writeStyleResourceDependencies enc ex t r b =
     on_ok (writeStyleResourceDependencies enc ex [] r b) (\<lambda>(s, r'). Inr (t @ s, r'))"
  using forEach_write_dependency_append [of enc ex "boundary_store r ! b" t
      "[arrayFirstOpenBracket]" r arrayFirstOpenBracket]
  by (cases "forEach (write_dependency enc ex) (boundary_store r ! b)
               ([arrayFirstOpenBracket], r, arrayFirstOpenBracket)")
     (auto simp: writeStyleResourceDependencies_def writeChunk_def)

lemma written_text_simps [simp]:
  "written_text code [] = []"
  "written_text code (c # cs) = chunk_text code c @ written_text code cs"
  "written_text code (xs @ ys) = written_text code xs @ written_text code ys"
  by (simp_all add: written_text_def)

lemma segment_text:
  assumes "scriptFormat fl rs" "writeCompletedSegmentInstruction fl d rs n = (d', rs', ok)"
  shows "written_text code d' =
           written_text code d
           @ instruction_text code fl ex rs (\<lambda>g. \<not> sent g rs) r (CompletedSegment n)"
    and "startInlineScript rs' = startInlineScript rs \<and> segmentPrefix rs' = segmentPrefix rs
         \<and> placeholderPrefix rs' = placeholderPrefix rs
         \<and> bootstrapChunks rs' = bootstrapChunks rs
         \<and> fallbackBootstrapChunks rs' = fallbackBootstrapChunks rs
         \<and> containerBoundaryID rs' = containerBoundaryID rs"
  using assms
  by (auto simp: writeCompletedSegmentInstruction_def Let_def writeChunkAndReturn_def
      helper_bodies_def instruction_chunk_defs stringToPrecomputedChunk_def stringToChunk_def)

lemma client_render_text:
  assumes sf: "scriptFormat fl rs"
    and w: "writeClientRenderBoundaryInstruction fl ex d rs boundaryID dg msg stack
              = Inr (d', rs', ok)"
  shows "written_text code d' =
           written_text code d
           @ instruction_text code fl ex rs (\<lambda>g. \<not> sent g rs) r
               (ClientRender boundaryID dg msg stack)
         \<and> startInlineScript rs' = startInlineScript rs \<and> segmentPrefix rs' = segmentPrefix rs
         \<and> placeholderPrefix rs' = placeholderPrefix rs
         \<and> bootstrapChunks rs' = bootstrapChunks rs
         \<and> fallbackBootstrapChunks rs' = fallbackBootstrapChunks rs
         \<and> containerBoundaryID rs' = containerBoundaryID rs"
proof (cases "boundaryID = containerBoundaryID rs")
  case True
  then show ?thesis
    using w by (auto simp: writeClientRenderBoundaryInstruction_def Let_def write_all_append)
next
  case False
  have "writeClientRenderBoundaryInstruction fl ex d rs None dg msg stack \<noteq> Inr (d', rs', ok)"
    if "None \<noteq> containerBoundaryID rs"
    using that by (simp add: writeClientRenderBoundaryInstruction_def Let_def)
  with w False obtain obj bid where b: "boundaryID = Some (obj, bid)"
    by (cases boundaryID) auto
  obtain a where a: "client_render_arguments ex (scriptFormat fl rs) dg msg stack = Inr a"
    using client_render_arguments_total by blast
  note c = writeClientRenderBoundaryInstruction_chunks [OF False [unfolded b] a, of d]
  have d': "d' = d @ [startInlineScript rs,
                     if sentClientRenderFunction rs then clientRenderScript1Partial
                     else clientRenderScript1Full,
                     bid, clientRenderScript1A] @ a @ [clientRenderScriptEnd]"
    and rs': "rs' = rs\<lparr>sentClientRenderFunction := True\<rparr>"
    using w c sf unfolding b by simp_all
  have t: "client_render_arguments_text code ex dg msg stack = written_text code a"
    using a sf by (simp add: client_render_arguments_text_def)
  show ?thesis
    unfolding d' rs' using False b t
    by (simp add: helper_bodies_def boundary_id_text_def instruction_chunk_defs
        stringToPrecomputedChunk_def)
qed


lemma boundary_text:
  assumes sf: "scriptFormat fl rs"
    and w: "writeCompletedBoundaryInstruction fl ex d rs (Some (obj, bid)) n b r
              = Inr (d', rs', r', ok)"
  shows "written_text code d' =
           written_text code d
           @ instruction_text code fl ex rs (\<lambda>g. \<not> sent g rs) r
               (CompletedBoundary (Some (obj, bid)) n b)
         \<and> startInlineScript rs' = startInlineScript rs \<and> segmentPrefix rs' = segmentPrefix rs
         \<and> placeholderPrefix rs' = placeholderPrefix rs
         \<and> bootstrapChunks rs' = bootstrapChunks rs
         \<and> fallbackBootstrapChunks rs' = fallbackBootstrapChunks rs
         \<and> containerBoundaryID rs' = containerBoundaryID rs"
proof (cases "enableFloat fl \<and> hasStyleResourceDependencies r b")
  case True
  let ?container = "Some (obj, bid) = containerBoundaryID rs"
  define d1 where "d1 = (if ?container
                         then write_bootstrap_container d rs (stringToChunk (toString16 n))
                         else d)"
  define hd where "hd = [startInlineScript rs]
                        @ (if \<not> sentStyleInsertionFunction rs
                           then [clonePrecomputedChunk styleInsertionFunction] else [])
                        @ (if ?container then
                             (if \<not> sentCompleteContainerFunction rs
                              then [completeContainerFunction] else [])
                             @ [completeContainerWithStylesScript1]
                           else
                             (if \<not> sentCompleteBoundaryFunction rs
                              then [completeBoundaryFunction] else [])
                             @ [completeBoundaryWithStylesScript1])
                        @ [bid, completeBoundaryOrContainerScript2, segmentPrefix rs,
                           stringToChunk (toString16 n)]
                        @ [completeBoundaryOrContainerScript2a]"
  define rs1 where "rs1 = (if ?container
                     then rs\<lparr>sentStyleInsertionFunction := True,
                             sentCompleteContainerFunction := True\<rparr>
                     else rs\<lparr>sentStyleInsertionFunction := True,
                             sentCompleteBoundaryFunction := True\<rparr>)"
  have eq: "writeCompletedBoundaryInstruction fl ex d rs (Some (obj, bid)) n b r =
      on_ok (writeStyleResourceDependencies (encode_in_js ex) ex (d1 @ hd) r b)
        (\<lambda>(d3, r1). Inr (d3 @ [completeBoundaryOrContainerScriptEnd], rs1, r1, True))"
    unfolding d1_def hd_def rs1_def
    by (simp only: writeCompletedBoundaryInstruction_def option.case prod.case Let_def True sf
        if_True simp_thms writeChunkAndReturn_def writeStyleResourceDependenciesInJS_def
        writeChunks_append)
  obtain deps where
    dep: "writeStyleResourceDependencies (encode_in_js ex) ex [] r b = Inr (deps, r')"
    and d': "d' = (d1 @ hd) @ deps @ [completeBoundaryOrContainerScriptEnd]"
    and rs': "rs' = rs1"
    using w unfolding eq writeStyleResourceDependencies_append [of _ _ "d1 @ hd"]
    by (cases "writeStyleResourceDependencies (encode_in_js ex) ex [] r b") auto
  have t: "style_dependencies_text code ex r b = written_text code deps"
    using dep by (simp add: style_dependencies_text_def)
  have t1: "written_text code d1 =
              written_text code d
              @ (if ?container \<and> bootstrapChunks rs \<noteq> [] then
                   js ''<template id=\"bs:'' @ chunk_text code (segmentPrefix rs) @ toString16 n
                   @ js ''\">'' @ written_text code (bootstrapChunks rs) @ js ''</template>''
                 else [])"
    by (simp add: d1_def write_bootstrap_container_def instruction_chunk_defs
        stringToPrecomputedChunk_def stringToChunk_def)
  have t2: "written_text code hd =
              chunk_text code (startInlineScript rs)
              @ helper_bodies code (\<lambda>g. \<not> sent g rs)
                  [styleInsertionFunctionString,
                   if ?container then completeContainerFunctionString
                   else completeBoundaryFunctionString]
              @ (if ?container then js ''$RR($RK,\"'' else js ''$RR($RC,\"'')
              @ chunk_text code bid @ js ''\",\"'' @ chunk_text code (segmentPrefix rs)
              @ toString16 n @ js ''\",''"
    by (simp add: hd_def helper_bodies_def instruction_chunk_defs stringToPrecomputedChunk_def
        stringToChunk_def)
  show ?thesis
    unfolding d' rs' using True t
    by (simp add: t1 t2 rs1_def boundary_id_text_def instruction_chunk_defs
        stringToPrecomputedChunk_def Let_def)
next
  case False
  then have nd: "(enableFloat fl \<and> hasStyleResourceDependencies r b) = False" by simp
  show ?thesis
  proof (cases "Some (obj, bid) = containerBoundaryID rs")
    case True
    note cont = True [symmetric]
    from w False cont sf have
      d': "d' = (d @ ([startInlineScript rs]
                       @ (if \<not> sentCompleteContainerFunction rs
                          then [completeContainerFunction] else [])
                       @ [completeContainerScript1]
                       @ [bid, completeBoundaryOrContainerScript2, segmentPrefix rs,
                          stringToChunk (toString16 n)]
                       @ [completeBoundaryOrContainerScript3])
                  @ [completeBoundaryOrContainerScriptEnd]) @ bootstrapChunks rs"
      and rs': "rs' = rs\<lparr>sentCompleteContainerFunction := True\<rparr>"
      by (auto simp: writeCompletedBoundaryInstruction_def Let_def writeChunkAndReturn_def
          write_all_nonempty)
    show ?thesis
      unfolding d' rs' using cont
      by (simp add: js_def nd helper_bodies_def boundary_id_text_def instruction_chunk_defs
          stringToPrecomputedChunk_def stringToChunk_def Let_def)
  next
    case nc: False
    from w False nc sf have
      d': "d' = d @ ([startInlineScript rs]
                       @ (if \<not> sentCompleteBoundaryFunction rs
                          then [completeBoundaryFunction] else [])
                       @ [completeBoundaryScript1]
                       @ [bid, completeBoundaryOrContainerScript2, segmentPrefix rs,
                          stringToChunk (toString16 n)]
                       @ [completeBoundaryOrContainerScript3])
                  @ [completeBoundaryOrContainerScriptEnd]"
      and rs': "rs' = rs\<lparr>sentCompleteBoundaryFunction := True\<rparr>"
      by (auto simp: writeCompletedBoundaryInstruction_def Let_def writeChunkAndReturn_def)
    show ?thesis
      unfolding d' rs' using nc
      by (simp add: js_def nd helper_bodies_def boundary_id_text_def instruction_chunk_defs
          stringToPrecomputedChunk_def stringToChunk_def Let_def)
  qed
qed


lemma instruction_text_static:
  assumes "startInlineScript rs' = startInlineScript rs \<and> segmentPrefix rs' = segmentPrefix rs
         \<and> placeholderPrefix rs' = placeholderPrefix rs
         \<and> bootstrapChunks rs' = bootstrapChunks rs
         \<and> fallbackBootstrapChunks rs' = fallbackBootstrapChunks rs
         \<and> containerBoundaryID rs' = containerBoundaryID rs"
  shows "instruction_text code fl ex rs' fresh r i = instruction_text code fl ex rs fresh r i"
  using assms by (cases i) (auto simp: Let_def cong: if_cong split: option.splits)

lemma write_instruction_text:
  assumes sf: "scriptFormat fl rs"
    and w: "write_instruction fl ex (d, rs, r) i = Inr (d', rs', r')"
  shows "written_text code d' =
           written_text code d @ instruction_text code fl ex rs (\<lambda>g. \<not> sent g rs) r i
         \<and> startInlineScript rs' = startInlineScript rs \<and> segmentPrefix rs' = segmentPrefix rs
         \<and> placeholderPrefix rs' = placeholderPrefix rs
         \<and> bootstrapChunks rs' = bootstrapChunks rs
         \<and> fallbackBootstrapChunks rs' = fallbackBootstrapChunks rs
         \<and> containerBoundaryID rs' = containerBoundaryID rs"
proof (cases i)
  case (CompletedSegment n)
  from w obtain ok where s: "writeCompletedSegmentInstruction fl d rs n = (d', rs', ok)"
    unfolding CompletedSegment by (auto split: prod.splits)
  from segment_text(1) [OF sf s, of code ex r] segment_text(2) [OF sf s] show ?thesis
    unfolding CompletedSegment by simp
next
  case (CompletedBoundary boundaryID n b)
  from w obtain ok where
    s: "writeCompletedBoundaryInstruction fl ex d rs boundaryID n b r = Inr (d', rs', r', ok)"
    unfolding CompletedBoundary by (auto simp: on_ok_eq_Inr)
  have "writeCompletedBoundaryInstruction fl ex d rs None n b r =
          Inl (Error ''An ID must have been assigned before we can complete the boundary.'')"
    by (simp add: writeCompletedBoundaryInstruction_def)
  with s have "boundaryID \<noteq> None" by (cases boundaryID) simp_all
  then obtain obj bid where bid: "boundaryID = Some (obj, bid)"
    by (cases boundaryID) auto
  from boundary_text [OF sf s [unfolded bid], of code] show ?thesis
    unfolding CompletedBoundary bid by simp
next
  case (ClientRender boundaryID dg msg stack)
  from w obtain ok where
    s: "writeClientRenderBoundaryInstruction fl ex d rs boundaryID dg msg stack
          = Inr (d', rs', ok)"
    and r': "r' = r"
    unfolding ClientRender by (auto simp: on_ok_eq_Inr)
  from client_render_text [OF sf s, of code r] show ?thesis
    unfolding ClientRender by simp
qed

lemma write_instructions_text:
  assumes "scriptFormat fl rs" "plain_response rs" "list_all plain_instruction (pre @ i # post)"
    "forEach (write_instruction fl ex) (pre @ i # post) (d, rs, r) = Inr (d', rs', r')"
  shows "\<exists>d1 rs1 r1 d2 rs2 r2.
           forEach (write_instruction fl ex) pre (d, rs, r) = Inr (d1, rs1, r1)
           \<and> write_instruction fl ex (d1, rs1, r1) i = Inr (d2, rs2, r2)
           \<and> forEach (write_instruction fl ex) post (d2, rs2, r2) = Inr (d', rs', r')
           \<and> written_text code d2 =
               written_text code d1
               @ instruction_text code fl ex rs
                   (\<lambda>g. \<not> (sent g rs \<or> list_ex (\<lambda>j. instruction_uses fl rs r j g) pre)) r1 i"
  using assms
proof (induction pre arbitrary: d rs r)
  case Nil
  from Nil.prems(4) obtain d2 rs2 r2 where
    s: "write_instruction fl ex (d, rs, r) i = Inr (d2, rs2, r2)"
    and t: "forEach (write_instruction fl ex) post (d2, rs2, r2) = Inr (d', rs', r')"
    by (auto split: sum.splits)
  from write_instruction_text [OF Nil.prems(1) s, of code] s t show ?case by auto
next
  case (Cons j pre)
  from Cons.prems(4) obtain da rsa ra where
    s: "write_instruction fl ex (d, rs, r) j = Inr (da, rsa, ra)"
    and t: "forEach (write_instruction fl ex) (pre @ i # post) (da, rsa, ra) = Inr (d', rs', r')"
    by (auto split: sum.splits)
  from Cons.prems(3) have pj: "plain_instruction j"
    and ps: "list_all plain_instruction (pre @ i # post)" by simp_all
  note st = write_instruction_step [OF Cons.prems(1,2) pj s]
  note tx = write_instruction_text [OF Cons.prems(1) s, of code]
  from Cons.IH [OF st(3,4) ps t] obtain d1 rs1 r1 d2 rs2 r2 where
    a: "forEach (write_instruction fl ex) pre (da, rsa, ra) = Inr (d1, rs1, r1)"
    and b: "write_instruction fl ex (d1, rs1, r1) i = Inr (d2, rs2, r2)"
    and c: "forEach (write_instruction fl ex) post (d2, rs2, r2) = Inr (d', rs', r')"
    and e: "written_text code d2 =
               written_text code d1
               @ instruction_text code fl ex rsa
                   (\<lambda>g. \<not> (sent g rsa \<or> list_ex (\<lambda>j. instruction_uses fl rsa ra j g) pre)) r1 i"
    by blast
  have u: "(\<lambda>g. \<not> (sent g rsa \<or> list_ex (\<lambda>j. instruction_uses fl rsa ra j g) pre))
         = (\<lambda>g. \<not> (sent g rs \<or> list_ex (\<lambda>k. instruction_uses fl rs r k g) (j # pre)))"
    using st(2,5) by (intro ext) simp
  have v: "instruction_text code fl ex rsa
             (\<lambda>g. \<not> (sent g rs \<or> list_ex (\<lambda>k. instruction_uses fl rs r k g) (j # pre))) r1 i
         = instruction_text code fl ex rs
             (\<lambda>g. \<not> (sent g rs \<or> list_ex (\<lambda>k. instruction_uses fl rs r k g) (j # pre))) r1 i"
    using tx by (intro instruction_text_static) simp
  have f: "forEach (write_instruction fl ex) (j # pre) (d, rs, r) = Inr (d1, rs1, r1)"
    using s a by simp
  show ?case
    using f b c e unfolding u v by blast
qed

text \<open>
  C7. In script streaming format, for any sequence of instruction writes that returns, on a
  response state and boundary IDs whose chunks hold no function body (those of
  \<open>createResponseState\<close> and \<open>assignSuspenseBoundaryID\<close>, by \<open>createResponseState_plain\<close> and
  \<open>assignSuspenseBoundaryID_plain\<close>), and for each of the five helper functions \<open>f\<close>: the
  sequence writes the body of \<open>f\<close> once if its flag was not set and some instruction of the
  sequence uses \<open>f\<close>, and not at all otherwise; the flag of \<open>f\<close> is set afterwards exactly when
  it was set before or some instruction used \<open>f\<close>. And every instruction of the sequence
  writes exactly its script: the script start, the bodies of the helpers it uses that were
  not sent at the start and that no instruction before it used, and its short invocation
  (\<open>$RS("..","..")\<close>, \<open>$RC("..","..")\<close>, \<open>$RX("..")\<close> and so on, \<open>instruction_text\<close>); so the
  first instruction that uses a helper carries its body and every later one the invocation
  only.
\<close>

theorem write_instructions_once:
  assumes "scriptFormat fl rs" "plain_response rs" "list_all plain_instruction ins"
    "forEach (write_instruction fl ex) ins (d, rs, r) = Inr (d', rs', r')"
  shows "code_count f d' =
           code_count f d
           + (if \<not> sent f rs \<and> list_ex (\<lambda>i. instruction_uses fl rs r i f) ins then 1 else 0)
         \<and> sent f rs' = (sent f rs \<or> list_ex (\<lambda>i. instruction_uses fl rs r i f) ins)
         \<and> (\<forall>pre i post. ins = pre @ i # post \<longrightarrow>
               (\<exists>d1 rs1 r1 d2 rs2 r2.
                  forEach (write_instruction fl ex) pre (d, rs, r) = Inr (d1, rs1, r1)
                  \<and> write_instruction fl ex (d1, rs1, r1) i = Inr (d2, rs2, r2)
                  \<and> forEach (write_instruction fl ex) post (d2, rs2, r2) = Inr (d', rs', r')
                  \<and> written_text code d2 =
                      written_text code d1
                      @ instruction_text code fl ex rs
                          (\<lambda>g. \<not> (sent g rs
                                    \<or> list_ex (\<lambda>j. instruction_uses fl rs r j g) pre))
                          r1 i))"
proof (intro conjI allI impI)
  show "code_count f d' =
           code_count f d
           + (if \<not> sent f rs \<and> list_ex (\<lambda>i. instruction_uses fl rs r i f) ins then 1 else 0)"
    using write_instructions_count [OF assms, of f] by simp
  show "sent f rs' = (sent f rs \<or> list_ex (\<lambda>i. instruction_uses fl rs r i f) ins)"
    using write_instructions_count [OF assms, of f] by simp
next
  fix pre i post
  assume "ins = pre @ i # post"
  then show "\<exists>d1 rs1 r1 d2 rs2 r2.
                  forEach (write_instruction fl ex) pre (d, rs, r) = Inr (d1, rs1, r1)
                  \<and> write_instruction fl ex (d1, rs1, r1) i = Inr (d2, rs2, r2)
                  \<and> forEach (write_instruction fl ex) post (d2, rs2, r2) = Inr (d', rs', r')
                  \<and> written_text code d2 =
                      written_text code d1
                      @ instruction_text code fl ex rs
                          (\<lambda>g. \<not> (sent g rs
                                    \<or> list_ex (\<lambda>j. instruction_uses fl rs r j g) pre))
                          r1 i"
    using write_instructions_text [of fl rs pre i post ex d r d' rs' r' code] assms by simp
qed

theorem write_instructions_once_witness:
  "scriptFormat production_flags stream_response
   \<and> plain_response stream_response
   \<and> list_all plain_instruction
        [CompletedSegment 1, CompletedBoundary (Some (BoundaryChunk 0, Chunk (js ''B:0''))) 2 0,
         ClientRender (Some (BoundaryChunk 1, Chunk (js ''B:1''))) None None None, CompletedSegment 3,
         CompletedBoundary (Some (BoundaryChunk 2, Chunk (js ''B:2''))) 4 0]
   \<and> (\<exists>d' rs' r'.
         forEach (write_instruction production_flags plain_externals)
           [CompletedSegment 1, CompletedBoundary (Some (BoundaryChunk 0, Chunk (js ''B:0''))) 2 0,
            ClientRender (Some (BoundaryChunk 1, Chunk (js ''B:1''))) None None None, CompletedSegment 3,
            CompletedBoundary (Some (BoundaryChunk 2, Chunk (js ''B:2''))) 4 0]
           ([], stream_response, createResources\<lparr>boundary_store := [[]]\<rparr>) = Inr (d', rs', r')
         \<and> code_count completeSegmentFunctionString d' = 1
         \<and> code_count completeBoundaryFunctionString d' = 1
         \<and> code_count clientRenderFunctionString d' = 1
         \<and> code_count styleInsertionFunctionString d' = 0
         \<and> (\<exists>d2 rs2 r2.
               write_instruction production_flags plain_externals
                 ([], stream_response, createResources\<lparr>boundary_store := [[]]\<rparr>)
                 (CompletedSegment 1) = Inr (d2, rs2, r2)
               \<and> written_text example_code d2 =
                   js ''<script>/*completeSegment*/$RS(\"S:1\",\"P:1\")</script>'')
         \<and> (\<exists>d1 rs1 r1 d2 rs2 r2.
               forEach (write_instruction production_flags plain_externals)
                 [CompletedSegment 1,
                  CompletedBoundary (Some (BoundaryChunk 0, Chunk (js ''B:0''))) 2 0,
                  ClientRender (Some (BoundaryChunk 1, Chunk (js ''B:1''))) None None None]
                 ([], stream_response, createResources\<lparr>boundary_store := [[]]\<rparr>)
                 = Inr (d1, rs1, r1)
               \<and> write_instruction production_flags plain_externals (d1, rs1, r1)
                   (CompletedSegment 3) = Inr (d2, rs2, r2)
               \<and> written_text example_code d2 =
                   written_text example_code d1 @ js ''<script>$RS(\"S:3\",\"P:3\")</script>''))"
proof -
  let ?b0 = "CompletedBoundary (Some (BoundaryChunk 0, Chunk (js ''B:0''))) 2 0"
  let ?x1 = "ClientRender (Some (BoundaryChunk 1, Chunk (js ''B:1''))) None None None"
  let ?b2 = "CompletedBoundary (Some (BoundaryChunk 2, Chunk (js ''B:2''))) 4 0"
  let ?ins = "[CompletedSegment 1, ?b0, ?x1, CompletedSegment 3, ?b2]"
  let ?r = "createResources\<lparr>boundary_store := [[]]\<rparr>"
  have sf: "scriptFormat production_flags stream_response"
    by (simp add: scriptFormat_def production_flags_def)
  have pl: "plain_response stream_response"
    by (simp add: plain_response_def stream_response_def document_response_def)
  have pi: "list_all plain_instruction ?ins" by simp
  have nd: "\<not> hasStyleResourceDependencies r 0" if "boundary_store r = [[]]" for r
    using that by (simp add: hasStyleResourceDependencies_def)
  have "\<exists>x. forEach (write_instruction production_flags plain_externals) ?ins
               ([], stream_response, ?r) = Inr x"
    by (simp add: writeCompletedSegmentInstruction_def writeCompletedBoundaryInstruction_def
        writeClientRenderBoundaryInstruction_def client_render_arguments_def
        Let_def sf nd writeChunkAndReturn_def stream_response_def document_response_def
        scriptFormat_def production_flags_def write_all_nonempty)
  then obtain d' rs' r' where
    e: "forEach (write_instruction production_flags plain_externals) ?ins
          ([], stream_response, ?r) = Inr (d', rs', r')"
    by (metis prod_cases3)
  have u: "hasStyleResourceDependencies ?r 0 = False"
    by (simp add: hasStyleResourceDependencies_def)
  have c: "containerBoundaryID stream_response = None"
    by (simp add: stream_response_def document_response_def)
  have s: "\<not> sent f stream_response" for f
    by (cases f) (simp_all add: stream_response_def document_response_def)
  have counts: "code_count completeSegmentFunctionString d' = 1
         \<and> code_count completeBoundaryFunctionString d' = 1
         \<and> code_count clientRenderFunctionString d' = 1
         \<and> code_count styleInsertionFunctionString d' = 0"
    using write_instructions_once [OF sf pl pi e, of completeSegmentFunctionString, THEN conjunct1]
      write_instructions_once [OF sf pl pi e, of completeBoundaryFunctionString, THEN conjunct1]
      write_instructions_once [OF sf pl pi e, of clientRenderFunctionString, THEN conjunct1]
      write_instructions_once [OF sf pl pi e, of styleInsertionFunctionString, THEN conjunct1]
    by (simp add: u c s)
  note t = write_instructions_once [OF sf pl pi e, of completeSegmentFunctionString example_code,
      THEN conjunct2, THEN conjunct2]
  have fields: "startInlineScript stream_response = Chunk (js ''<script>'')"
    "segmentPrefix stream_response = Chunk (js ''S:'')"
    "placeholderPrefix stream_response = Chunk (js ''P:'')"
    by (simp_all add: stream_response_def document_response_def)
  have first: "\<exists>d2 rs2 r2.
               write_instruction production_flags plain_externals ([], stream_response, ?r)
                 (CompletedSegment 1) = Inr (d2, rs2, r2)
               \<and> written_text example_code d2 =
                   js ''<script>/*completeSegment*/$RS(\"S:1\",\"P:1\")</script>''"
    using t [rule_format, of "[]" "CompletedSegment 1" "[?b0, ?x1, CompletedSegment 3, ?b2]"]
    by (auto simp: s fields helper_bodies_def js_def toString16.simps)
  have later: "\<exists>d1 rs1 r1 d2 rs2 r2.
               forEach (write_instruction production_flags plain_externals)
                 [CompletedSegment 1, ?b0, ?x1] ([], stream_response, ?r) = Inr (d1, rs1, r1)
               \<and> write_instruction production_flags plain_externals (d1, rs1, r1)
                   (CompletedSegment 3) = Inr (d2, rs2, r2)
               \<and> written_text example_code d2 =
                   written_text example_code d1 @ js ''<script>$RS(\"S:3\",\"P:3\")</script>''"
    using t [rule_format, of "[CompletedSegment 1, ?b0, ?x1]" "CompletedSegment 3" "[?b2]"]
    by (auto simp: s fields helper_bodies_def js_def toString16.simps)
  show ?thesis
    using sf pl pi e counts first later by blast
qed

section \<open>The flush order of the preamble\<close>





























end
